(* ===== verification/Prelude.thy ===== *)
theory Prelude
  imports Complex_Main "HOL-Library.Stream"
begin

text \<open>
  Shared vocabulary of the DCCS development.  JavaScript numbers that the
  program uses as times or as draws of \<open>Math.random\<close> are modelled by exact
  rationals (\<open>rat\<close>); the element access of a JavaScript array, which yields
  \<open>undefined\<close> out of range, is \<open>js_index\<close> returning an option; the prefix
  \<open>Array.prototype.slice(0, end)\<close> with JavaScript's treatment of a negative
  \<open>end\<close> is \<open>js_slice0\<close>; \<open>String.prototype.toUpperCase\<close> on ASCII text
  is \<open>js_upper\<close>.  The source of randomness is the stream of values that
  successive calls of \<open>Math.random()\<close> return.
\<close>

named_theorems dccs_data "unfolding rules of the fixed stimulus and trial tables"

type_synonym ms = rat
type_synonym random_source = "rat stream"

text \<open>Uncaught JavaScript exceptions that the modelled code can raise.\<close>

datatype js_error = TypeError string

definition js_index :: "'a list \<Rightarrow> int \<Rightarrow> 'a option" where
  "js_index xs i = (if 0 \<le> i \<and> i < int (length xs) then Some (xs ! nat i) else None)"

definition js_slice0 :: "'a list \<Rightarrow> int \<Rightarrow> 'a list" where
  "js_slice0 xs e =
     take (nat (if e < 0 then max (int (length xs) + e) 0 else e)) xs"

text \<open>The general algorithm of \<open>Array.prototype.slice(start, end)\<close> for
  integer arguments (ECMAScript, 23.1.3.28): negative positions count from
  the end, both are clamped to \<open>[0, length]\<close>, and the elements from the
  start position up to the end position are returned.  It is the reference
  the specialised \<open>js_slice0\<close> is checked against.\<close>

definition js_slice :: "'a list \<Rightarrow> int \<Rightarrow> int \<Rightarrow> 'a list" where
  "js_slice xs start e =
     (let len = int (length xs);
          k = (if start < 0 then max (len + start) 0 else min start len);
          final = (if e < 0 then max (len + e) 0 else min e len)
      in take (nat (final - k)) (drop (nat k) xs))"

definition js_upper_char :: "char \<Rightarrow> char" where
  "js_upper_char c =
     (let n = (of_char c :: nat) in if 97 \<le> n \<and> n \<le> 122 then char_of (n - 32) else c)"

definition js_upper :: "string \<Rightarrow> string" where
  "js_upper s = map js_upper_char s"

text \<open>A prefix of draws all in \<open>[0, 1)\<close>, the range \<open>Math.random\<close> promises.\<close>

definition valid_draws :: "nat \<Rightarrow> random_source \<Rightarrow> bool" where
  "valid_draws k rs = list_all (\<lambda>r. 0 \<le> r \<and> r < 1) (stake k rs)"

subsection \<open>Lemmas on the JavaScript helpers\<close>

lemma js_index_Some_iff:
  "js_index xs i = Some x \<longleftrightarrow> 0 \<le> i \<and> i < int (length xs) \<and> xs ! nat i = x"
  by (auto simp: js_index_def)

lemma js_index_None_iff:
  "js_index xs i = None \<longleftrightarrow> i < 0 \<or> int (length xs) \<le> i"
  by (auto simp: js_index_def)

lemma js_index_in_set: "js_index xs i = Some x \<Longrightarrow> x \<in> set xs"
proof -
  assume "js_index xs i = Some x"
  then have "nat i < length xs" and "xs ! nat i = x"
    by (auto simp: js_index_def split: if_splits)
  then show "x \<in> set xs" by (metis nth_mem)
qed

lemma js_slice0_nonneg [simp]: "0 \<le> e \<Longrightarrow> js_slice0 xs e = take (nat e) xs"
  by (simp add: js_slice0_def)

lemma js_slice0_neg [simp]:
  "e < 0 \<Longrightarrow> js_slice0 xs e = take (nat (int (length xs) + e)) xs"
  by (simp add: js_slice0_def max_def)

lemma length_js_slice0:
  "length (js_slice0 xs e) =
     (if e < 0 then nat (int (length xs) + e) else min (nat e) (length xs))"
  by (simp add: js_slice0_def max_def min.commute)

lemma set_js_slice0: "set (js_slice0 xs e) \<subseteq> set xs"
  by (simp add: js_slice0_def set_take_subset)

lemma nth_js_slice0: "i < length (js_slice0 xs e) \<Longrightarrow> js_slice0 xs e ! i = xs ! i"
  by (simp add: js_slice0_def)

lemma valid_draws_Suc:
  "valid_draws (Suc k) rs \<longleftrightarrow> 0 \<le> shd rs \<and> shd rs < 1 \<and> valid_draws k (stl rs)"
  by (simp add: valid_draws_def)

lemma valid_draws_0 [simp]: "valid_draws 0 rs"
  by (simp add: valid_draws_def)

lemma valid_draws_snth:
  "valid_draws k rs \<longleftrightarrow> (\<forall>j<k. 0 \<le> rs !! j \<and> rs !! j < 1)"
proof (induction k arbitrary: rs)
  case 0
  then show ?case by simp
next
  case (Suc k)
  show ?case
    by (auto simp: valid_draws_Suc Suc.IH less_Suc_eq_0_disj)
qed

lemma valid_draws_add:
  "valid_draws (m + n) rs \<longleftrightarrow> valid_draws m rs \<and> valid_draws n (sdrop m rs)"
proof -
  have "(\<forall>j<m + n. P j) \<longleftrightarrow> (\<forall>j<m. P j) \<and> (\<forall>j<n. P (m + j))" for P :: "nat \<Rightarrow> bool"
    by (metis add_diff_inverse_nat add_less_cancel_left less_imp_add_positive trans_less_add1)
  then show ?thesis by (simp add: valid_draws_snth sdrop_snth)
qed

lemma valid_draws_sconst [simp]:
  "valid_draws k (sconst r) \<longleftrightarrow> k = 0 \<or> (0 \<le> r \<and> r < 1)"
  by (cases k) (auto simp: valid_draws_snth)

subsection \<open>The slice model against the language's algorithm\<close>

text \<open>\<open>js_slice0 xs e\<close>, the model of \<open>xs.slice(0, e)\<close> in
  \<open>createTimeline\<close>, computes exactly what the general ECMAScript
  \<open>slice\<close> algorithm returns for start \<open>0\<close>, for every list and every
  integer end, negative or beyond the length included.\<close>

theorem js_slice0_equiv: "js_slice0 xs e = js_slice xs 0 e"
  by (simp add: js_slice0_def js_slice_def Let_def min_def max_def not_less take_all)

end
