(* ===== verification/Stimuli.thy ===== *)
theory Stimuli
  imports Prelude
begin

text \<open>
  The data model of \<open>src/src/index.ts\<close>: the \<open>Stimulus\<close> and \<open>Trial\<close>
  interfaces as records, the fixed catalogue \<open>STIMULI\<close> as one constant per
  entry, and the three hand-authored trial tables \<open>COLOR_PRACTICE_TRIALS\<close>,
  \<open>COLOR_TEST_TRIALS\<close> and \<open>SHAPE_TEST_TRIALS\<close>.  A trial is
  well posed on a dimension (\<open>well_posed\<close>) when exactly one of its two
  choices shares the target's attribute on that dimension and \<open>correct\<close>
  indexes that choice; the lemmas show that every row of the tables is.
\<close>

record stimulus =
  img :: string
  name :: string
  shape :: string
  color :: string

text \<open>\<open>dimension\<close> is optional in the source (\<open>dimension?: string\<close>).\<close>

record trial =
  target :: stimulus
  left :: stimulus
  right :: stimulus
  correct :: int
  dimension :: "string option"

subsection \<open>The catalogue \<open>STIMULI\<close>\<close>

definition brownRabbit :: stimulus where [dccs_data]:
  "brownRabbit = \<lparr>img = ''assets/brown_rabbit.svg'', name = ''brown rabbit'',
                  shape = ''rabbit'', color = ''brown''\<rparr>"

definition whiteRabbit :: stimulus where [dccs_data]:
  "whiteRabbit = \<lparr>img = ''assets/white_rabbit.svg'', name = ''white rabbit'',
                  shape = ''rabbit'', color = ''white''\<rparr>"

definition brownBoat :: stimulus where [dccs_data]:
  "brownBoat = \<lparr>img = ''assets/brown_boat.svg'', name = ''brown boat'',
                shape = ''boat'', color = ''brown''\<rparr>"

definition whiteBoat :: stimulus where [dccs_data]:
  "whiteBoat = \<lparr>img = ''assets/white_boat.svg'', name = ''white boat'',
                shape = ''boat'', color = ''white''\<rparr>"

definition blueBall :: stimulus where [dccs_data]:
  "blueBall = \<lparr>img = ''assets/blue_ball.svg'', name = ''blue ball'',
               shape = ''ball'', color = ''blue''\<rparr>"

definition orangeTruck :: stimulus where [dccs_data]:
  "orangeTruck = \<lparr>img = ''assets/orange_truck.svg'', name = ''orange truck'',
                  shape = ''truck'', color = ''orange''\<rparr>"

definition blueTruck :: stimulus where [dccs_data]:
  "blueTruck = \<lparr>img = ''assets/blue_truck.svg'', name = ''blue truck'',
                shape = ''truck'', color = ''blue''\<rparr>"

definition orangeBall :: stimulus where [dccs_data]:
  "orangeBall = \<lparr>img = ''assets/orange_ball.svg'', name = ''orange ball'',
                 shape = ''ball'', color = ''orange''\<rparr>"

subsection \<open>The fixed trial tables\<close>

definition mk_trial :: "stimulus \<Rightarrow> stimulus \<Rightarrow> stimulus \<Rightarrow> int \<Rightarrow> trial" where
  "mk_trial t l r c = \<lparr>target = t, left = l, right = r, correct = c, dimension = None\<rparr>"

definition COLOR_PRACTICE_TRIALS :: "trial list" where [dccs_data]:
  "COLOR_PRACTICE_TRIALS = [
     mk_trial brownRabbit brownBoat whiteRabbit 0,
     mk_trial whiteBoat brownBoat whiteRabbit 1,
     mk_trial brownBoat brownBoat whiteRabbit 0,
     mk_trial whiteRabbit brownBoat whiteRabbit 1,
     mk_trial brownRabbit whiteRabbit brownBoat 1]"

definition COLOR_TEST_TRIALS :: "trial list" where [dccs_data]:
  "COLOR_TEST_TRIALS = [
     mk_trial blueTruck blueBall orangeTruck 0,
     mk_trial orangeBall blueBall orangeTruck 1,
     mk_trial blueBall orangeTruck blueBall 1,
     mk_trial orangeTruck blueBall orangeTruck 1,
     mk_trial blueTruck orangeTruck blueBall 1]"

definition SHAPE_TEST_TRIALS :: "trial list" where [dccs_data]:
  "SHAPE_TEST_TRIALS = [
     mk_trial orangeBall blueBall orangeTruck 0,
     mk_trial blueTruck blueBall orangeTruck 1,
     mk_trial orangeTruck orangeTruck blueBall 0,
     mk_trial blueBall orangeTruck blueBall 1,
     mk_trial blueTruck blueBall orangeTruck 1]"

subsection \<open>Well-posed trials\<close>

text \<open>
  The attribute a dimension selects, as the comparison in
  \<open>generateMixedTrials\<close> reads it: \<open>'color'\<close> compares colours, every other
  dimension compares shapes.
\<close>

definition attr :: "string \<Rightarrow> stimulus \<Rightarrow> string" where
  "attr dm s = (if dm = ''color'' then color s else shape s)"

definition matches :: "string \<Rightarrow> stimulus \<Rightarrow> stimulus \<Rightarrow> bool" where
  "matches dm t s \<longleftrightarrow> attr dm s = attr dm t"

text \<open>The trial invariant of the data model: exactly one choice matches, and
  \<open>correct\<close> is its index (0 for left, 1 for right).\<close>

definition well_posed :: "string \<Rightarrow> trial \<Rightarrow> bool" where
  "well_posed dm t \<longleftrightarrow>
     (matches dm (target t) (left t) \<noteq> matches dm (target t) (right t)) \<and>
     correct t = (if matches dm (target t) (left t) then 0 else 1)"

definition table_well_posed :: "string \<Rightarrow> trial list \<Rightarrow> bool" where
  "table_well_posed dm ts = list_all (well_posed dm) ts"

lemma well_posed_correct_cases: "well_posed dm t \<Longrightarrow> correct t = 0 \<or> correct t = 1"
  by (auto simp: well_posed_def)

lemma well_posed_correct_choice:
  "well_posed dm t \<Longrightarrow>
     matches dm (target t) (if correct t = 0 then left t else right t) \<and>
     \<not> matches dm (target t) (if correct t = 0 then right t else left t)"
  by (auto simp: well_posed_def)

lemma mk_trial_sel [simp]:
  "target (mk_trial t l r c) = t" "left (mk_trial t l r c) = l"
  "right (mk_trial t l r c) = r" "correct (mk_trial t l r c) = c"
  "dimension (mk_trial t l r c) = None"
  by (simp_all add: mk_trial_def)

lemma table_well_posed_nth:
  "table_well_posed dm ts \<Longrightarrow> i < length ts \<Longrightarrow> well_posed dm (ts ! i)"
  by (simp add: table_well_posed_def list_all_length)

lemma table_well_posed_take:
  "table_well_posed dm ts \<Longrightarrow> table_well_posed dm (take n ts)"
  by (simp add: table_well_posed_def list_all_iff) (meson in_set_takeD)

lemma length_trial_tables [simp]:
  "length COLOR_PRACTICE_TRIALS = 5" "length COLOR_TEST_TRIALS = 5"
  "length SHAPE_TEST_TRIALS = 5"
  by (simp_all add: COLOR_PRACTICE_TRIALS_def COLOR_TEST_TRIALS_def SHAPE_TEST_TRIALS_def)

lemma practice_table_well_posed: "table_well_posed ''color'' COLOR_PRACTICE_TRIALS"
  by (simp add: COLOR_PRACTICE_TRIALS_def table_well_posed_def well_posed_def matches_def attr_def dccs_data)

lemma color_test_table_well_posed: "table_well_posed ''color'' COLOR_TEST_TRIALS"
  by (simp add: COLOR_TEST_TRIALS_def table_well_posed_def well_posed_def matches_def attr_def dccs_data)

lemma shape_test_table_well_posed: "table_well_posed ''shape'' SHAPE_TEST_TRIALS"
  by (simp add: SHAPE_TEST_TRIALS_def table_well_posed_def well_posed_def matches_def attr_def dccs_data)

text \<open>Every row of the three hand-authored tables is well posed on the
  dimension its phase tests: the colour practice and colour test rows on
  colour, the shape test rows on shape.\<close>

theorem trial_tables_well_posed:
  "table_well_posed ''color'' COLOR_PRACTICE_TRIALS \<and>
   table_well_posed ''color'' COLOR_TEST_TRIALS \<and>
   table_well_posed ''shape'' SHAPE_TEST_TRIALS"
  by (simp add: dccs_data table_well_posed_def well_posed_def matches_def attr_def)

end
