(* ===== verification/Generator.thy ===== *)
theory Generator
  imports Stimuli
begin

text \<open>
  \<open>generateMixedTrials\<close> of \<open>src/src/index.ts\<close>.  The calls of
  \<open>Math.random()\<close> are the successive values of a \<open>random_source\<close>
  stream; each iteration consumes two draws, the first for the target index
  \<open>Math.floor(r * 4)\<close> and the second for the swap test \<open>r > 0.5\<close>.  Reading
  \<open>testStimuli\<close> out of range gives \<open>undefined\<close>, and the following
  \<open>target.color\<close> or \<open>target.shape\<close> throws a \<open>TypeError\<close>: the model
  returns \<open>Inl\<close> then.  The \<open>for\<close> loop is \<open>gen_loop\<close>, with termination
  by the measure \<open>numTrials - i\<close>; \<open>mixed_spec\<close> is a reference
  definition by \<open>map\<close> over the trial indices, and
  \<open>generateMixedTrials_refines\<close> shows the loop computes it whenever the
  draws lie in \<open>[0, 1)\<close>.
\<close>

definition testStimuli :: "stimulus list" where [dccs_data]:
  "testStimuli = [blueBall, orangeTruck, blueTruck, orangeBall]"

definition base_choices :: "stimulus list" where [dccs_data]:
  "base_choices = [blueBall, orangeTruck]"

definition mixed_dimension :: "int \<Rightarrow> string" where
  "mixed_dimension i = (if i mod 2 = 0 then ''color'' else ''shape'')"

definition pick_index :: "rat \<Rightarrow> int" where
  "pick_index r = \<lfloor>r * of_nat (length testStimuli)\<rfloor>"

text \<open>The body of one iteration, with the stream of draws it leaves.\<close>

definition mixed_trial :: "int \<Rightarrow> random_source \<Rightarrow> js_error + (trial \<times> random_source)" where
  "mixed_trial i rs =
     (let dimension = mixed_dimension i;
          tgt = js_index testStimuli (pick_index (shd rs));
          rs1 = stl rs;
          choices = (if shd rs1 > 1/2 then rev base_choices else base_choices);
          rs2 = stl rs1
      in case tgt of
           None \<Rightarrow> Inl (TypeError ''Cannot read properties of undefined'')
         | Some t \<Rightarrow>
             (let c = (if dimension = ''color''
                       then (if color (choices ! 0) = color t then 0 else 1)
                       else (if shape (choices ! 0) = shape t then 0 else 1))
              in Inr (\<lparr>target = t, left = choices ! 0, right = choices ! 1,
                       correct = c, dimension = Some dimension\<rparr>, rs2)))"

function gen_loop ::
  "int \<Rightarrow> int \<Rightarrow> random_source \<Rightarrow> trial list \<Rightarrow> js_error + (trial list \<times> random_source)" where
  "gen_loop numTrials i rs acc =
     (if i < numTrials then
        (case mixed_trial i rs of
           Inl e \<Rightarrow> Inl e
         | Inr (t, rs') \<Rightarrow> gen_loop numTrials (i + 1) rs' (acc @ [t]))
      else Inr (acc, rs))"
  by pat_completeness auto
termination
  by (relation "measure (\<lambda>(n, i, _, _). nat (n - i))") auto

declare gen_loop.simps [simp del]

definition generateMixedTrials :: "int \<Rightarrow> random_source \<Rightarrow> js_error + (trial list \<times> random_source)" where
  "generateMixedTrials numTrials rs = gen_loop numTrials 0 rs []"

subsection \<open>Reference definition\<close>

text \<open>Trial \<open>i\<close> of the specification is built from draws \<open>2 i\<close> and \<open>2 i + 1\<close>.\<close>

definition spec_trial :: "nat \<Rightarrow> rat \<Rightarrow> rat \<Rightarrow> trial" where
  "spec_trial i r1 r2 =
     (let dm = mixed_dimension (int i);
          t = testStimuli ! nat (pick_index r1);
          cs = (if r2 > 1/2 then rev base_choices else base_choices)
      in \<lparr>target = t, left = cs ! 0, right = cs ! 1,
          correct = (if matches dm t (cs ! 0) then 0 else 1), dimension = Some dm\<rparr>)"

definition mixed_spec :: "int \<Rightarrow> random_source \<Rightarrow> trial list" where
  "mixed_spec n rs = map (\<lambda>i. spec_trial i (rs !! (2 * i)) (rs !! (2 * i + 1))) [0..<nat n]"

definition spec_from :: "int \<Rightarrow> nat \<Rightarrow> random_source \<Rightarrow> trial list" where
  "spec_from i m rs = map (\<lambda>k. spec_trial (nat i + k) (rs !! (2 * k)) (rs !! (2 * k + 1))) [0..<m]"

subsection \<open>One iteration\<close>

lemma pick_index_range: "0 \<le> r \<Longrightarrow> r < 1 \<Longrightarrow> 0 \<le> pick_index r \<and> pick_index r < 4"
proof -
  assume "0 \<le> r" "r < 1"
  then have "0 \<le> r * 4" "r * 4 < 4" by linarith+
  then show ?thesis
    by (simp add: pick_index_def testStimuli_def floor_less_iff)
qed

lemma pick_in_testStimuli:
  "0 \<le> r \<Longrightarrow> r < 1 \<Longrightarrow> testStimuli ! nat (pick_index r) \<in> set testStimuli"
proof -
  assume "0 \<le> r" "r < 1"
  then have "nat (pick_index r) < length testStimuli"
    using pick_index_range [of r] by (simp add: testStimuli_def nat_less_iff)
  then show ?thesis by (rule nth_mem)
qed

lemma mixed_dimension_cases: "mixed_dimension i = ''color'' \<or> mixed_dimension i = ''shape''"
  by (simp add: mixed_dimension_def)

lemma mixed_trial_ok:
  assumes "0 \<le> i" "0 \<le> shd rs" "shd rs < 1"
  shows "mixed_trial i rs = Inr (spec_trial (nat i) (shd rs) (shd (stl rs)), stl (stl rs))"
proof -
  obtain k where k: "pick_index (shd rs) = k" "0 \<le> k" "k < 4"
    using pick_index_range [OF assms(2,3)] by blast
  then have "js_index testStimuli k = Some (testStimuli ! nat k)"
    by (simp add: js_index_def testStimuli_def)
  with k assms(1) show ?thesis
    by (simp add: mixed_trial_def spec_trial_def Let_def matches_def attr_def)
qed

text \<open>Every trial the reference builds is well posed on its own dimension.\<close>

lemma spec_trial_well_posed:
  assumes "0 \<le> r1" "r1 < 1"
  shows "dimension (spec_trial i r1 r2) = Some (mixed_dimension (int i)) \<and>
         well_posed (mixed_dimension (int i)) (spec_trial i r1 r2)"
proof -
  have "\<forall>t \<in> set testStimuli. \<forall>dm \<in> {''color'', ''shape''}. \<forall>cs \<in> {base_choices, rev base_choices}.
               well_posed dm \<lparr>target = t, left = cs ! 0, right = cs ! 1,
                 correct = (if matches dm t (cs ! 0) then 0 else 1), dimension = Some dm\<rparr>"
    by (simp add: dccs_data well_posed_def matches_def attr_def)
  moreover note pick_in_testStimuli [OF assms]
  ultimately show ?thesis
    using mixed_dimension_cases [of "int i"]
    by (auto simp: spec_trial_def Let_def)
qed

lemma spec_trial_stimuli:
  assumes "0 \<le> r1" "r1 < 1"
  shows "target (spec_trial i r1 r2) \<in> set testStimuli \<and>
         [left (spec_trial i r1 r2), right (spec_trial i r1 r2)] \<in> {base_choices, rev base_choices}"
  using pick_in_testStimuli [OF assms] by (simp add: spec_trial_def Let_def base_choices_def)

subsection \<open>The loop computes the reference\<close>

lemma spec_from_Suc:
  "0 \<le> i \<Longrightarrow> spec_from i (Suc m) rs =
     spec_trial (nat i) (shd rs) (shd (stl rs)) # spec_from (i + 1) m (stl (stl rs))"
proof -
  assume i: "0 \<le> i"
  have "rs !! (2 * Suc k) = stl (stl rs) !! (2 * k) \<and>
        rs !! (2 * Suc k + 1) = stl (stl rs) !! (2 * k + 1)" for k
    by (simp add: numeral_2_eq_2)
  with i show ?thesis
    by (simp add: spec_from_def map_upt_Suc nat_add_distrib del: upt_Suc)
qed

text \<open>Loop invariant of the \<open>for\<close> loop, by computation induction on \<open>gen_loop\<close>.\<close>

lemma gen_loop_spec:
  assumes "0 \<le> i" "valid_draws (2 * nat (n - i)) rs"
  shows "gen_loop n i rs acc = Inr (acc @ spec_from i (nat (n - i)) rs, sdrop (2 * nat (n - i)) rs)"
  using assms
proof (induction n i rs acc rule: gen_loop.induct)
  case (1 n i rs acc)
  show ?case
  proof (cases "i < n")
    case False
    then show ?thesis by (simp add: gen_loop.simps [of n i rs acc] spec_from_def)
  next
    case True
    define m where "m = nat (n - (i + 1))"
    have m: "nat (n - i) = Suc m" using True by (simp add: m_def)
    with "1.prems"(2) have r: "0 \<le> shd rs" "shd rs < 1"
      and v: "valid_draws (2 * nat (n - (i + 1))) (stl (stl rs))"
      by (simp_all add: valid_draws_Suc m_def)
    have step: "mixed_trial i rs = Inr (spec_trial (nat i) (shd rs) (shd (stl rs)), stl (stl rs))"
      using mixed_trial_ok [OF "1.prems"(1) r] .
    have IH: "gen_loop n (i + 1) (stl (stl rs)) (acc @ [spec_trial (nat i) (shd rs) (shd (stl rs))]) =
       Inr (acc @ [spec_trial (nat i) (shd rs) (shd (stl rs))] @ spec_from (i + 1) m (stl (stl rs)),
            sdrop (2 * m) (stl (stl rs)))"
      using "1.IH" [OF True step refl] "1.prems"(1) v by (simp add: m_def)
    show ?thesis
      using True step IH "1.prems"(1)
      by (simp add: gen_loop.simps [of n i rs acc] m spec_from_Suc)
  qed
qed

lemma gen_loop_start:
  "valid_draws (2 * nat n) rs \<Longrightarrow>
     gen_loop n 0 rs [] = Inr (mixed_spec n rs, sdrop (2 * nat n) rs)"
  using gen_loop_spec [of 0 n rs "[]"] by (simp add: mixed_spec_def spec_from_def)

lemma mixed_spec_nth:
  assumes "valid_draws (2 * nat n) rs" "k < nat n"
  shows "mixed_spec n rs ! k = spec_trial k (rs !! (2 * k)) (rs !! (2 * k + 1)) \<and>
         0 \<le> rs !! (2 * k) \<and> rs !! (2 * k) < 1"
  using assms by (simp add: mixed_spec_def valid_draws_snth)

lemma mixed_spec_set:
  assumes "valid_draws (2 * nat n) rs" "t \<in> set (mixed_spec n rs)"
  obtains k where "k < nat n" "t = spec_trial k (rs !! (2 * k)) (rs !! (2 * k + 1))"
    "0 \<le> rs !! (2 * k)" "rs !! (2 * k) < 1"
  using assms by (auto simp: mixed_spec_def valid_draws_snth)

lemma mixed_dimension_nat: "mixed_dimension (int k) = (if even k then ''color'' else ''shape'')"
  by (simp add: mixed_dimension_def even_iff_mod_2_eq_zero [symmetric])

lemma pick_index_out_of_range:
  "\<not> (0 \<le> r \<and> r < 1) \<Longrightarrow> js_index testStimuli (pick_index r) = None"
proof -
  assume "\<not> (0 \<le> r \<and> r < 1)"
  then have "r * 4 < 0 \<or> 4 \<le> r * 4" by linarith
  then have "pick_index r < 0 \<or> 4 \<le> pick_index r"
    by (auto simp: pick_index_def testStimuli_def floor_less_iff le_floor_iff)
  then show ?thesis by (auto simp: js_index_def testStimuli_def)
qed

subsection \<open>Properties of \<open>generateMixedTrials\<close>\<close>

text \<open>C1: every generated trial carries a dimension, exactly one of its two
  choices matches the target on that dimension, and \<open>correct\<close> is the index
  of that choice.\<close>

theorem generateMixedTrials_well_posed:
  assumes "valid_draws (2 * nat n) rs"
  shows "case generateMixedTrials n rs of
           Inl _ \<Rightarrow> False
         | Inr (ts, _) \<Rightarrow> (\<forall>t \<in> set ts. \<exists>dm. dimension t = Some dm \<and> well_posed dm t)"
proof -
  have "\<exists>dm. dimension t = Some dm \<and> well_posed dm t" if "t \<in> set (mixed_spec n rs)" for t
    using mixed_spec_set [OF assms that] spec_trial_well_posed by metis
  then show ?thesis
    using gen_loop_start [OF assms] by (simp add: generateMixedTrials_def)
qed

lemma generateMixedTrials_well_posed_witness:
  "valid_draws (2 * nat 2) (sconst (1/2)) \<and>
   (case generateMixedTrials 2 (sconst (1/2)) of
      Inl _ \<Rightarrow> False
    | Inr (ts, _) \<Rightarrow> list_all (\<lambda>t. \<exists>dm. dimension t = Some dm \<and> well_posed dm t) ts)"
proof -
  have v: "valid_draws (2 * nat 2) (sconst (1/2::rat))" by simp
  show ?thesis using v generateMixedTrials_well_posed [OF v]
    by (auto simp: list_all_iff split: sum.splits)
qed

text \<open>C4: \<open>generateMixedTrials(n)\<close> returns exactly \<open>n\<close> trials (none for
  \<open>n \<le> 0\<close>) and consumes exactly two draws of \<open>Math.random\<close> per trial.\<close>

theorem generateMixedTrials_length:
  assumes "valid_draws (2 * nat n) rs"
  shows "case generateMixedTrials n rs of
           Inl _ \<Rightarrow> False
         | Inr (ts, rs') \<Rightarrow> length ts = nat n \<and> rs' = sdrop (2 * nat n) rs"
  using gen_loop_start [OF assms] by (simp add: generateMixedTrials_def mixed_spec_def)

lemma generateMixedTrials_length_witness:
  "valid_draws (2 * nat 3) (sconst (1/4)) \<and>
   (case generateMixedTrials 3 (sconst (1/4)) of
      Inl _ \<Rightarrow> False
    | Inr (ts, rs') \<Rightarrow> length ts = nat 3 \<and> rs' = sdrop (2 * nat 3) (sconst (1/4)))"
proof -
  have v: "valid_draws (2 * nat 3) (sconst (1/4::rat))" by simp
  show ?thesis using v generateMixedTrials_length [OF v] by simp
qed

text \<open>C5: the dimension alternates with the trial index: trial \<open>i\<close> is a
  colour trial when \<open>i\<close> is even and a shape trial when \<open>i\<close> is odd.\<close>

theorem generateMixedTrials_dimension_parity:
  assumes "valid_draws (2 * nat n) rs"
  shows "case generateMixedTrials n rs of
           Inl _ \<Rightarrow> False
         | Inr (ts, _) \<Rightarrow>
             (\<forall>i < length ts. dimension (ts ! i) = Some (if even i then ''color'' else ''shape''))"
proof -
  have "dimension (mixed_spec n rs ! i) = Some (if even i then ''color'' else ''shape'')"
    if "i < nat n" for i
  proof -
    have "mixed_spec n rs ! i = spec_trial i (rs !! (2 * i)) (rs !! (2 * i + 1))"
      and "0 \<le> rs !! (2 * i)" "rs !! (2 * i) < 1"
      using mixed_spec_nth [OF assms that] by simp_all
    then show ?thesis
      using spec_trial_well_posed [of "rs !! (2 * i)" i "rs !! (2 * i + 1)"]
      by (simp add: mixed_dimension_nat)
  qed
  then show ?thesis
    using gen_loop_start [OF assms] by (simp add: generateMixedTrials_def mixed_spec_def)
qed

lemma generateMixedTrials_dimension_parity_witness:
  "valid_draws (2 * nat 4) (sconst (3/4)) \<and>
   (case generateMixedTrials 4 (sconst (3/4)) of
      Inl _ \<Rightarrow> False
    | Inr (ts, _) \<Rightarrow>
        list_all (\<lambda>i. dimension (ts ! i) = Some (if even i then ''color'' else ''shape'')) [0..<length ts])"
proof -
  have v: "valid_draws (2 * nat 4) (sconst (3/4::rat))" by simp
  show ?thesis using v generateMixedTrials_dimension_parity [OF v]
    by (auto simp: list_all_iff split: sum.splits)
qed

text \<open>C7: refinement: with draws in \<open>[0, 1)\<close> the loop of
  \<open>generateMixedTrials\<close> computes the reference list \<open>mixed_spec\<close>, trial
  \<open>i\<close> built from draws \<open>2 i\<close> and \<open>2 i + 1\<close>, and leaves the rest of the
  stream.\<close>

theorem generateMixedTrials_refines:
  assumes "valid_draws (2 * nat n) rs"
  shows "generateMixedTrials n rs = Inr (mixed_spec n rs, sdrop (2 * nat n) rs)"
  using gen_loop_start [OF assms] by (simp add: generateMixedTrials_def)

lemma generateMixedTrials_refines_witness:
  "valid_draws (2 * nat 1) (sconst 0) \<and>
   generateMixedTrials 1 (sconst 0) = Inr (mixed_spec 1 (sconst 0), sdrop (2 * nat 1) (sconst 0))"
proof -
  have v: "valid_draws (2 * nat 1) (sconst (0::rat))" by simp
  show ?thesis using v generateMixedTrials_refines [OF v] by simp
qed

text \<open>The spec's example: with every draw equal to 0.5, \<open>generate(2)\<close>
  gives a colour trial and a shape trial, both on target \<open>blueTruck\<close>
  (\<open>Math.floor(0.5 * 4) = 2\<close>) and both with the unswapped pair, since
  \<open>0.5 > 0.5\<close> is false; the colour trial's answer is the left card, the
  shape trial's the right.\<close>

theorem generateMixedTrials_example:
  "generateMixedTrials 2 (sconst (1/2)) =
     Inr ([\<lparr>target = blueTruck, left = blueBall, right = orangeTruck, correct = 0,
            dimension = Some ''color''\<rparr>,
           \<lparr>target = blueTruck, left = blueBall, right = orangeTruck, correct = 1,
            dimension = Some ''shape''\<rparr>], sconst (1/2))"
proof -
  have v: "valid_draws (2 * nat 2) (sconst (1/2::rat))" by simp
  have "mixed_spec 2 (sconst (1/2)) =
     [\<lparr>target = blueTruck, left = blueBall, right = orangeTruck, correct = 0,
       dimension = Some ''color''\<rparr>,
      \<lparr>target = blueTruck, left = blueBall, right = orangeTruck, correct = 1,
       dimension = Some ''shape''\<rparr>]"
    by (simp add: mixed_spec_def spec_trial_def Let_def mixed_dimension_def pick_index_def
        matches_def attr_def upt_rec dccs_data)
  then show ?thesis
    using gen_loop_start [OF v] by (simp add: generateMixedTrials_def)
qed

text \<open>C16: a first draw outside \<open>[0, 1)\<close> makes \<open>testStimuli[...]\<close>
  \<open>undefined\<close>, and reading its colour or shape throws a \<open>TypeError\<close>:
  the generator then returns no trials at all.\<close>

theorem generateMixedTrials_type_error:
  assumes "0 < n" "\<not> (0 \<le> shd rs \<and> shd rs < 1)"
  shows "generateMixedTrials n rs = Inl (TypeError ''Cannot read properties of undefined'')"
  using assms pick_index_out_of_range [OF assms(2)]
  by (simp add: generateMixedTrials_def gen_loop.simps [of n 0 rs "[]"] mixed_trial_def Let_def)

lemma generateMixedTrials_type_error_witness:
  "0 < (5::int) \<and> \<not> (0 \<le> shd (sconst (1::rat)) \<and> shd (sconst (1::rat)) < 1) \<and>
   generateMixedTrials 5 (sconst 1) = Inl (TypeError ''Cannot read properties of undefined'')"
proof -
  have h: "0 < (5::int)" "\<not> (0 \<le> shd (sconst (1::rat)) \<and> shd (sconst (1::rat)) < 1)" by simp_all
  show ?thesis using h generateMixedTrials_type_error [OF h] by simp
qed

text \<open>C18: every generated target is one of the four test stimuli, and the
  choices are the fixed pair \<open>blueBall\<close>, \<open>orangeTruck\<close>, possibly
  swapped.\<close>

theorem generateMixedTrials_stimuli:
  assumes "valid_draws (2 * nat n) rs"
  shows "case generateMixedTrials n rs of
           Inl _ \<Rightarrow> False
         | Inr (ts, _) \<Rightarrow> (\<forall>t \<in> set ts. target t \<in> set testStimuli \<and>
                            [left t, right t] \<in> {base_choices, rev base_choices})"
proof -
  have "target t \<in> set testStimuli \<and> [left t, right t] \<in> {base_choices, rev base_choices}"
    if "t \<in> set (mixed_spec n rs)" for t
    using mixed_spec_set [OF assms that] spec_trial_stimuli by metis
  then show ?thesis
    using gen_loop_start [OF assms] by (simp add: generateMixedTrials_def)
qed

lemma generateMixedTrials_stimuli_witness:
  "valid_draws (2 * nat 2) (sconst (9/10)) \<and>
   (case generateMixedTrials 2 (sconst (9/10)) of
      Inl _ \<Rightarrow> False
    | Inr (ts, _) \<Rightarrow> list_all (\<lambda>t. target t \<in> set testStimuli \<and>
                       [left t, right t] \<in> {base_choices, rev base_choices}) ts)"
proof -
  have v: "valid_draws (2 * nat 2) (sconst (9/10::rat))" by simp
  show ?thesis using v generateMixedTrials_stimuli [OF v]
    by (auto simp: list_all_iff split: sum.splits)
qed

end
