(* ===== verification/GameState.thy ===== *)
theory GameState
  imports Prelude
begin

text \<open>
  The module-level state of \<open>src/src/index.ts\<close> and the parts of the browser
  it touches.  \<open>GameState\<close> is a record; the \<open>window\<close> property
  \<open>tempaudio_enabled\<close> that the welcome screen's checkbox writes, the
  presence of \<open>speechSynthesis\<close> and the utterances handed to
  \<open>speechSynthesis.speak\<close> are fields of \<open>browser\<close>.  \<open>resetState\<close>,
  \<open>playAudio\<close>, the checkbox's inline \<open>onchange\<close> handler and the welcome
  screen's \<open>on_finish\<close> are state transformers on it.
\<close>

record game_state =
  audio_enabled :: bool
  current_phase :: string
  trials_completed :: int

text \<open>A \<open>SpeechSynthesisUtterance\<close> as \<open>playAudio\<close> configures it.\<close>

record utterance =
  u_text :: string
  u_rate :: rat

record browser =
  game :: game_state
  speech_supported :: bool
  temp_audio :: "bool option"
  spoken :: "utterance list"

definition initial_game_state :: game_state where
  "initial_game_state = \<lparr>audio_enabled = False, current_phase = [], trials_completed = 0\<rparr>"

definition resetState :: "browser \<Rightarrow> browser" where
  "resetState b = b\<lparr>game := initial_game_state\<rparr>"

definition playAudio :: "string \<Rightarrow> browser \<Rightarrow> browser" where
  "playAudio text b =
     (if audio_enabled (game b) \<and> speech_supported b
      then b\<lparr>spoken := spoken b @ [\<lparr>u_text = text, u_rate = 9/10\<rparr>]\<rparr>
      else b)"

text \<open>\<open>onchange="window.tempaudio_enabled = this.checked"\<close>.\<close>

definition audio_toggle_onchange :: "bool \<Rightarrow> browser \<Rightarrow> browser" where
  "audio_toggle_onchange checked b = b\<lparr>temp_audio := Some checked\<rparr>"

text \<open>
  The welcome screen's \<open>on_finish\<close>: \<open>tempaudio_enabled || false\<close> becomes
  the audio flag, is copied into the screen's data, and the window property
  is deleted.  The result pairs the new browser with \<open>data.audio_enabled\<close>.
\<close>

definition welcome_on_finish :: "browser \<Rightarrow> browser \<times> bool" where
  "welcome_on_finish b =
     (let a = (case temp_audio b of Some x \<Rightarrow> x | None \<Rightarrow> False);
          b' = b\<lparr>game := (game b)\<lparr>audio_enabled := a\<rparr>, temp_audio := None\<rparr>
      in (b', audio_enabled (game b')))"

subsection \<open>Lemmas\<close>

lemma playAudio_spoken:
  "spoken (playAudio text b) =
     spoken b @ (if audio_enabled (game b) \<and> speech_supported b
                 then [\<lparr>u_text = text, u_rate = 9/10\<rparr>] else [])"
  by (simp add: playAudio_def)

lemma playAudio_frame [simp]:
  "game (playAudio text b) = game b"
  "speech_supported (playAudio text b) = speech_supported b"
  "temp_audio (playAudio text b) = temp_audio b"
  by (simp_all add: playAudio_def)

lemma resetState_game [simp]: "game (resetState b) = initial_game_state"
  by (simp add: resetState_def)

lemma initial_game_state_sel [simp]:
  "audio_enabled initial_game_state = False"
  "current_phase initial_game_state = []"
  "trials_completed initial_game_state = 0"
  by (simp_all add: initial_game_state_def)

lemma welcome_on_finish_eq:
  "welcome_on_finish b =
     (b\<lparr>game := (game b)\<lparr>audio_enabled := (temp_audio b = Some True)\<rparr>, temp_audio := None\<rparr>,
      temp_audio b = Some True)"
  by (cases "temp_audio b") (simp_all add: welcome_on_finish_def)

subsection \<open>Properties of the module state\<close>

text \<open>C19: the audio checkbox round trip: after the checkbox's \<open>onchange\<close>
  with value \<open>c\<close>, the welcome screen's \<open>on_finish\<close> sets the audio flag and
  \<open>data.audio_enabled\<close> to \<open>c\<close> and deletes the window property.\<close>

theorem welcome_audio_roundtrip:
  "audio_enabled (game (fst (welcome_on_finish (audio_toggle_onchange c b)))) = c \<and>
   snd (welcome_on_finish (audio_toggle_onchange c b)) = c \<and>
   temp_audio (fst (welcome_on_finish (audio_toggle_onchange c b))) = None"
  by (simp add: welcome_on_finish_eq audio_toggle_onchange_def)

text \<open>C20: \<open>playAudio\<close> speaks exactly when audio is enabled and the browser
  supports speech synthesis; after \<open>resetState\<close> it speaks nothing.\<close>

theorem playAudio_gate:
  "(spoken (playAudio text b) \<noteq> spoken b \<longleftrightarrow> audio_enabled (game b) \<and> speech_supported b) \<and>
   spoken (playAudio text (resetState b)) = spoken b"
  by (simp add: playAudio_spoken resetState_def)

text \<open>When the checkbox was never changed (\<open>window.tempaudio_enabled\<close>
  is undefined), \<open>on_finish\<close> leaves audio disabled and records
  \<open>data.audio_enabled = false\<close>; a value stored under any other window
  property name is not read.\<close>

theorem welcome_untouched_audio_off:
  assumes "temp_audio b = None"
  shows "welcome_on_finish b = (b\<lparr>game := (game b)\<lparr>audio_enabled := False\<rparr>\<rparr>, False)"
  using assms by (simp add: welcome_on_finish_def)

lemma welcome_untouched_audio_off_witness:
  "temp_audio \<lparr>game = initial_game_state, speech_supported = True, temp_audio = None, spoken = []\<rparr> = None \<and>
   snd (welcome_on_finish \<lparr>game = initial_game_state, speech_supported = True, temp_audio = None, spoken = []\<rparr>) = False"
proof -
  have h: "temp_audio \<lparr>game = initial_game_state, speech_supported = True, temp_audio = None, spoken = []\<rparr> = None"
    by simp
  show ?thesis using h welcome_untouched_audio_off [OF h] by simp
qed

end
