(* ===== verification/Response.thy ===== *)
theory Response
  imports Stimuli GameState
begin

text \<open>
  \<open>setupTrial\<close> of \<open>src/src/index.ts\<close>, the response evaluator.  The
  parameters of one call are a \<open>trial_ctx\<close> (the trial, the dimension, the
  feedback flag) together with what the DOM offers it: the number of
  \<open>.dccs-choice-card\<close> elements and whether \<open>#feedback\<close> exists.  The
  closure state it creates (the \<open>responded\<close> latch and \<open>startTime\<close>), the
  feedback element, the highlighted cards, the pending \<open>setTimeout\<close>
  callbacks, the \<open>jsPsych.finishTrial\<close> calls and the browser are the
  record \<open>trial_ui\<close>.  \<open>click\<close> is the listener body; it returns
  \<open>Inl\<close> with the partial state where the source throws.  \<open>ui_step\<close> is
  one event of the browser's event loop (a click on a card, or a due timer
  firing); an exception thrown by a listener is reported and the loop goes
  on.  \<open>reach\<close> is the set of states reachable from \<open>setupTrial\<close>; the
  invariant \<open>ui_inv\<close> holds in all of them.
\<close>

text \<open>The object passed to \<open>jsPsych.finishTrial\<close>.\<close>

record finish_data =
  response :: int
  fd_correct :: bool
  rt :: ms

text \<open>A pending \<open>setTimeout\<close> callback with the time it becomes due.\<close>

datatype timer =
    FinishTimer ms int bool
  | PromptTimer ms

record trial_ctx =
  the_trial :: trial
  trial_dimension :: string
  with_feedback :: bool
  num_cards :: nat
  feedback_div :: bool

record trial_ui =
  env :: browser
  responded :: bool
  start_time :: ms
  clock :: ms
  feedback_text :: string
  feedback_class :: string
  highlighted :: "int list"
  timers :: "timer list"
  finished :: "finish_data list"
  errors :: "js_error list"

datatype ui_event =
    Click int ms
  | Fire nat ms bool

definition timer_due :: "timer \<Rightarrow> ms" where
  "timer_due tm = (case tm of FinishTimer d _ _ \<Rightarrow> d | PromptTimer d \<Rightarrow> d)"

definition is_finish :: "timer \<Rightarrow> bool" where
  "is_finish tm = (case tm of FinishTimer _ _ _ \<Rightarrow> True | PromptTimer _ \<Rightarrow> False)"

subsection \<open>The handlers\<close>

text \<open>The body of \<open>setupTrial\<close> run at time \<open>now\<close>: speak the cue, record
  the start time, arm the 5 s reminder on the no-feedback path.\<close>

definition setupTrial :: "trial_ctx \<Rightarrow> ms \<Rightarrow> browser \<Rightarrow> trial_ui" where
  "setupTrial ctx now b =
     \<lparr>env = playAudio (js_upper (trial_dimension ctx)) b, responded = False,
      start_time = now, clock = now, feedback_text = [], feedback_class = ''dccs-feedback'',
      highlighted = [], timers = (if with_feedback ctx then [] else [PromptTimer (now + 5000)]),
      finished = [], errors = []\<rparr>"

text \<open>The feedback branch inside \<open>if (feedbackDiv)\<close>; on a wrong answer
  \<open>cards[trial.correct].classList\<close> throws when no card has that index.\<close>

definition show_feedback :: "trial_ctx \<Rightarrow> bool \<Rightarrow> trial_ui \<Rightarrow> (js_error \<times> trial_ui) + trial_ui" where
  "show_feedback ctx ok s =
     (if ok then
        Inr (s\<lparr>feedback_text := ''That's right!'', feedback_class := ''dccs-feedback correct'',
               env := playAudio ''That's right!'' (env s)\<rparr>)
      else
        (let s' = s\<lparr>feedback_text := ''This is the same color.'',
                    feedback_class := ''dccs-feedback incorrect'',
                    env := playAudio ''This is the same color, so you should choose this picture.'' (env s)\<rparr>;
             c = correct (the_trial ctx)
         in if 0 \<le> c \<and> c < int (num_cards ctx)
            then Inr (s'\<lparr>highlighted := highlighted s' @ [c]\<rparr>)
            else Inl (TypeError ''Cannot read properties of undefined (reading classList)'', s')))"

definition finish_now :: "int \<Rightarrow> bool \<Rightarrow> ms \<Rightarrow> trial_ui \<Rightarrow> trial_ui" where
  "finish_now ci ok now s =
     s\<lparr>finished := finished s @ [\<lparr>response = ci, fd_correct = ok, rt = now - start_time s\<rparr>]\<rparr>"

text \<open>The click listener of card \<open>ci\<close>, clicked at time \<open>now\<close>.\<close>

definition click :: "trial_ctx \<Rightarrow> int \<Rightarrow> ms \<Rightarrow> trial_ui \<Rightarrow> (js_error \<times> trial_ui) + trial_ui" where
  "click ctx ci now s =
     (if responded s then Inr s
      else
        (let s1 = s\<lparr>responded := True\<rparr>;
             ok = (ci = correct (the_trial ctx))
         in if with_feedback ctx then
              (let r = (if feedback_div ctx then show_feedback ctx ok s1 else Inr s1)
               in case r of
                    Inl err \<Rightarrow> Inl err
                  | Inr s2 \<Rightarrow>
                      Inr (s2\<lparr>timers := timers s2 @
                              [FinishTimer (now + (if ok then 1500 else 2500)) ci ok]\<rparr>))
            else Inr (finish_now ci ok now s1)))"

text \<open>A due timer's callback, run at time \<open>now\<close>; \<open>cur\<close> is whether
  \<open>jsPsych.getCurrentTrial()\<close> returns a trial.\<close>

fun fire :: "timer \<Rightarrow> ms \<Rightarrow> bool \<Rightarrow> trial_ui \<Rightarrow> trial_ui" where
  "fire (FinishTimer _ ci ok) now cur s = finish_now ci ok now s"
| "fire (PromptTimer _) now cur s =
     (if \<not> responded s \<and> cur then s\<lparr>env := playAudio ''Choose one of the pictures.'' (env s)\<rparr> else s)"

definition remove_nth :: "nat \<Rightarrow> 'a list \<Rightarrow> 'a list" where
  "remove_nth k xs = take k xs @ drop (Suc k) xs"

text \<open>One event of the browser's event loop; \<open>None\<close> when the event cannot
  happen (no such card or timer, a timer not yet due, time going back).\<close>

fun ui_step :: "trial_ctx \<Rightarrow> trial_ui \<Rightarrow> ui_event \<Rightarrow> trial_ui option" where
  "ui_step ctx s (Click ci now) =
     (if 0 \<le> ci \<and> ci < int (num_cards ctx) \<and> clock s \<le> now then
        Some (case click ctx ci now (s\<lparr>clock := now\<rparr>) of
                Inl (e, s') \<Rightarrow> s'\<lparr>errors := errors s' @ [e]\<rparr>
              | Inr s' \<Rightarrow> s')
      else None)"
| "ui_step ctx s (Fire k now cur) =
     (if k < length (timers s) \<and> timer_due (timers s ! k) \<le> now \<and> clock s \<le> now then
        Some (fire (timers s ! k) now cur (s\<lparr>clock := now, timers := remove_nth k (timers s)\<rparr>))
      else None)"

inductive reach :: "trial_ctx \<Rightarrow> trial_ui \<Rightarrow> bool" for ctx where
  init: "reach ctx (setupTrial ctx now b)"
| step: "reach ctx s \<Longrightarrow> ui_step ctx s ev = Some s' \<Longrightarrow> reach ctx s'"

subsection \<open>The invariant of reachable states\<close>

text \<open>
  A pending finish callback was armed by an accepted click on the feedback
  path: it carries the clicked card and its verdict and is due at least
  1500 ms after the trial started.  Every \<open>finishTrial\<close> result reports
  whether the clicked card is the trial's answer; its \<open>rt\<close> is at least
  the feedback delay on the feedback path.  At most one finish (done or
  pending) exists, and none before the latch is set.
\<close>

definition card_exists :: "trial_ctx \<Rightarrow> bool" where
  "card_exists ctx \<longleftrightarrow> 0 \<le> correct (the_trial ctx) \<and> correct (the_trial ctx) < int (num_cards ctx)"

definition timer_ok :: "trial_ctx \<Rightarrow> ms \<Rightarrow> timer \<Rightarrow> bool" where
  "timer_ok ctx st tm =
     (case tm of
        FinishTimer due ci ok \<Rightarrow>
          with_feedback ctx \<and> ok = (ci = correct (the_trial ctx)) \<and>
          0 \<le> ci \<and> ci < int (num_cards ctx) \<and> st + 1500 \<le> due \<and>
          (feedback_div ctx \<longrightarrow> card_exists ctx)
      | PromptTimer _ \<Rightarrow> True)"

definition fd_ok :: "trial_ctx \<Rightarrow> finish_data \<Rightarrow> bool" where
  "fd_ok ctx f =
     (fd_correct f = (response f = correct (the_trial ctx)) \<and>
      0 \<le> response f \<and> response f < int (num_cards ctx) \<and>
      (if with_feedback ctx then 1500 \<le> rt f \<and> (feedback_div ctx \<longrightarrow> card_exists ctx)
       else 0 \<le> rt f))"

definition ui_inv :: "trial_ctx \<Rightarrow> trial_ui \<Rightarrow> bool" where
  "ui_inv ctx s =
     (start_time s \<le> clock s \<and>
      (\<not> responded s \<longrightarrow> finished s = [] \<and> filter is_finish (timers s) = []) \<and>
      length (finished s) + length (filter is_finish (timers s)) \<le> 1 \<and>
      list_all (timer_ok ctx (start_time s)) (timers s) \<and>
      list_all (fd_ok ctx) (finished s))"

text \<open>Progress: once a response is accepted, either \<open>finishTrial\<close> has run or
  its deferred callback is still pending.\<close>

definition progress_ok :: "trial_ui \<Rightarrow> bool" where
  "progress_ok s \<longleftrightarrow> (responded s \<and> finished s = [] \<longrightarrow> list_ex is_finish (timers s))"

text \<open>The trial can end: the feedback path with a \<open>#feedback\<close> element
  needs the answer's card to exist, for a wrong click reads
  \<open>cards[trial.correct]\<close>.\<close>

definition finish_reachable :: "trial_ctx \<Rightarrow> bool" where
  "finish_reachable ctx \<longleftrightarrow> (with_feedback ctx \<and> feedback_div ctx \<longrightarrow> card_exists ctx)"

definition same_core :: "trial_ui \<Rightarrow> trial_ui \<Rightarrow> bool" where
  "same_core s' s \<longleftrightarrow>
     responded s' = responded s \<and> start_time s' = start_time s \<and> clock s' = clock s \<and>
     timers s' = timers s \<and> finished s' = finished s"

text \<open>Fixtures of the unit tests in \<open>src/unnamed/part_002\<close>: the trial with
  target \<open>blue ball\<close>, left \<open>blue ball\<close>, right \<open>orange truck\<close> and answer 0,
  a browser with speech support and audio off after \<open>resetState\<close>.\<close>

definition test_trial :: trial where
  "test_trial = mk_trial \<lparr>img = ''test.svg'', name = ''test'', shape = ''ball'', color = ''blue''\<rparr>
     \<lparr>img = ''left.svg'', name = ''left'', shape = ''ball'', color = ''blue''\<rparr>
     \<lparr>img = ''right.svg'', name = ''right'', shape = ''truck'', color = ''orange''\<rparr> 0"

definition test_browser :: browser where
  "test_browser = \<lparr>game = initial_game_state, speech_supported = True, temp_audio = None, spoken = []\<rparr>"

definition test_ctx :: "bool \<Rightarrow> nat \<Rightarrow> trial_ctx" where
  "test_ctx fb n = \<lparr>the_trial = test_trial, trial_dimension = ''color'', with_feedback = fb,
                    num_cards = n, feedback_div = True\<rparr>"

text \<open>A sequence of events, run from a state; \<open>None\<close> when one of them cannot happen.\<close>

fun run_events :: "trial_ctx \<Rightarrow> trial_ui \<Rightarrow> ui_event list \<Rightarrow> trial_ui option" where
  "run_events ctx s [] = Some s"
| "run_events ctx s (e # es) = (case ui_step ctx s e of None \<Rightarrow> None | Some s' \<Rightarrow> run_events ctx s' es)"

subsection \<open>Preservation of the invariant\<close>

lemma set_remove_nth: "set (remove_nth k xs) \<subseteq> set xs"
  by (auto simp: remove_nth_def dest: in_set_takeD in_set_dropD)

lemma filter_remove_nth:
  assumes "k < length xs"
  shows "length (filter P (remove_nth k xs)) + (if P (xs ! k) then 1 else 0) = length (filter P xs)"
proof -
  have "xs = take k xs @ xs ! k # drop (Suc k) xs"
    using assms by (simp add: id_take_nth_drop)
  then have "length (filter P xs) =
      length (filter P (take k xs)) + length (filter P (xs ! k # drop (Suc k) xs))"
    by (metis filter_append length_append)
  then show ?thesis by (simp add: remove_nth_def)
qed

lemma setupTrial_inv: "ui_inv ctx (setupTrial ctx now b)"
  by (simp add: ui_inv_def setupTrial_def timer_ok_def is_finish_def)

lemma setupTrial_sel [simp]:
  "responded (setupTrial ctx now b) = False"
  "finished (setupTrial ctx now b) = []"
  "start_time (setupTrial ctx now b) = now"
  by (simp_all add: setupTrial_def)

lemma ui_inv_same_core: "same_core s' s \<Longrightarrow> ui_inv ctx s' = ui_inv ctx s"
  by (simp add: same_core_def ui_inv_def)

lemma show_feedback_Inr: "show_feedback ctx ok s = Inr s' \<Longrightarrow> same_core s' s"
  unfolding show_feedback_def Let_def same_core_def by (auto split: if_splits)

lemma show_feedback_Inl: "show_feedback ctx ok s = Inl (e, s') \<Longrightarrow> same_core s' s"
  unfolding show_feedback_def Let_def same_core_def by (auto split: if_splits)

lemma show_feedback_Inr_card: "show_feedback ctx ok s = Inr s' \<Longrightarrow> \<not> ok \<Longrightarrow> card_exists ctx"
  unfolding show_feedback_def Let_def card_exists_def by (auto split: if_splits)

lemma click_responded: "responded s \<Longrightarrow> click ctx ci now s = Inr s"
  by (simp add: click_def)

lemma click_no_feedback:
  "\<not> responded s \<Longrightarrow> \<not> with_feedback ctx \<Longrightarrow>
     click ctx ci now s = Inr (finish_now ci (ci = correct (the_trial ctx)) now (s\<lparr>responded := True\<rparr>))"
  by (simp add: click_def Let_def)

lemma click_feedback:
  "\<not> responded s \<Longrightarrow> with_feedback ctx \<Longrightarrow>
     click ctx ci now s =
       (case (if feedback_div ctx then show_feedback ctx (ci = correct (the_trial ctx)) (s\<lparr>responded := True\<rparr>)
              else Inr (s\<lparr>responded := True\<rparr>)) of
          Inl err \<Rightarrow> Inl err
        | Inr s2 \<Rightarrow> Inr (s2\<lparr>timers := timers s2 @
             [FinishTimer (now + (if ci = correct (the_trial ctx) then 1500 else 2500)) ci
                (ci = correct (the_trial ctx))]\<rparr>))"
  by (simp add: click_def Let_def)

lemma ui_inv_add_finish_timer:
  assumes inv: "ui_inv ctx s" and nr: "\<not> responded s" and wf: "with_feedback ctx"
    and rng: "0 \<le> ci" "ci < int (num_cards ctx)" and clk: "clock s \<le> now"
    and core: "same_core s2 (s\<lparr>responded := True\<rparr>)"
    and card: "feedback_div ctx \<longrightarrow> card_exists ctx"
  shows "ui_inv ctx (s2\<lparr>timers := timers s2 @
           [FinishTimer (now + (if ci = correct (the_trial ctx) then 1500 else 2500)) ci
              (ci = correct (the_trial ctx))]\<rparr>)"
  using inv nr wf rng clk core card
  by (auto simp: ui_inv_def same_core_def timer_ok_def is_finish_def)

lemma ui_inv_finish_now:
  assumes inv: "ui_inv ctx s" and nr: "\<not> responded s" and wf: "\<not> with_feedback ctx"
    and rng: "0 \<le> ci" "ci < int (num_cards ctx)" and clk: "clock s \<le> now"
  shows "ui_inv ctx (finish_now ci (ci = correct (the_trial ctx)) now (s\<lparr>responded := True\<rparr>))"
  using inv nr wf rng clk
  by (auto simp: ui_inv_def finish_now_def fd_ok_def)

lemma click_inv:
  assumes inv: "ui_inv ctx s" and rng: "0 \<le> ci" "ci < int (num_cards ctx)" and clk: "clock s \<le> now"
  shows "case click ctx ci now s of Inl (e, s') \<Rightarrow> ui_inv ctx s' | Inr s' \<Rightarrow> ui_inv ctx s'"
proof (cases "responded s")
  case True
  with inv show ?thesis by (simp add: click_responded)
next
  case nr: False
  show ?thesis
  proof (cases "with_feedback ctx")
    case False
    with nr show ?thesis
      by (simp add: click_no_feedback ui_inv_finish_now [OF inv nr False rng clk])
  next
    case wf: True
    have r1: "ui_inv ctx (s\<lparr>responded := True\<rparr>)"
      using inv nr by (simp add: ui_inv_def)
    note add = ui_inv_add_finish_timer [OF inv nr wf rng clk]
    show ?thesis
    proof (cases "feedback_div ctx")
      case False
      let ?s1 = "s\<lparr>responded := True\<rparr>"
      let ?t = "FinishTimer (now + (if ci = correct (the_trial ctx) then 1500 else 2500)) ci
                  (ci = correct (the_trial ctx))"
      have eq: "click ctx ci now s = Inr (?s1\<lparr>timers := timers ?s1 @ [?t]\<rparr>)"
        by (simp only: click_feedback [OF nr wf] False if_False sum.case)
      have "ui_inv ctx (?s1\<lparr>timers := timers ?s1 @ [?t]\<rparr>)"
        using False by (intro add) (simp_all add: same_core_def)
      then show ?thesis by (simp only: eq sum.case)
    next
      case True
      show ?thesis
      proof (cases "show_feedback ctx (ci = correct (the_trial ctx)) (s\<lparr>responded := True\<rparr>)")
        case (Inl p)
        then obtain e s2 where p: "show_feedback ctx (ci = correct (the_trial ctx)) (s\<lparr>responded := True\<rparr>) = Inl (e, s2)"
          by (cases p) auto
        with nr wf True r1 show ?thesis
          by (simp add: click_feedback ui_inv_same_core [OF show_feedback_Inl [OF p]])
      next
        case (Inr s2)
        show ?thesis
        proof -
          have "feedback_div ctx \<longrightarrow> card_exists ctx"
          proof (cases "ci = correct (the_trial ctx)")
            case True
            with rng show ?thesis by (simp add: card_exists_def)
          next
            case False
            with Inr show ?thesis by (blast intro: show_feedback_Inr_card)
          qed
          with nr wf True Inr show ?thesis
            by (simp add: click_feedback add [OF show_feedback_Inr [OF Inr]])
        qed
      qed
    qed
  qed
qed

lemma list_all_remove_nth: "list_all P xs \<Longrightarrow> list_all P (remove_nth k xs)"
  using set_remove_nth [of k xs] by (auto simp: list_all_iff)

lemma fire_inv:
  assumes inv: "ui_inv ctx s" and k: "k < length (timers s)"
    and due: "timer_due (timers s ! k) \<le> now" and clk: "clock s \<le> now"
  shows "ui_inv ctx (fire (timers s ! k) now cur (s\<lparr>clock := now, timers := remove_nth k (timers s)\<rparr>))"
proof -
  let ?s' = "s\<lparr>clock := now, timers := remove_nth k (timers s)\<rparr>"
  have cnt: "length (filter is_finish (remove_nth k (timers s))) + (if is_finish (timers s ! k) then 1 else 0)
      = length (filter is_finish (timers s))"
    using filter_remove_nth [OF k] .
  have tok: "timer_ok ctx (start_time s) (timers s ! k)"
    using inv k by (simp add: ui_inv_def list_all_length)
  have rest: "list_all (timer_ok ctx (start_time s)) (remove_nth k (timers s))"
    using inv by (simp add: ui_inv_def list_all_remove_nth)
  show ?thesis
  proof (cases "timers s ! k")
    case (FinishTimer d ci ok)
    have resp: "responded s"
    proof (rule ccontr)
      assume "\<not> responded s"
      then have "filter is_finish (timers s) = []" using inv by (simp add: ui_inv_def)
      with cnt FinishTimer show False by (simp add: is_finish_def)
    qed
    have "length (finished s) + Suc (length (filter is_finish (remove_nth k (timers s)))) \<le> 1"
      using inv cnt FinishTimer by (simp add: ui_inv_def is_finish_def)
    then have "finished s = [] \<and> filter is_finish (remove_nth k (timers s)) = []"
      by simp
    moreover have "fd_ok ctx \<lparr>response = ci, fd_correct = ok, rt = now - start_time s\<rparr>"
      using tok FinishTimer due by (auto simp: timer_ok_def fd_ok_def timer_due_def)
    ultimately show ?thesis
      using inv clk resp rest FinishTimer by (simp add: ui_inv_def finish_now_def)
  next
    case (PromptTimer d)
    have "length (filter is_finish (remove_nth k (timers s))) \<le> length (filter is_finish (timers s))"
      using cnt by simp
    then have "ui_inv ctx ?s'"
      using inv clk rest by (auto simp: ui_inv_def)
    then show ?thesis
      using PromptTimer by (simp add: ui_inv_def)
  qed
qed

lemma ui_step_inv: "ui_inv ctx s \<Longrightarrow> ui_step ctx s ev = Some s' \<Longrightarrow> ui_inv ctx s'"
proof (cases ev)
  case (Click ci now)
  assume inv: "ui_inv ctx s" and st: "ui_step ctx s ev = Some s'"
  with Click have g: "0 \<le> ci" "ci < int (num_cards ctx)" "clock s \<le> now"
    by (simp_all split: if_splits)
  have inv': "ui_inv ctx (s\<lparr>clock := now\<rparr>)" using inv g(3) by (simp add: ui_inv_def)
  have "case click ctx ci now (s\<lparr>clock := now\<rparr>) of Inl (e, s') \<Rightarrow> ui_inv ctx s' | Inr s' \<Rightarrow> ui_inv ctx s'"
    using click_inv [OF inv' g(1,2)] by simp
  with st Click g show ?thesis
    by (auto simp: ui_inv_def split: sum.splits)
next
  case (Fire k now cur)
  assume inv: "ui_inv ctx s" and st: "ui_step ctx s ev = Some s'"
  with Fire have g: "k < length (timers s)" "timer_due (timers s ! k) \<le> now" "clock s \<le> now"
    by (simp_all split: if_splits)
  from st Fire g have "s' = fire (timers s ! k) now cur (s\<lparr>clock := now, timers := remove_nth k (timers s)\<rparr>)"
    by simp
  with fire_inv [OF inv g] show ?thesis by simp
qed

lemma reach_inv: "reach ctx s \<Longrightarrow> ui_inv ctx s"
proof (induction rule: reach.induct)
  case (init now b)
  show ?case by (rule setupTrial_inv)
next
  case (step s ev s')
  then show ?case by (blast intro: ui_step_inv)
qed


subsection \<open>Properties of \<open>setupTrial\<close>\<close>

lemmas ui_eval = click_def show_feedback_def finish_now_def remove_nth_def timer_due_def
  setupTrial_def playAudio_def Let_def test_ctx_def test_trial_def test_browser_def mk_trial_def

lemma reach_run_events: "reach ctx s \<Longrightarrow> run_events ctx s es = Some s' \<Longrightarrow> reach ctx s'"
proof (induction es arbitrary: s)
  case Nil
  then show ?case by simp
next
  case (Cons e es)
  then obtain t where t: "ui_step ctx s e = Some t" and r: "run_events ctx t es = Some s'"
    by (auto split: option.splits)
  from Cons.prems(1) t have "reach ctx t" by (rule reach.step)
  then show ?case using r by (rule Cons.IH)
qed

lemma fire_responded: "responded (fire tm now cur s) = responded s"
  by (cases tm) (simp_all add: finish_now_def)

lemma fire_env_finish: "env (fire (FinishTimer d ci ok) now cur s) = env s"
  by (simp add: finish_now_def)

lemma reach_unfinished: "reach ctx s \<Longrightarrow> \<not> finish_reachable ctx \<Longrightarrow> finished s = []"
proof -
  assume r: "reach ctx s" and nf: "\<not> finish_reachable ctx"
  have "list_all (fd_ok ctx) (finished s)" using reach_inv [OF r] by (simp add: ui_inv_def)
  with nf show ?thesis by (cases "finished s") (simp_all add: fd_ok_def finish_reachable_def)
qed

text \<open>C2: at most one result: in every state reachable from \<open>setupTrial\<close>, \<open>jsPsych.finishTrial\<close> has been called at most once, whatever the clicks and timer firings.\<close>

theorem setupTrial_at_most_once:
  assumes "reach ctx s"
  shows "length (finished s) \<le> 1"
  using reach_inv [OF assms] by (simp add: ui_inv_def)

lemma setupTrial_at_most_once_witness:
  "reach (test_ctx False 2)
     (the (run_events (test_ctx False 2) (setupTrial (test_ctx False 2) 1000 test_browser)
            [Click 0 2000, Click 1 2500])) \<and>
   length (finished (the (run_events (test_ctx False 2) (setupTrial (test_ctx False 2) 1000 test_browser)
            [Click 0 2000, Click 1 2500]))) \<le> 1"
proof -
  let ?ctx = "test_ctx False 2"
  let ?s0 = "setupTrial ?ctx 1000 test_browser"
  let ?es = "[Click 0 2000, Click 1 2500]"
  have e: "run_events ?ctx ?s0 ?es = Some (the (run_events ?ctx ?s0 ?es))"
    by (simp add: ui_eval)
  have r: "reach ?ctx (the (run_events ?ctx ?s0 ?es))"
    using reach_run_events [OF reach.init e] .
  show ?thesis using r setupTrial_at_most_once [OF r] by simp
qed

text \<open>C3: every reported result says whether the clicked card is the trial's answer (\<open>correct = (cardIndex === trial.correct)\<close>), and \<open>response\<close> is the index of an existing card.\<close>

theorem setupTrial_reports_correctness:
  assumes "reach ctx s"
  shows "\<forall>f \<in> set (finished s). fd_correct f = (response f = correct (the_trial ctx)) \<and>
           0 \<le> response f \<and> response f < int (num_cards ctx)"
  using reach_inv [OF assms] by (auto simp: ui_inv_def fd_ok_def list_all_iff)

text \<open>C6: once a response has been accepted, a further click changes nothing (the latch makes the listener return at once).\<close>

theorem click_after_response_noop:
  assumes "responded s"
  shows "ui_step ctx s (Click ci now) =
           (if 0 \<le> ci \<and> ci < int (num_cards ctx) \<and> clock s \<le> now then Some (s\<lparr>clock := now\<rparr>) else None)"
  using assms by (simp add: click_responded)

text \<open>C12: the latch never resets: no event takes a responded trial back to awaiting a response.\<close>

theorem latch_monotone:
  assumes "ui_step ctx s ev = Some s'" and "responded s"
  shows "responded s'"
proof (cases ev)
  case (Click ci now)
  with assms show ?thesis by (auto simp: click_responded split: if_splits)
next
  case (Fire k now cur)
  with assms show ?thesis by (auto simp: fire_responded split: if_splits)
qed

text \<open>On the no-feedback path the first click finishes the trial at once with \<open>{response: cardIndex, correct, rt: now - startTime}\<close> and sets the latch.\<close>

theorem click_no_feedback_reports:
  assumes "\<not> with_feedback ctx" "\<not> responded s"
    and "0 \<le> ci" "ci < int (num_cards ctx)" "clock s \<le> now"
  shows "ui_step ctx s (Click ci now) =
           Some (s\<lparr>clock := now, responded := True,
                   finished := finished s @ [\<lparr>response = ci, fd_correct = (ci = correct (the_trial ctx)),
                                              rt = now - start_time s\<rparr>]\<rparr>)"
  using assms by (simp add: click_no_feedback finish_now_def)

text \<open>C13: on the feedback path the first click finishes nothing yet: it sets the latch and schedules completion 1500 ms later for a correct and 2500 ms later for an incorrect answer.\<close>

theorem click_feedback_delay:
  assumes "with_feedback ctx" "\<not> responded s"
    and "0 \<le> ci" "ci < int (num_cards ctx)" "clock s \<le> now"
    and "feedback_div ctx \<longrightarrow> card_exists ctx"
  shows "\<exists>s'. ui_step ctx s (Click ci now) = Some s' \<and> responded s' \<and> finished s' = finished s \<and>
           timers s' = timers s @ [FinishTimer (now + (if ci = correct (the_trial ctx) then 1500 else 2500))
                                      ci (ci = correct (the_trial ctx))]"
  using assms
  by (auto simp: click_feedback show_feedback_def Let_def card_exists_def)

text \<open>C14: on the feedback path the reported \<open>rt\<close> is measured when the delayed callback runs, so it is never below the 1500 ms feedback delay, however fast the click.\<close>

theorem feedback_rt_includes_delay:
  assumes "reach ctx s" "with_feedback ctx"
  shows "\<forall>f \<in> set (finished s). 1500 \<le> rt f"
  using reach_inv [OF assms(1)] assms(2) by (auto simp: ui_inv_def fd_ok_def list_all_iff)

text \<open>C15: the 5 s reminder speaks \<open>Choose one of the pictures.\<close> exactly when the trial is still unanswered, \<open>getCurrentTrial()\<close> returns a trial and audio is on; otherwise its firing is a no-op.\<close>

theorem prompt_only_unanswered:
  assumes "ui_step ctx s (Fire k now cur) = Some s'" "timers s ! k = PromptTimer d"
  shows "spoken (env s') = spoken (env s) @
           (if \<not> responded s \<and> cur \<and> audio_enabled (game (env s)) \<and> speech_supported (env s)
            then [\<lparr>u_text = ''Choose one of the pictures.'', u_rate = 9/10\<rparr>] else [])"
  using assms by (auto simp: playAudio_spoken split: if_splits)

text \<open>When \<open>trial.correct\<close> names no rendered card on the feedback path, a wrong click throws in \<open>cards[trial.correct].classList\<close> after the latch is set, and the trial never finishes.\<close>

theorem missing_card_hangs:
  assumes "reach ctx s" "with_feedback ctx" "feedback_div ctx" "\<not> card_exists ctx"
  shows "finished s = []"
  using assms by (simp add: reach_unfinished finish_reachable_def)

text \<open>The unit test scenario: one card, answer 0, start at 1000 ms, clicks at 2000, 2100 and 2200 ms on the no-feedback path report exactly one result \<open>{response: 0, correct: true, rt: 1000}\<close>.\<close>

theorem no_feedback_click_example:
  "map_option finished
     (run_events (test_ctx False 1) (setupTrial (test_ctx False 1) 1000 test_browser)
        [Click 0 2000, Click 0 2100, Click 0 2200]) =
   Some [\<lparr>response = 0, fd_correct = True, rt = 1000\<rparr>]"
  by (simp add: ui_eval)

lemma setupTrial_reports_correctness_witness:
  "reach (test_ctx False 2)
     (the (run_events (test_ctx False 2) (setupTrial (test_ctx False 2) 1000 test_browser) [Click 1 2000])) \<and>
   finished (the (run_events (test_ctx False 2) (setupTrial (test_ctx False 2) 1000 test_browser) [Click 1 2000])) =
     [\<lparr>response = 1, fd_correct = False, rt = 1000\<rparr>] \<and>
   list_all (\<lambda>f. fd_correct f = (response f = correct (the_trial (test_ctx False 2))) \<and>
      0 \<le> response f \<and> response f < int (num_cards (test_ctx False 2)))
     (finished (the (run_events (test_ctx False 2) (setupTrial (test_ctx False 2) 1000 test_browser) [Click 1 2000])))"
proof -
  let ?ctx = "test_ctx False 2"
  let ?s0 = "setupTrial ?ctx 1000 test_browser"
  have e: "run_events ?ctx ?s0 [Click 1 2000] = Some (the (run_events ?ctx ?s0 [Click 1 2000]))"
    by (simp add: ui_eval)
  have r: "reach ?ctx (the (run_events ?ctx ?s0 [Click 1 2000]))"
    using reach_run_events [OF reach.init e] .
  have f: "finished (the (run_events ?ctx ?s0 [Click 1 2000])) = [\<lparr>response = 1, fd_correct = False, rt = 1000\<rparr>]"
    by (simp add: ui_eval)
  show ?thesis using r f setupTrial_reports_correctness [OF r] by (simp add: list_all_iff)
qed

lemma click_after_response_noop_witness:
  "responded (the (run_events (test_ctx False 2) (setupTrial (test_ctx False 2) 1000 test_browser) [Click 0 2000])) \<and>
   ui_step (test_ctx False 2)
     (the (run_events (test_ctx False 2) (setupTrial (test_ctx False 2) 1000 test_browser) [Click 0 2000]))
     (Click 1 2500) =
   Some ((the (run_events (test_ctx False 2) (setupTrial (test_ctx False 2) 1000 test_browser) [Click 0 2000]))
           \<lparr>clock := 2500\<rparr>)"
proof -
  let ?s = "the (run_events (test_ctx False 2) (setupTrial (test_ctx False 2) 1000 test_browser) [Click 0 2000])"
  have h: "responded ?s" by (simp add: ui_eval)
  have g: "0 \<le> (1::int) \<and> 1 < int (num_cards (test_ctx False 2)) \<and> clock ?s \<le> 2500"
    by (simp add: ui_eval)
  have "ui_step (test_ctx False 2) ?s (Click 1 2500) = Some (?s\<lparr>clock := 2500\<rparr>)"
    using click_after_response_noop [OF h, of "test_ctx False 2" 1 2500] g by presburger
  with h show ?thesis by blast
qed

lemma latch_monotone_witness:
  "ui_step (test_ctx True 2) (the (run_events (test_ctx True 2) (setupTrial (test_ctx True 2) 0 test_browser) [Click 0 800]))
     (Fire 0 2300 True) =
     Some (the (run_events (test_ctx True 2) (setupTrial (test_ctx True 2) 0 test_browser) [Click 0 800, Fire 0 2300 True])) \<and>
   responded (the (run_events (test_ctx True 2) (setupTrial (test_ctx True 2) 0 test_browser) [Click 0 800])) \<and>
   responded (the (run_events (test_ctx True 2) (setupTrial (test_ctx True 2) 0 test_browser) [Click 0 800, Fire 0 2300 True]))"
proof -
  let ?ctx = "test_ctx True 2"
  let ?s = "the (run_events ?ctx (setupTrial ?ctx 0 test_browser) [Click 0 800])"
  let ?s' = "the (run_events ?ctx (setupTrial ?ctx 0 test_browser) [Click 0 800, Fire 0 2300 True])"
  have h1: "ui_step ?ctx ?s (Fire 0 2300 True) = Some ?s'" by (simp add: ui_eval)
  have h2: "responded ?s" by (simp add: ui_eval)
  show ?thesis using h1 h2 latch_monotone [OF h1 h2] by simp
qed

lemma click_no_feedback_reports_witness:
  "\<not> with_feedback (test_ctx False 2) \<and> \<not> responded (setupTrial (test_ctx False 2) 1000 test_browser) \<and>
   ui_step (test_ctx False 2) (setupTrial (test_ctx False 2) 1000 test_browser) (Click 1 2000) =
     Some ((setupTrial (test_ctx False 2) 1000 test_browser)\<lparr>clock := 2000, responded := True,
        finished := [\<lparr>response = 1, fd_correct = False, rt = 1000\<rparr>]\<rparr>)"
proof -
  let ?ctx = "test_ctx False 2"
  let ?s = "setupTrial ?ctx 1000 test_browser"
  have h: "\<not> with_feedback ?ctx" "\<not> responded ?s" "0 \<le> (1::int)" "1 < int (num_cards ?ctx)"
    "clock ?s \<le> 2000"
    by (simp_all add: ui_eval)
  show ?thesis using h click_no_feedback_reports [OF h] by (simp add: ui_eval)
qed

lemma click_feedback_delay_witness:
  "with_feedback (test_ctx True 2) \<and> \<not> responded (setupTrial (test_ctx True 2) 1000 test_browser) \<and>
   (\<exists>s'. ui_step (test_ctx True 2) (setupTrial (test_ctx True 2) 1000 test_browser) (Click 1 1200) = Some s' \<and>
      responded s' \<and> finished s' = [] \<and> timers s' = [FinishTimer 3700 1 False])"
proof -
  let ?ctx = "test_ctx True 2"
  let ?s = "setupTrial ?ctx 1000 test_browser"
  have h: "with_feedback ?ctx" "\<not> responded ?s" "0 \<le> (1::int)" "1 < int (num_cards ?ctx)"
    "clock ?s \<le> 1200" "feedback_div ?ctx \<longrightarrow> card_exists ?ctx"
    by (simp_all add: ui_eval card_exists_def)
  show ?thesis using h click_feedback_delay [OF h] by (simp add: ui_eval)
qed

lemma feedback_rt_includes_delay_witness:
  "reach (test_ctx True 2) (the (run_events (test_ctx True 2) (setupTrial (test_ctx True 2) 0 test_browser)
      [Click 0 10, Fire 0 1510 True])) \<and> with_feedback (test_ctx True 2) \<and>
   finished (the (run_events (test_ctx True 2) (setupTrial (test_ctx True 2) 0 test_browser)
      [Click 0 10, Fire 0 1510 True])) = [\<lparr>response = 0, fd_correct = True, rt = 1510\<rparr>] \<and>
   list_all (\<lambda>f. 1500 \<le> rt f) (finished (the (run_events (test_ctx True 2) (setupTrial (test_ctx True 2) 0 test_browser)
      [Click 0 10, Fire 0 1510 True])))"
proof -
  let ?ctx = "test_ctx True 2"
  let ?s0 = "setupTrial ?ctx 0 test_browser"
  let ?es = "[Click 0 10, Fire 0 1510 True]"
  have e: "run_events ?ctx ?s0 ?es = Some (the (run_events ?ctx ?s0 ?es))"
    by (simp add: ui_eval)
  have r: "reach ?ctx (the (run_events ?ctx ?s0 ?es))"
    using reach_run_events [OF reach.init e] .
  have w: "with_feedback ?ctx" by (simp add: test_ctx_def)
  have f: "finished (the (run_events ?ctx ?s0 ?es)) = [\<lparr>response = 0, fd_correct = True, rt = 1510\<rparr>]"
    by (simp add: ui_eval)
  show ?thesis using r w f feedback_rt_includes_delay [OF r w] by (simp add: list_all_iff)
qed

lemma prompt_only_unanswered_witness:
  "ui_step (test_ctx False 2) (setupTrial (test_ctx False 2) 1000 test_browser) (Fire 0 6000 True) =
     Some (the (ui_step (test_ctx False 2) (setupTrial (test_ctx False 2) 1000 test_browser) (Fire 0 6000 True))) \<and>
   timers (setupTrial (test_ctx False 2) 1000 test_browser) ! 0 = PromptTimer 6000 \<and>
   spoken (env (the (ui_step (test_ctx False 2) (setupTrial (test_ctx False 2) 1000 test_browser) (Fire 0 6000 True)))) = []"
proof -
  let ?ctx = "test_ctx False 2"
  let ?s = "setupTrial ?ctx 1000 test_browser"
  have h1: "ui_step ?ctx ?s (Fire 0 6000 True) = Some (the (ui_step ?ctx ?s (Fire 0 6000 True)))"
    by (simp add: ui_eval)
  have h2: "timers ?s ! 0 = PromptTimer 6000" by (simp add: ui_eval)
  show ?thesis using h1 h2 prompt_only_unanswered [OF h1 h2] by (simp add: ui_eval)
qed

lemma missing_card_hangs_witness:
  "reach ((test_ctx True 1)\<lparr>the_trial := test_trial\<lparr>correct := 1\<rparr>\<rparr>)
     (the (run_events ((test_ctx True 1)\<lparr>the_trial := test_trial\<lparr>correct := 1\<rparr>\<rparr>)
        (setupTrial ((test_ctx True 1)\<lparr>the_trial := test_trial\<lparr>correct := 1\<rparr>\<rparr>) 0 test_browser) [Click 0 700])) \<and>
   with_feedback ((test_ctx True 1)\<lparr>the_trial := test_trial\<lparr>correct := 1\<rparr>\<rparr>) \<and>
   feedback_div ((test_ctx True 1)\<lparr>the_trial := test_trial\<lparr>correct := 1\<rparr>\<rparr>) \<and>
   \<not> card_exists ((test_ctx True 1)\<lparr>the_trial := test_trial\<lparr>correct := 1\<rparr>\<rparr>) \<and>
   finished (the (run_events ((test_ctx True 1)\<lparr>the_trial := test_trial\<lparr>correct := 1\<rparr>\<rparr>)
        (setupTrial ((test_ctx True 1)\<lparr>the_trial := test_trial\<lparr>correct := 1\<rparr>\<rparr>) 0 test_browser) [Click 0 700])) = []"
proof -
  let ?ctx = "(test_ctx True 1)\<lparr>the_trial := test_trial\<lparr>correct := 1\<rparr>\<rparr>"
  let ?s0 = "setupTrial ?ctx 0 test_browser"
  have e: "run_events ?ctx ?s0 [Click 0 700] = Some (the (run_events ?ctx ?s0 [Click 0 700]))"
    by (simp add: ui_eval)
  have r: "reach ?ctx (the (run_events ?ctx ?s0 [Click 0 700]))"
    using reach_run_events [OF reach.init e] .
  have h: "with_feedback ?ctx" "feedback_div ?ctx" "\<not> card_exists ?ctx"
    by (simp_all add: test_ctx_def card_exists_def)
  show ?thesis using r h missing_card_hangs [OF r h] by simp
qed

subsection \<open>Progress\<close>

lemma show_feedback_card_Inr: "card_exists ctx \<Longrightarrow> \<exists>s'. show_feedback ctx ok s = Inr s'"
  by (simp add: show_feedback_def Let_def card_exists_def)

lemma card_exists_finish_reachable: "card_exists ctx \<Longrightarrow> finish_reachable ctx"
  by (simp add: finish_reachable_def)

lemma click_card_Inr:
  assumes "finish_reachable ctx" "progress_ok s"
  shows "\<exists>s'. click ctx ci now s = Inr s' \<and> progress_ok s'"
proof (cases "responded s")
  case False
  show ?thesis
  proof (cases "with_feedback ctx")
    case True
    obtain s2 where "(if feedback_div ctx then show_feedback ctx (ci = correct (the_trial ctx)) (s\<lparr>responded := True\<rparr>)
                      else Inr (s\<lparr>responded := True\<rparr>)) = Inr s2"
      using show_feedback_card_Inr [of ctx] assms(1) True by (cases "feedback_div ctx") (auto simp: finish_reachable_def)
    with False True show ?thesis
      by (auto simp: click_feedback progress_ok_def is_finish_def)
  qed (use False in \<open>simp add: click_no_feedback progress_ok_def finish_now_def\<close>)
qed (use assms(2) in \<open>simp add: click_responded progress_ok_def\<close>)

lemma fire_progress:
  assumes "progress_ok s" "k < length (timers s)"
  shows "progress_ok (fire (timers s ! k) now cur (s\<lparr>clock := now, timers := remove_nth k (timers s)\<rparr>))"
proof (cases "timers s ! k")
  case (FinishTimer d ci ok)
  then show ?thesis by (simp add: progress_ok_def finish_now_def)
next
  case (PromptTimer d)
  have "length (filter is_finish (remove_nth k (timers s))) = length (filter is_finish (timers s))"
    using filter_remove_nth [OF assms(2), of is_finish] PromptTimer by (simp add: is_finish_def)
  then have "list_ex is_finish (remove_nth k (timers s)) = list_ex is_finish (timers s)"
    by (metis length_0_conv filter_empty_conv list_ex_iff)
  with assms(1) PromptTimer show ?thesis by (simp add: progress_ok_def)
qed

lemma ui_step_progress:
  assumes "finish_reachable ctx" "progress_ok s" "ui_step ctx s ev = Some s'"
  shows "progress_ok s'"
proof (cases ev)
  case (Click ci now)
  obtain s2 where "click ctx ci now (s\<lparr>clock := now\<rparr>) = Inr s2" "progress_ok s2"
    using click_card_Inr [OF assms(1), of "s\<lparr>clock := now\<rparr>" ci now] assms(2)
    by (auto simp: progress_ok_def)
  with assms(3) Click show ?thesis by (auto split: if_splits)
next
  case (Fire k now cur)
  with assms(2,3) fire_progress [OF assms(2)] show ?thesis by (auto split: if_splits)
qed

lemma reach_progress: "reach ctx s \<Longrightarrow> finish_reachable ctx \<Longrightarrow> progress_ok s"
proof (induction rule: reach.induct)
  case (init now b)
  show ?case by (simp add: progress_ok_def setupTrial_def)
next
  case (step s ev s')
  then show ?case using ui_step_progress by blast
qed

lemma pending_finish:
  assumes "list_ex is_finish (timers s)"
  shows "\<exists>ev s'. ui_step ctx s ev = Some s' \<and> finished s' \<noteq> []"
proof -
  obtain j where j: "j < length (timers s)" "is_finish (timers s ! j)"
    using assms by (auto simp: list_ex_iff in_set_conv_nth)
  obtain d ci ok where fin: "timers s ! j = FinishTimer d ci ok"
    using j(2) by (cases "timers s ! j") (simp_all add: is_finish_def)
  let ?now = "max (clock s) d"
  have "ui_step ctx s (Fire j ?now True) =
          Some (finish_now ci ok ?now (s\<lparr>clock := ?now, timers := remove_nth j (timers s)\<rparr>))"
    by (simp add: fin j(1) timer_due_def)
  moreover have "finished (finish_now ci ok ?now (s\<lparr>clock := ?now, timers := remove_nth j (timers s)\<rparr>)) \<noteq> []"
    by (simp add: finish_now_def)
  ultimately show ?thesis by blast
qed

lemma click_sets_responded: "click ctx ci now s = Inr s' \<Longrightarrow> responded s'"
  by (cases "responded s")
     (auto simp: click_def show_feedback_def finish_now_def Let_def split: if_splits sum.splits)

lemma responded_can_finish:
  assumes "reach ctx s" "finish_reachable ctx" "responded s"
  shows "\<exists>evs s'. run_events ctx s evs = Some s' \<and> finished s' \<noteq> []"
proof (cases "finished s = []")
  case True
  then have "list_ex is_finish (timers s)"
    using reach_progress [OF assms(1,2)] assms(3) by (simp add: progress_ok_def)
  then obtain ev s' where "ui_step ctx s ev = Some s'" "finished s' \<noteq> []"
    using pending_finish by blast
  then show ?thesis by (intro exI [of _ "[ev]"]) simp
qed (intro exI [of _ "[]"], simp)

text \<open>C9: liveness: from every state reachable from \<open>setupTrial\<close>, when the
  trial's \<open>correct\<close> index names a rendered card, some sequence of clicks
  and timer firings ends the trial with \<open>finishTrial\<close>: clicking the
  correct card and letting its deferred callback run always works.\<close>

theorem trial_can_finish:
  assumes "reach ctx s" "card_exists ctx"
  shows "\<exists>evs s'. run_events ctx s evs = Some s' \<and> finished s' \<noteq> []"
proof -
  have fr: "finish_reachable ctx" using assms(2) by (rule card_exists_finish_reachable)
  show ?thesis
  proof (cases "responded s")
    case False
    let ?ev = "Click (correct (the_trial ctx)) (clock s)"
    obtain s1 where c: "click ctx (correct (the_trial ctx)) (clock s) (s\<lparr>clock := clock s\<rparr>) = Inr s1"
      using click_card_Inr [OF fr, of "s\<lparr>clock := clock s\<rparr>"] reach_progress [OF assms(1) fr]
      by (auto simp: progress_ok_def)
    have st: "ui_step ctx s ?ev = Some s1"
      using c assms(2) by (simp add: card_exists_def)
    have r1: "reach ctx s1" by (rule reach.step [OF assms(1) st])
    obtain evs s' where "run_events ctx s1 evs = Some s'" "finished s' \<noteq> []"
      using responded_can_finish [OF r1 fr click_sets_responded [OF c]] by blast
    with st show ?thesis by (intro exI [of _ "?ev # evs"]) simp
  qed (rule responded_can_finish [OF assms(1) fr])
qed

lemma trial_can_finish_witness:
  "reach (test_ctx True 2) (setupTrial (test_ctx True 2) 1000 test_browser) \<and>
   card_exists (test_ctx True 2) \<and>
   (\<exists>evs s'. run_events (test_ctx True 2) (setupTrial (test_ctx True 2) 1000 test_browser) evs = Some s' \<and>
             finished s' \<noteq> [])"
proof -
  have h1: "reach (test_ctx True 2) (setupTrial (test_ctx True 2) 1000 test_browser)" by (rule reach.init)
  have h2: "card_exists (test_ctx True 2)" by (simp add: card_exists_def test_ctx_def test_trial_def)
  show ?thesis using h1 h2 trial_can_finish [OF h1 h2] by blast
qed

end
