(* ===== verification/Timeline.thy ===== *)
theory Timeline
  imports Generator Response
begin

text \<open>
  The screen builders and \<open>createTimeline\<close> of \<open>src/src/index.ts\<close>.  A
  jsPsych screen descriptor is the record \<open>screen\<close>: its plugin, its
  stimulus, its allowed responses, its \<open>data\<close> object and its
  \<open>on_load\<close>/\<open>on_finish\<close> hooks, the hooks named by what they do (speak a
  text, call \<open>setupTrial\<close> with given arguments, run the welcome
  \<open>on_finish\<close> of \<open>GameState\<close>).  An HTML template literal is the list of
  its lines with their leading indentation removed (\<open>html\<close>); interpolated
  values are spliced in as the source does.  The results screen's stimulus
  is a function evaluated when shown (\<open>Results\<close> models it).
  \<open>createTimeline\<close> threads the browser (it calls \<open>resetState\<close>) and the
  random source (it calls \<open>generateMixedTrials\<close>), and fails where the
  generator fails.
\<close>

type_synonym html = "string list"

datatype plugin = HtmlButtonResponse | HtmlKeyboardResponse

datatype response_choices = Buttons "string list" | NO_KEYS

datatype screen_stimulus = StaticHtml html | ResultsFunction

record trial_data =
  task :: string
  phase :: string
  trial_num :: int
  data_dimension :: string
  correct_response :: int
  data_target :: string

datatype screen_data = NoData | WelcomeData string | TrialData trial_data

text \<open>\<open>SetupOnLoad trial phase trialNum dimension withFeedback\<close> is the call
  \<open>setupTrial(jsPsych, trial, phase, trialNum, dimension, withFeedback)\<close>.\<close>

datatype load_hook = NoLoad | SpeakOnLoad string | SetupOnLoad trial string int string bool

datatype finish_hook = NoFinish | WelcomeFinish

record screen =
  scr_type :: plugin
  scr_stimulus :: screen_stimulus
  scr_choices :: response_choices
  scr_data :: screen_data
  scr_load :: load_hook
  scr_finish :: finish_hook

record timeline_config =
  practiceTrials :: int
  testTrials :: int
  mixedTrials :: int
  showInstructions :: bool
  showResults :: bool

definition DEFAULT_PRACTICE_TRIALS :: int where "DEFAULT_PRACTICE_TRIALS = 5"
definition DEFAULT_TEST_TRIALS :: int where "DEFAULT_TEST_TRIALS = 5"
definition DEFAULT_MIXED_TRIALS :: int where "DEFAULT_MIXED_TRIALS = 30"

definition default_config :: timeline_config where
  "default_config = \<lparr>practiceTrials = DEFAULT_PRACTICE_TRIALS, testTrials = DEFAULT_TEST_TRIALS,
     mixedTrials = DEFAULT_MIXED_TRIALS, showInstructions = True, showResults = True\<rparr>"

definition button_screen :: "html \<Rightarrow> string list \<Rightarrow> load_hook \<Rightarrow> screen" where
  "button_screen h cs ld = \<lparr>scr_type = HtmlButtonResponse, scr_stimulus = StaticHtml h,
     scr_choices = Buttons cs, scr_data = NoData, scr_load = ld, scr_finish = NoFinish\<rparr>"

subsection \<open>The trial stimulus\<close>

definition createTrialStimulus :: "stimulus \<Rightarrow> stimulus \<Rightarrow> stimulus \<Rightarrow> string \<Rightarrow> html" where
  "createTrialStimulus t l r cueWord = [
     ''<div class=\"dccs-trial-container\">'',
     ''<div class=\"dccs-cue\">'' @ cueWord @ ''</div>'',
     ''<div class=\"dccs-target-container\">'',
     ''<div class=\"dccs-target-card\">'',
     ''<img src=\"'' @ img t @ ''\" alt=\"'' @ name t @ ''\">'',
     ''</div>'',
     ''</div>'',
     ''<div class=\"dccs-choices-container\">'',
     ''<div class=\"dccs-choice-card\" data-choice=\"0\">'',
     ''<img src=\"'' @ img l @ ''\" alt=\"'' @ name l @ ''\">'',
     ''</div>'',
     ''<div class=\"dccs-choice-card\" data-choice=\"1\">'',
     ''<img src=\"'' @ img r @ ''\" alt=\"'' @ name r @ ''\">'',
     ''</div>'',
     ''</div>'',
     ''<div class=\"dccs-feedback\" id=\"feedback\"></div>'',
     ''</div>'']"

subsection \<open>Screen builders\<close>

definition createWelcome :: screen where
  "createWelcome = \<lparr>scr_type = HtmlButtonResponse, scr_stimulus = StaticHtml [
     ''<div style=\"max-width: 600px; margin: auto;\">'',
     ''<h1>Dimensional Change Card Sort</h1>'',
     ''<p style=\"font-size: 18px; line-height: 1.5;\">'',
     ''Welcome! In this game, you'' @ [CHR 0x27] @ ''ll match pictures based on their COLOR or SHAPE.'',
     ''</p>'',
     ''<p style=\"font-size: 18px; line-height: 1.5;\">'',
     ''We'' @ [CHR 0x27] @ ''ll show you a picture at the top, and you'' @ [CHR 0x27] @ ''ll choose which picture below matches it.'',
     ''</p>'',
     ''<div class=\"audio-toggle\">'',
     ''<label>'',
     ''<input type=\"checkbox\" id=\"audioToggle\" onchange=\"window.tempaudio_enabled = this.checked\">'',
     ''Enable audio instructions'',
     ''</label>'',
     ''</div>'',
     ''</div>''],
   scr_choices = Buttons [''Start''], scr_data = WelcomeData ''welcome'',
   scr_load = NoLoad, scr_finish = WelcomeFinish\<rparr>"

definition createColorInstructions :: "screen list" where
  "createColorInstructions = [
     button_screen [
       ''<div style=\"max-width: 600px; margin: auto;\">'',
       ''<h2>COLOR Game</h2>'',
       ''<p style=\"font-size: 18px;\">'',
       ''We are going to play some games. In the COLOR game, choose the picture'',
       ''that'' @ [CHR 0x27] @ ''s the same COLOR as the picture at the top of the screen.'',
       ''</p>'',
       ''<div class=\"instructions-card\">'',
       ''<p>If it'' @ [CHR 0x27] @ ''s <strong>BROWN</strong>, choose this picture:</p>'',
       ''<img src=\"'' @ img brownBoat @ ''\" alt=\"brown boat\">'',
       ''</div>'',
       ''</div>''] [''Next'']
       (SpeakOnLoad (''We are going to play some games. In the COLOR game, choose the picture that'' @ [CHR 0x27] @
          ''s the same COLOR as the picture at the top of the screen. If it'' @ [CHR 0x27] @ ''s BROWN, choose this picture.'')),
     button_screen [
       ''<div style=\"max-width: 600px; margin: auto;\">'',
       ''<div class=\"instructions-card\">'',
       ''<p>If it'' @ [CHR 0x27] @ ''s <strong>WHITE</strong>, choose this picture:</p>'',
       ''<img src=\"'' @ img whiteRabbit @ ''\" alt=\"white rabbit\">'',
       ''</div>'',
       ''</div>''] [''Next'']
       (SpeakOnLoad (''If it'' @ [CHR 0x27] @ ''s WHITE, choose this picture.'')),
     button_screen [
       ''<h2>Now you try!</h2><p>Click the button when you'' @ [CHR 0x27] @ ''re ready to practice.</p>'']
       [''Start Practice''] (SpeakOnLoad ''Now you try.'')]"

definition createPracticeTrial :: "trial \<Rightarrow> int \<Rightarrow> screen" where
  "createPracticeTrial t index =
     \<lparr>scr_type = HtmlKeyboardResponse,
      scr_stimulus = StaticHtml (createTrialStimulus (target t) (left t) (right t) ''COLOR''),
      scr_choices = NO_KEYS,
      scr_data = TrialData \<lparr>task = ''dccs'', phase = ''color_practice'', trial_num = index + 1,
        data_dimension = ''color'', correct_response = correct t, data_target = name (target t)\<rparr>,
      scr_load = SetupOnLoad t ''color_practice'' (index + 1) ''color'' True,
      scr_finish = NoFinish\<rparr>"

definition createColorTestInstructions :: "screen list" where
  "createColorTestInstructions = [
     button_screen [
       ''<div style=\"max-width: 600px; margin: auto;\">'',
       ''<h2>Now, let'' @ [CHR 0x27] @ ''s play with different SHAPES and COLORS</h2>'',
       ''<p style=\"font-size: 18px;\">'',
       ''This time we'' @ [CHR 0x27] @ ''ll use BALLS and TRUCKS that are ORANGE and BLUE.'',
       ''</p>'',
       ''<p style=\"font-size: 18px;\">'',
       ''Like before, choose the picture that'' @ [CHR 0x27] @ ''s the same COLOR.'',
       ''</p>'',
       ''<div style=\"display: flex; justify-content: center; gap: 30px; margin: 30px 0;\">'',
       ''<div class=\"instructions-card\">'',
       ''<p>If it'' @ [CHR 0x27] @ ''s <strong>BLUE</strong>:</p>'',
       ''<img src=\"'' @ img blueBall @ ''\" alt=\"blue ball\">'',
       ''</div>'',
       ''<div class=\"instructions-card\">'',
       ''<p>If it'' @ [CHR 0x27] @ ''s <strong>ORANGE</strong>:</p>'',
       ''<img src=\"'' @ img orangeTruck @ ''\" alt=\"orange truck\">'',
       ''</div>'',
       ''</div>'',
       ''</div>''] [''Start'']
       (SpeakOnLoad (''Now, we'' @ [CHR 0x27] @ ''re going to play with some different SHAPES and COLORS. This time we'' @
          [CHR 0x27] @ ''ll use BALLS and TRUCKS that are ORANGE and BLUE.'')),
     button_screen [''<h2>Ready?</h2><p>Go as fast as you can without making mistakes!</p>''] [''Start'']
       (SpeakOnLoad (''Now it'' @ [CHR 0x27] @ ''s your turn. Go as fast as you can without making mistakes.''))]"

definition createTestTrial :: "trial \<Rightarrow> string \<Rightarrow> string \<Rightarrow> int \<Rightarrow> screen" where
  "createTestTrial t ph dm index =
     \<lparr>scr_type = HtmlKeyboardResponse,
      scr_stimulus = StaticHtml (createTrialStimulus (target t) (left t) (right t) (js_upper dm)),
      scr_choices = NO_KEYS,
      scr_data = TrialData \<lparr>task = ''dccs'', phase = ph, trial_num = index + 1,
        data_dimension = dm, correct_response = correct t, data_target = name (target t)\<rparr>,
      scr_load = SetupOnLoad t ph (index + 1) dm False,
      scr_finish = NoFinish\<rparr>"

definition createShapeInstructions :: screen where
  "createShapeInstructions = button_screen [
     ''<div style=\"max-width: 600px; margin: auto;\">'',
     ''<h2>Now, we'' @ [CHR 0x27] @ ''re going to play the SHAPE game</h2>'',
     ''<p style=\"font-size: 18px;\">'',
     ''In the SHAPE game, choose the picture that'' @ [CHR 0x27] @ ''s the same SHAPE as the picture at the top.'',
     ''</p>'',
     ''<div style=\"display: flex; justify-content: center; gap: 30px; margin: 30px 0;\">'',
     ''<div class=\"instructions-card\">'',
     ''<p>If it'' @ [CHR 0x27] @ ''s a <strong>TRUCK</strong>:</p>'',
     ''<img src=\"'' @ img orangeTruck @ ''\" alt=\"truck\">'',
     ''</div>'',
     ''<div class=\"instructions-card\">'',
     ''<p>If it'' @ [CHR 0x27] @ ''s a <strong>BALL</strong>:</p>'',
     ''<img src=\"'' @ img blueBall @ ''\" alt=\"ball\">'',
     ''</div>'',
     ''</div>'',
     ''</div>''] [''Start Shape Game'']
     (SpeakOnLoad (''Now, we'' @ [CHR 0x27] @ ''re going to play the SHAPE game. In the SHAPE game, choose the picture that'' @
        [CHR 0x27] @ ''s the same SHAPE as the picture at the top.''))"

definition createMixedInstructions :: screen where
  "createMixedInstructions = button_screen [
     ''<div style=\"max-width: 600px; margin: auto;\">'',
     ''<h2>Now we'' @ [CHR 0x27] @ ''ll play both games together!</h2>'',
     ''<p style=\"font-size: 18px;\">Remember:</p>'',
     ''<ul style=\"font-size: 18px; text-align: left; max-width: 400px; margin: 20px auto;\">'',
     ''<li>When you see \"SHAPE\", choose the same SHAPE</li>'',
     ''<li>When you see \"COLOR\", choose the same COLOR</li>'',
     ''</ul>'',
     ''<p style=\"font-size: 18px;\">Go as fast as you can without making mistakes!</p>'',
     ''</div>''] [''Start Mixed Trials'']
     (SpeakOnLoad ''We can also play both games together. Remember, when you see the word SHAPE, choose the picture that is the same shape. When you see the word COLOR, choose the picture that is the same color.'')"

definition createResults :: screen where
  "createResults = \<lparr>scr_type = HtmlButtonResponse, scr_stimulus = ResultsFunction,
     scr_choices = Buttons [''View Data''], scr_data = NoData, scr_load = NoLoad, scr_finish = NoFinish\<rparr>"

subsection \<open>\<open>createTimeline\<close>\<close>

text \<open>\<open>list.forEach((trial, index) => timeline.push(f(trial, index)))\<close>.\<close>

definition phase_screens :: "(trial \<Rightarrow> int \<Rightarrow> screen) \<Rightarrow> trial list \<Rightarrow> screen list" where
  "phase_screens f ts = map2 (\<lambda>i t. f t (int i)) [0..<length ts] ts"

text \<open>One mixed screen: \<open>trial.dimension!\<close> is only a type assertion, so an
  undefined dimension reaches \<open>dimension.toUpperCase()\<close> and throws.\<close>

definition mixed_screen :: "trial \<Rightarrow> int \<Rightarrow> js_error + screen" where
  "mixed_screen t index =
     (case dimension t of
        None \<Rightarrow> Inl (TypeError ''Cannot read properties of undefined (reading toUpperCase)'')
      | Some dm \<Rightarrow> Inr (createTestTrial t ''mixed'' dm index))"

fun mixed_screens :: "nat \<Rightarrow> trial list \<Rightarrow> js_error + screen list" where
  "mixed_screens k [] = Inr []"
| "mixed_screens k (t # ts) =
     (case mixed_screen t (int k) of
        Inl e \<Rightarrow> Inl e
      | Inr sc \<Rightarrow> (case mixed_screens (Suc k) ts of Inl e \<Rightarrow> Inl e | Inr scs \<Rightarrow> Inr (sc # scs)))"

text \<open>The screens pushed before the mixed phase, in the source's order.\<close>

definition fixed_screens :: "timeline_config \<Rightarrow> screen list" where
  "fixed_screens cfg =
     [createWelcome] @
     (if showInstructions cfg then createColorInstructions else []) @
     phase_screens createPracticeTrial (js_slice0 COLOR_PRACTICE_TRIALS (practiceTrials cfg)) @
     (if showInstructions cfg then createColorTestInstructions else []) @
     phase_screens (\<lambda>t i. createTestTrial t ''color_test'' ''color'' i)
       (js_slice0 COLOR_TEST_TRIALS (testTrials cfg)) @
     (if showInstructions cfg then [createShapeInstructions] else []) @
     phase_screens (\<lambda>t i. createTestTrial t ''shape_test'' ''shape'' i)
       (js_slice0 SHAPE_TEST_TRIALS (testTrials cfg)) @
     (if showInstructions cfg then [createMixedInstructions] else [])"

definition createTimeline ::
  "timeline_config \<Rightarrow> browser \<Rightarrow> random_source \<Rightarrow> js_error + (screen list \<times> browser \<times> random_source)" where
  "createTimeline cfg b rs =
     (let b' = resetState b
      in case generateMixedTrials (mixedTrials cfg) rs of
           Inl e \<Rightarrow> Inl e
         | Inr (ms, rs') \<Rightarrow>
             (case mixed_screens 0 ms of
                Inl e \<Rightarrow> Inl e
              | Inr scs \<Rightarrow>
                  Inr (fixed_screens cfg @ scs @ (if showResults cfg then [createResults] else []), b', rs')))"

subsection \<open>Predicates on screens\<close>

definition trial_info :: "screen \<Rightarrow> (string \<times> int) list" where
  "trial_info s = (case scr_data s of TrialData d \<Rightarrow> [(phase d, trial_num d)] | _ \<Rightarrow> [])"

text \<open>A trial screen is well posed when the trial it sets up on load is well
  posed on its dimension, is the trial it renders, and is the trial its
  recorded \<open>data\<close> describes; a screen that sets up no trial records no
  trial data.\<close>

definition screen_well_posed :: "screen \<Rightarrow> bool" where
  "screen_well_posed s =
     (case scr_load s of
        SetupOnLoad t ph i dm fb \<Rightarrow>
          well_posed dm t \<and>
          scr_stimulus s = StaticHtml (createTrialStimulus (target t) (left t) (right t) (js_upper dm)) \<and>
          scr_data s = TrialData \<lparr>task = ''dccs'', phase = ph, trial_num = i, data_dimension = dm,
                                  correct_response = correct t, data_target = name (target t)\<rparr>
      | _ \<Rightarrow> trial_info s = [])"

definition is_static :: "screen \<Rightarrow> bool" where
  "is_static s = (scr_stimulus s \<noteq> ResultsFunction)"

definition mixed_part :: "trial list \<Rightarrow> screen list" where
  "mixed_part ts = map (\<lambda>(i, t). createTestTrial t ''mixed'' (the (dimension t)) (int i)) (zip [0..<length ts] ts)"

subsection \<open>Lemmas on the builders\<close>

lemma length_phase_screens [simp]: "length (phase_screens f ts) = length ts"
  by (simp add: phase_screens_def)

lemma nth_phase_screens: "i < length ts \<Longrightarrow> phase_screens f ts ! i = f (ts ! i) (int i)"
  by (simp add: phase_screens_def)

lemma phase_screens_map: "phase_screens f ts = map (\<lambda>i. f (ts ! i) (int i)) [0..<length ts]"
  by (rule nth_equalityI) (simp_all add: nth_phase_screens)

lemma mixed_part_map:
  "mixed_part ts = map (\<lambda>i. createTestTrial (ts ! i) ''mixed'' (the (dimension (ts ! i))) (int i)) [0..<length ts]"
  unfolding mixed_part_def by (rule nth_equalityI) simp_all

lemma concat_map_singleton:
  "(\<And>i. i \<in> set xs \<Longrightarrow> F i = [g i]) \<Longrightarrow> concat (map F xs) = map g xs"
  by (induction xs) auto

lemma mixed_screens_Some:
  "list_all (\<lambda>t. dimension t \<noteq> None) ts \<Longrightarrow>
     mixed_screens k ts =
       Inr (map (\<lambda>(i, t). createTestTrial t ''mixed'' (the (dimension t)) (int i)) (zip [k..<k + length ts] ts))"
proof (induction ts arbitrary: k)
  case Nil
  then show ?case by simp
next
  case (Cons t ts)
  then obtain dm where dm: "dimension t = Some dm" by auto
  have "[k..<k + length (t # ts)] = k # [Suc k..<Suc k + length ts]"
    by (simp add: upt_rec)
  with Cons dm show ?case by (simp add: mixed_screen_def)
qed

lemma mixed_spec_dimensions:
  "valid_draws (2 * nat n) rs \<Longrightarrow> list_all (\<lambda>t. dimension t \<noteq> None) (mixed_spec n rs)"
  by (auto simp: list_all_iff elim!: mixed_spec_set dest!: spec_trial_well_posed)

lemma createTimeline_ok:
  assumes "valid_draws (2 * nat (mixedTrials cfg)) rs"
  shows "createTimeline cfg b rs =
           Inr (fixed_screens cfg @ mixed_part (mixed_spec (mixedTrials cfg) rs) @
                  (if showResults cfg then [createResults] else []),
                resetState b, sdrop (2 * nat (mixedTrials cfg)) rs)"
  using gen_loop_start [OF assms] mixed_screens_Some [OF mixed_spec_dimensions [OF assms], of 0]
  by (simp add: createTimeline_def generateMixedTrials_def mixed_part_def)

lemma button_screen_sel [simp]:
  "scr_type (button_screen h cs ld) = HtmlButtonResponse"
  "scr_stimulus (button_screen h cs ld) = StaticHtml h"
  "scr_data (button_screen h cs ld) = NoData"
  "scr_load (button_screen h cs ld) = ld" "scr_finish (button_screen h cs ld) = NoFinish"
  by (simp_all add: button_screen_def)

lemma instruction_facts:
  "concat (map trial_info createColorInstructions) = []"
  "concat (map trial_info createColorTestInstructions) = []"
  "trial_info createShapeInstructions = []" "trial_info createMixedInstructions = []"
  "list_all (\<lambda>s. is_static s \<and> screen_well_posed s) createColorInstructions"
  "list_all (\<lambda>s. is_static s \<and> screen_well_posed s) createColorTestInstructions"
  "is_static createShapeInstructions" "screen_well_posed createShapeInstructions"
  "is_static createMixedInstructions" "screen_well_posed createMixedInstructions"
  "length createColorInstructions = 3" "length createColorTestInstructions = 2"
  by (simp_all add: createColorInstructions_def createColorTestInstructions_def createShapeInstructions_def
      createMixedInstructions_def is_static_def trial_info_def screen_well_posed_def)

lemma js_upper_color: "js_upper ''color'' = ''COLOR''"
  by code_simp

lemma practice_screen_facts:
  "scr_type (createPracticeTrial t i) = HtmlKeyboardResponse \<and> is_static (createPracticeTrial t i) \<and>
   trial_info (createPracticeTrial t i) = [(''color_practice'', i + 1)] \<and>
   (well_posed ''color'' t \<longrightarrow> screen_well_posed (createPracticeTrial t i))"
  by (simp add: createPracticeTrial_def is_static_def trial_info_def screen_well_posed_def js_upper_color)

lemma test_screen_facts:
  "scr_type (createTestTrial t ph dm i) = HtmlKeyboardResponse \<and> is_static (createTestTrial t ph dm i) \<and>
   trial_info (createTestTrial t ph dm i) = [(ph, i + 1)] \<and>
   (well_posed dm t \<longrightarrow> screen_well_posed (createTestTrial t ph dm i))"
  by (simp add: createTestTrial_def is_static_def trial_info_def screen_well_posed_def)

lemma welcome_results_facts:
  "is_static createWelcome" "\<not> is_static createResults" "trial_info createWelcome = []"
  "trial_info createResults = []" "screen_well_posed createWelcome" "screen_well_posed createResults"
  "scr_type createWelcome = HtmlButtonResponse" "scr_type createResults = HtmlButtonResponse"
  by (simp_all add: createWelcome_def createResults_def is_static_def trial_info_def screen_well_posed_def)

lemma mixed_part_facts:
  assumes "valid_draws (2 * nat n) rs"
  shows "list_all (\<lambda>s. scr_type s = HtmlKeyboardResponse \<and> is_static s \<and> screen_well_posed s)
           (mixed_part (mixed_spec n rs)) \<and>
         concat (map trial_info (mixed_part (mixed_spec n rs))) = map (\<lambda>i. (''mixed'', int i + 1)) [0..<nat n]"
proof -
  have wp: "well_posed (the (dimension (mixed_spec n rs ! i))) (mixed_spec n rs ! i)" if "i < nat n" for i
    using mixed_spec_nth [OF assms that] spec_trial_well_posed by (metis option.sel)
  have len: "length (mixed_spec n rs) = nat n" by (simp add: mixed_spec_def)
  show ?thesis
    using wp test_screen_facts
    by (auto simp: mixed_part_map len list_all_iff intro!: concat_map_singleton)
qed

lemma table_well_posed_slice:
  "table_well_posed dm ts \<Longrightarrow> table_well_posed dm (js_slice0 ts e)"
  by (simp add: js_slice0_def table_well_posed_take)

lemma phase_screens_well_posed:
  assumes "table_well_posed dm ts"
    and "\<And>t i. well_posed dm t \<Longrightarrow> is_static (f t i) \<and> screen_well_posed (f t i)"
  shows "list_all (\<lambda>s. is_static s \<and> screen_well_posed s) (phase_screens f ts)"
  using assms table_well_posed_nth [OF assms(1)]
  by (simp add: phase_screens_map list_all_iff)

lemma phase_screens_info:
  assumes "\<And>t i. trial_info (f t i) = [(ph, i + 1)]"
  shows "concat (map trial_info (phase_screens f ts)) = map (\<lambda>i. (ph, int i + 1)) [0..<length ts]"
  using assms by (simp add: phase_screens_map concat_map_singleton)

lemma phase_screens_keyboard:
  assumes "\<And>t i. scr_type (f t i) = HtmlKeyboardResponse"
  shows "list_all (\<lambda>s. scr_type s = HtmlKeyboardResponse) (phase_screens f ts)"
  using assms by (simp add: phase_screens_map list_all_iff)

lemma length_slice_tables:
  "length (js_slice0 SHAPE_TEST_TRIALS e) = length (js_slice0 COLOR_TEST_TRIALS e)"
  by (simp add: length_js_slice0)

lemma fixed_screens_hd: "hd (fixed_screens cfg) = createWelcome"
  by (simp add: fixed_screens_def)

lemma fixed_screens_well_posed:
  "list_all (\<lambda>s. is_static s \<and> screen_well_posed s) (fixed_screens cfg)"
proof -
  have p: "list_all (\<lambda>s. is_static s \<and> screen_well_posed s)
      (phase_screens createPracticeTrial (js_slice0 COLOR_PRACTICE_TRIALS (practiceTrials cfg)))"
    by (rule phase_screens_well_posed [OF table_well_posed_slice [OF practice_table_well_posed]])
       (simp add: practice_screen_facts)
  have c: "list_all (\<lambda>s. is_static s \<and> screen_well_posed s)
      (phase_screens (\<lambda>t i. createTestTrial t ''color_test'' ''color'' i) (js_slice0 COLOR_TEST_TRIALS (testTrials cfg)))"
    by (rule phase_screens_well_posed [OF table_well_posed_slice [OF color_test_table_well_posed]])
       (simp add: test_screen_facts)
  have sh: "list_all (\<lambda>s. is_static s \<and> screen_well_posed s)
      (phase_screens (\<lambda>t i. createTestTrial t ''shape_test'' ''shape'' i) (js_slice0 SHAPE_TEST_TRIALS (testTrials cfg)))"
    by (rule phase_screens_well_posed [OF table_well_posed_slice [OF shape_test_table_well_posed]])
       (simp add: test_screen_facts)
  show ?thesis
    using p c sh instruction_facts welcome_results_facts by (simp add: fixed_screens_def)
qed

lemma fixed_screens_info:
  "concat (map trial_info (fixed_screens cfg)) =
     map (\<lambda>i. (''color_practice'', int i + 1)) [0..<length (js_slice0 COLOR_PRACTICE_TRIALS (practiceTrials cfg))] @
     map (\<lambda>i. (''color_test'', int i + 1)) [0..<length (js_slice0 COLOR_TEST_TRIALS (testTrials cfg))] @
     map (\<lambda>i. (''shape_test'', int i + 1)) [0..<length (js_slice0 COLOR_TEST_TRIALS (testTrials cfg))]"
  by (simp add: fixed_screens_def welcome_results_facts phase_screens_info practice_screen_facts
      test_screen_facts length_slice_tables instruction_facts)

lemma fixed_screens_length:
  "length (fixed_screens cfg) =
     1 + (if showInstructions cfg then 7 else 0) + length (js_slice0 COLOR_PRACTICE_TRIALS (practiceTrials cfg)) +
     2 * length (js_slice0 COLOR_TEST_TRIALS (testTrials cfg))"
  by (simp add: fixed_screens_def instruction_facts length_slice_tables)

lemma fixed_screens_no_instructions:
  "\<not> showInstructions cfg \<Longrightarrow>
     list_all (\<lambda>s. scr_type s = HtmlKeyboardResponse) (tl (fixed_screens cfg))"
  by (simp add: fixed_screens_def phase_screens_keyboard practice_screen_facts test_screen_facts)

lemma createResults_not_static: "createResults \<notin> set xs" if "list_all is_static xs"
  using that welcome_results_facts(2) by (auto simp: list_all_iff)

subsection \<open>Properties of \<open>createTimeline\<close>\<close>

text \<open>C22: the timeline starts with the welcome screen and ends with the results screen exactly when \<open>showResults\<close> is set (otherwise the results screen does not occur), and \<open>createTimeline\<close> resets the module state.\<close>

theorem createTimeline_frame:
  assumes "valid_draws (2 * nat (mixedTrials cfg)) rs"
  shows "case createTimeline cfg b rs of
           Inl _ \<Rightarrow> False
         | Inr (scs, b', _) \<Rightarrow>
             hd scs = createWelcome \<and>
             (if showResults cfg then last scs = createResults else createResults \<notin> set scs) \<and>
             game b' = initial_game_state"
proof -
  have "list_all is_static (fixed_screens cfg @ mixed_part (mixed_spec (mixedTrials cfg) rs))"
    using fixed_screens_well_posed mixed_part_facts [OF assms] by (auto simp: list_all_iff)
  then have "createResults \<notin> set (fixed_screens cfg @ mixed_part (mixed_spec (mixedTrials cfg) rs))"
    by (rule createResults_not_static)
  moreover have "fixed_screens cfg \<noteq> []" by (simp add: fixed_screens_def)
  ultimately show ?thesis
    using createTimeline_ok [OF assms] fixed_screens_hd by auto
qed

lemma createTimeline_frame_witness:
  "valid_draws (2 * nat (mixedTrials default_config)) (sconst (1/2)) \<and>
   (case createTimeline default_config test_browser (sconst (1/2)) of
      Inl _ \<Rightarrow> False
    | Inr (scs, b', _) \<Rightarrow>
        hd scs = createWelcome \<and>
        (if showResults default_config then last scs = createResults else createResults \<notin> set scs) \<and>
        game b' = initial_game_state)"
proof -
  have h: "valid_draws (2 * nat (mixedTrials default_config)) (sconst (1/2))"
    by (simp add: default_config_def DEFAULT_MIXED_TRIALS_def)
  show ?thesis using h createTimeline_frame [OF h] by simp
qed

text \<open>C23: the number of screens: the welcome screen, seven instruction screens when \<open>showInstructions\<close> is set, the sliced practice, colour test and shape test trials, \<open>mixedTrials\<close> generated trials and the results screen when \<open>showResults\<close> is set.\<close>

theorem createTimeline_length:
  assumes "valid_draws (2 * nat (mixedTrials cfg)) rs"
  shows "case createTimeline cfg b rs of
           Inl _ \<Rightarrow> False
         | Inr (scs, _, _) \<Rightarrow>
             length scs = 1 + (if showInstructions cfg then 7 else 0) +
               length (js_slice0 COLOR_PRACTICE_TRIALS (practiceTrials cfg)) +
               2 * length (js_slice0 COLOR_TEST_TRIALS (testTrials cfg)) +
               nat (mixedTrials cfg) + (if showResults cfg then 1 else 0)"
  using createTimeline_ok [OF assms] fixed_screens_length
  by (simp add: mixed_part_def mixed_spec_def)

lemma createTimeline_length_witness:
  "valid_draws (2 * nat (mixedTrials default_config)) (sconst (1/2)) \<and>
   (case createTimeline default_config test_browser (sconst (1/2)) of
           Inl _ \<Rightarrow> False
         | Inr (scs, _, _) \<Rightarrow>
             length scs = 1 + (if showInstructions default_config then 7 else 0) +
               length (js_slice0 COLOR_PRACTICE_TRIALS (practiceTrials default_config)) +
               2 * length (js_slice0 COLOR_TEST_TRIALS (testTrials default_config)) +
               nat (mixedTrials default_config) + (if showResults default_config then 1 else 0))"
proof -
  have h: "valid_draws (2 * nat (mixedTrials default_config)) (sconst (1/2))"
    by (simp_all add: default_config_def DEFAULT_MIXED_TRIALS_def)
  show ?thesis using h createTimeline_length [OF h] by simp
qed

text \<open>With \<open>showInstructions\<close> off every screen is the welcome screen, the results screen or a trial screen: no instruction screen (no \<open>Next\<close> or \<open>Start Practice\<close> button) is pushed.\<close>

theorem createTimeline_no_instructions:
  assumes "valid_draws (2 * nat (mixedTrials cfg)) rs" "\<not> showInstructions cfg"
  shows "case createTimeline cfg b rs of
           Inl _ \<Rightarrow> False
         | Inr (scs, _, _) \<Rightarrow>
             list_all (\<lambda>s. s = createWelcome \<or> s = createResults \<or> scr_type s = HtmlKeyboardResponse) scs"
proof -
  have f: "set (fixed_screens cfg) = insert createWelcome (set (tl (fixed_screens cfg)))"
    by (simp add: fixed_screens_def)
  have "list_all (\<lambda>s. scr_type s = HtmlKeyboardResponse) (tl (fixed_screens cfg))"
    using fixed_screens_no_instructions [OF assms(2)] .
  moreover have "list_all (\<lambda>s. scr_type s = HtmlKeyboardResponse) (mixed_part (mixed_spec (mixedTrials cfg) rs))"
    using mixed_part_facts [OF assms(1)] by (auto simp: list_all_iff)
  ultimately show ?thesis
    using createTimeline_ok [OF assms(1)] f by (auto simp: list_all_iff)
qed

lemma createTimeline_no_instructions_witness:
  "valid_draws (2 * nat (mixedTrials (default_config\<lparr>showInstructions := False\<rparr>))) (sconst (1/2)) \<and>
   \<not> showInstructions (default_config\<lparr>showInstructions := False\<rparr>) \<and>
   (case createTimeline (default_config\<lparr>showInstructions := False\<rparr>) test_browser (sconst (1/2)) of
      Inl _ \<Rightarrow> False
    | Inr (scs, _, _) \<Rightarrow>
        list_all (\<lambda>s. s = createWelcome \<or> s = createResults \<or> scr_type s = HtmlKeyboardResponse) scs)"
proof -
  have h: "valid_draws (2 * nat (mixedTrials (default_config\<lparr>showInstructions := False\<rparr>))) (sconst (1/2))"
    "\<not> showInstructions (default_config\<lparr>showInstructions := False\<rparr>)"
    by (simp_all add: default_config_def DEFAULT_MIXED_TRIALS_def)
  show ?thesis using h createTimeline_no_instructions [OF h] by simp
qed

text \<open>C21: every trial screen of the timeline shows a well-posed trial with the cue of the dimension it scores, and records in its data the phase, trial number, dimension and correct answer of the \<open>setupTrial\<close> call it makes.\<close>

theorem createTimeline_trials_well_posed:
  assumes "valid_draws (2 * nat (mixedTrials cfg)) rs"
  shows "case createTimeline cfg b rs of
           Inl _ \<Rightarrow> False
         | Inr (scs, _, _) \<Rightarrow> list_all screen_well_posed scs"
  using createTimeline_ok [OF assms] fixed_screens_well_posed mixed_part_facts [OF assms]
    welcome_results_facts
  by (auto simp: list_all_iff)

lemma createTimeline_trials_well_posed_witness:
  "valid_draws (2 * nat (mixedTrials default_config)) (sconst (1/2)) \<and>
   (case createTimeline default_config test_browser (sconst (1/2)) of
           Inl _ \<Rightarrow> False
         | Inr (scs, _, _) \<Rightarrow> list_all screen_well_posed scs)"
proof -
  have h: "valid_draws (2 * nat (mixedTrials default_config)) (sconst (1/2))"
    by (simp_all add: default_config_def DEFAULT_MIXED_TRIALS_def)
  show ?thesis using h createTimeline_trials_well_posed [OF h] by simp
qed

text \<open>C24: the trial screens come in phase order (colour practice, colour test, shape test, mixed), numbered \<open>index + 1\<close> from 1 within each phase.\<close>

theorem createTimeline_trial_sequence:
  assumes "valid_draws (2 * nat (mixedTrials cfg)) rs"
  shows "case createTimeline cfg b rs of
           Inl _ \<Rightarrow> False
         | Inr (scs, _, _) \<Rightarrow>
             concat (map trial_info scs) =
               map (\<lambda>i. (''color_practice'', int i + 1)) [0..<length (js_slice0 COLOR_PRACTICE_TRIALS (practiceTrials cfg))] @
               map (\<lambda>i. (''color_test'', int i + 1)) [0..<length (js_slice0 COLOR_TEST_TRIALS (testTrials cfg))] @
               map (\<lambda>i. (''shape_test'', int i + 1)) [0..<length (js_slice0 COLOR_TEST_TRIALS (testTrials cfg))] @
               map (\<lambda>i. (''mixed'', int i + 1)) [0..<nat (mixedTrials cfg)]"
  using createTimeline_ok [OF assms] fixed_screens_info mixed_part_facts [OF assms] welcome_results_facts
  by simp

lemma createTimeline_trial_sequence_witness:
  "valid_draws (2 * nat (mixedTrials default_config)) (sconst (1/2)) \<and>
   (case createTimeline default_config test_browser (sconst (1/2)) of
           Inl _ \<Rightarrow> False
         | Inr (scs, _, _) \<Rightarrow>
             concat (map trial_info scs) =
               map (\<lambda>i. (''color_practice'', int i + 1)) [0..<length (js_slice0 COLOR_PRACTICE_TRIALS (practiceTrials default_config))] @
               map (\<lambda>i. (''color_test'', int i + 1)) [0..<length (js_slice0 COLOR_TEST_TRIALS (testTrials default_config))] @
               map (\<lambda>i. (''shape_test'', int i + 1)) [0..<length (js_slice0 COLOR_TEST_TRIALS (testTrials default_config))] @
               map (\<lambda>i. (''mixed'', int i + 1)) [0..<nat (mixedTrials default_config)])"
proof -
  have h: "valid_draws (2 * nat (mixedTrials default_config)) (sconst (1/2))"
    by (simp_all add: default_config_def DEFAULT_MIXED_TRIALS_def)
  show ?thesis using h createTimeline_trial_sequence [OF h] by simp
qed

text \<open>A negative \<open>practiceTrials\<close> is passed to \<open>slice(0, end)\<close>, which counts from the end: \<open>practiceTrials = -1\<close> gives the first four practice trials, not none.\<close>

theorem createTimeline_negative_practice:
  "createTimeline \<lparr>practiceTrials = -1, testTrials = 0, mixedTrials = 0,
                   showInstructions = False, showResults = False\<rparr> b rs =
     Inr (createWelcome # phase_screens createPracticeTrial (take 4 COLOR_PRACTICE_TRIALS), resetState b, rs)"
proof -
  have v: "valid_draws (2 * nat (mixedTrials \<lparr>practiceTrials = -1, testTrials = 0, mixedTrials = 0,
                   showInstructions = False, showResults = False\<rparr>)) rs" by simp
  show ?thesis
    using createTimeline_ok [OF v] by (simp add: fixed_screens_def mixed_part_def mixed_spec_def phase_screens_def)
qed

end
