(* ===== verification/Results.thy ===== *)
theory Results
  imports Timeline "HOL-Library.Multiset"
begin

text \<open>
  The stimulus function of \<open>createResults\<close> in \<open>src/src/index.ts\<close>: it
  filters the recorded jsPsych rows to \<open>task = 'dccs'\<close>, splits them by
  phase, and shows per phase the accuracy
  \<open>correct.count() / all.count() * 100\<close> rendered with \<open>toFixed(0)\<close>
  and the mean \<open>rt\<close> of the correct rows in seconds with \<open>toFixed(1)\<close>.
  A JavaScript number is \<open>js_number\<close>: a rational or \<open>NaN\<close> (what
  \<open>0 / 0\<close> and the mean of an empty column give).  \<open>toFixed(d)\<close> picks the
  integer \<open>n\<close> nearest to \<open>x * 10^d\<close>, the larger one on a tie, and the
  model returns \<open>n\<close> with its number of decimals.  Floating-point rounding
  of the intermediate quotients is not modelled.
\<close>

record data_row =
  row_task :: string
  row_phase :: string
  row_correct :: bool
  row_rt :: ms

text \<open>\<open>Infinity b\<close> is \<open>+Infinity\<close> when \<open>b\<close>, \<open>-Infinity\<close> otherwise.\<close>

datatype js_number = Num rat | NaN | Infinity bool

datatype fixed = FixedNaN | FixedInf bool | Fixed int nat

definition js_div :: "js_number \<Rightarrow> js_number \<Rightarrow> js_number" where
  "js_div a b =
     (case (a, b) of
        (Num x, Num y) \<Rightarrow> (if y = 0 then (if x = 0 then NaN else Infinity (0 < x)) else Num (x / y))
      | _ \<Rightarrow> NaN)"

definition js_times :: "js_number \<Rightarrow> rat \<Rightarrow> js_number" where
  "js_times a k =
     (case a of Num x \<Rightarrow> Num (x * k) | NaN \<Rightarrow> NaN
      | Infinity b \<Rightarrow> (if k = 0 then NaN else Infinity (b = (0 < k))))"

text \<open>\<open>DataColumn.mean()\<close> of jsPsych: the sum over the count.\<close>

definition js_mean :: "rat list \<Rightarrow> js_number" where
  "js_mean xs = js_div (Num (sum_list xs)) (Num (of_nat (length xs)))"

definition toFixed :: "nat \<Rightarrow> js_number \<Rightarrow> fixed" where
  "toFixed d v =
     (case v of
        NaN \<Rightarrow> FixedNaN
      | Infinity b \<Rightarrow> FixedInf b
      | Num x \<Rightarrow>
          (if x < 0 then Fixed (- \<lfloor>- x * 10 ^ d + 1/2\<rfloor>) d else Fixed \<lfloor>x * 10 ^ d + 1/2\<rfloor> d))"

text \<open>\<open>data.filter({task: 'dccs'}).filter({phase: ph})\<close>.\<close>

definition phase_rows :: "data_row list \<Rightarrow> string \<Rightarrow> data_row list" where
  "phase_rows rows ph = filter (\<lambda>r. row_phase r = ph) (filter (\<lambda>r. row_task r = ''dccs'') rows)"

definition correct_rows :: "data_row list \<Rightarrow> data_row list" where
  "correct_rows rows = filter row_correct rows"

definition phase_accuracy :: "data_row list \<Rightarrow> string \<Rightarrow> js_number" where
  "phase_accuracy rows ph =
     js_times (js_div (Num (of_nat (length (correct_rows (phase_rows rows ph)))))
                      (Num (of_nat (length (phase_rows rows ph))))) 100"

definition phase_rt :: "data_row list \<Rightarrow> string \<Rightarrow> js_number" where
  "phase_rt rows ph = js_div (js_mean (map row_rt (correct_rows (phase_rows rows ph)))) (Num 1000)"

text \<open>The decimal string \<open>toFixed\<close> returns for a rounded value.\<close>

fun nat_digits :: "nat \<Rightarrow> string" where
  "nat_digits n = (if n < 10 then [char_of (48 + n)] else nat_digits (n div 10) @ [char_of (48 + n mod 10)])"

definition fixed_str :: "fixed \<Rightarrow> string" where
  "fixed_str f =
     (case f of
        FixedNaN \<Rightarrow> ''NaN''
      | FixedInf b \<Rightarrow> (if b then ''Infinity'' else ''-Infinity'')
      | Fixed k d \<Rightarrow>
          (let m = nat \<bar>k\<bar>; fp = nat_digits (m mod 10 ^ d)
           in (if k < 0 then ''-'' else []) @ nat_digits (m div 10 ^ d) @
              (if d = 0 then [] else ''.'' @ replicate (d - length fp) (CHR ''0'') @ fp)))"

text \<open>One row of the results table: the phase label, \<open>${accuracy.toFixed(0)}%\<close>
  and \<open>${rt.toFixed(1)}s\<close>.\<close>

definition result_row :: "data_row list \<Rightarrow> string \<Rightarrow> string \<Rightarrow> html" where
  "result_row rows label ph = [
     ''<tr>'',
     ''<td style=\"padding: 10px;\">'' @ label @ ''</td>'',
     ''<td style=\"padding: 10px; text-align: center;\">'' @ fixed_str (toFixed 0 (phase_accuracy rows ph)) @ ''%</td>'',
     ''<td style=\"padding: 10px; text-align: center;\">'' @ fixed_str (toFixed 1 (phase_rt rows ph)) @ ''s</td>'',
     ''</tr>'']"

text \<open>The stimulus function of \<open>createResults\<close>, on the rows recorded so far.\<close>

definition results_stimulus :: "data_row list \<Rightarrow> html" where
  "results_stimulus rows =
     [''<div style=\"max-width: 600px; margin: auto;\">'',
      ''<h1>Great job! You'' @ [CHR 0x27] @ ''ve completed the task!</h1>'',
      ''<h2>Your Results:</h2>'',
      ''<table style=\"margin: 20px auto; font-size: 18px; border-collapse: collapse;\">'',
      ''<tr>'',
      ''<th style=\"padding: 10px; text-align: left; border-bottom: 2px solid #ddd;\">Phase</th>'',
      ''<th style=\"padding: 10px; text-align: center; border-bottom: 2px solid #ddd;\">Accuracy</th>'',
      ''<th style=\"padding: 10px; text-align: center; border-bottom: 2px solid #ddd;\">Avg Response Time</th>'',
      ''</tr>''] @
     result_row rows ''Color Trials'' ''color_test'' @
     result_row rows ''Shape Trials'' ''shape_test'' @
     result_row rows ''Mixed Trials'' ''mixed'' @
     [''</table>'', ''</div>'']"

subsection \<open>A recorded session\<close>

text \<open>Fixture rows as jsPsych records them for the DCCS trials.\<close>

definition row :: "string \<Rightarrow> bool \<Rightarrow> ms \<Rightarrow> data_row" where
  "row ph c t = \<lparr>row_task = ''dccs'', row_phase = ph, row_correct = c, row_rt = t\<rparr>"

definition example_rows :: "data_row list" where
  "example_rows = [
     row ''color_practice'' False 900,
     row ''color_test'' True 1000, row ''color_test'' True 1200, row ''color_test'' False 800,
     row ''color_test'' True 1400, row ''color_test'' True 1600,
     row ''mixed'' True 2000, row ''mixed'' False 700, row ''mixed'' True 2150]"

subsection \<open>Lemmas\<close>

lemma floor_half_close: "\<bar>of_int \<lfloor>x + 1/2\<rfloor> - x\<bar> \<le> (1/2 :: rat)"
proof -
  have a: "of_int \<lfloor>x + 1/2\<rfloor> \<le> x + 1/2" by (rule of_int_floor_le)
  have b: "x + 1/2 < of_int \<lfloor>x + 1/2\<rfloor> + 1" using floor_correct [of "x + 1/2"] by simp
  show ?thesis using a b unfolding abs_le_iff by linarith
qed

lemma toFixed_nonneg: "0 \<le> x \<Longrightarrow> toFixed d (Num x) = Fixed \<lfloor>x * 10 ^ d + 1/2\<rfloor> d"
  by (simp add: toFixed_def)

lemma length_correct_rows_le: "length (correct_rows xs) \<le> length xs"
  by (simp add: correct_rows_def)

lemma phase_accuracy_Num:
  "phase_rows rows ph \<noteq> [] \<Longrightarrow>
   phase_accuracy rows ph =
     Num (of_nat (length (correct_rows (phase_rows rows ph))) / of_nat (length (phase_rows rows ph)) * 100)"
  by (simp add: phase_accuracy_def js_div_def js_times_def)

lemma phase_accuracy_Nil: "phase_rows rows ph = [] \<Longrightarrow> phase_accuracy rows ph = NaN"
  by (simp add: phase_accuracy_def js_div_def js_times_def correct_rows_def)

lemma phase_rt_eq:
  "phase_rt rows ph =
     (if correct_rows (phase_rows rows ph) = [] then NaN
      else Num (sum_list (map row_rt (correct_rows (phase_rows rows ph))) /
                of_nat (length (correct_rows (phase_rows rows ph))) / 1000))"
  by (simp add: phase_rt_def js_mean_def js_div_def)

lemma nat_digits_ne: "nat_digits n \<noteq> []"
  by (induction n rule: nat_digits.induct) (subst nat_digits.simps, simp)

lemma digit_char_not_N: "(m :: nat) < 10 \<Longrightarrow> char_of (48 + m) \<noteq> CHR ''N''"
proof
  assume "m < 10" "char_of (48 + m) = CHR ''N''"
  then have "(of_char (char_of (48 + m)) :: nat) = of_char (CHR ''N'')" by simp
  with \<open>m < 10\<close> show False by (simp add: of_char_of)
qed

lemma nat_digits_no_N: "CHR ''N'' \<notin> set (nat_digits n)"
proof (induction n rule: nat_digits.induct)
  case (1 n)
  have "CHR ''N'' \<noteq> char_of (48 + n mod 10)" "n < 10 \<Longrightarrow> CHR ''N'' \<noteq> char_of (48 + n)"
    using digit_char_not_N [of "n mod 10"] digit_char_not_N [of n] by auto
  with 1 show ?case by (subst nat_digits.simps) auto
qed

lemma fixed_str_not_NaN: "fixed_str (Fixed k d) \<noteq> ''NaN''"
proof
  assume h: "fixed_str (Fixed k d) = ''NaN''"
  obtain c cs where "nat_digits (nat \<bar>k\<bar> div 10 ^ d) = c # cs"
    using nat_digits_ne by (cases "nat_digits (nat \<bar>k\<bar> div 10 ^ d)") auto
  moreover have "c \<noteq> CHR ''N''"
    using nat_digits_no_N [of "nat \<bar>k\<bar> div 10 ^ d"] calculation by auto
  ultimately show False using h by (cases "k < 0") (simp_all add: fixed_str_def Let_def)
qed

lemma toFixed_Num: "\<exists>k. toFixed d (Num x) = Fixed k d"
  by (simp add: toFixed_def)

lemma fixed_str_NaN_iff: "fixed_str (toFixed d v) = ''NaN'' \<longleftrightarrow> v = NaN"
proof (cases v)
  case (Num x)
  then show ?thesis using toFixed_Num [of d x] fixed_str_not_NaN by auto
qed (simp_all add: toFixed_def fixed_str_def)

lemma phase_mset:
  assumes "mset rows = mset rows'"
  shows "phase_accuracy rows ph = phase_accuracy rows' ph" "phase_rt rows ph = phase_rt rows' ph"
proof -
  have p: "mset (phase_rows rows ph) = mset (phase_rows rows' ph)"
    using assms by (simp add: phase_rows_def mset_filter)
  then have c: "mset (correct_rows (phase_rows rows ph)) = mset (correct_rows (phase_rows rows' ph))"
    by (simp add: correct_rows_def)
  have l: "length xs = length ys" if "mset xs = mset ys" for xs ys :: "data_row list"
    using that by (metis size_mset)
  have s: "sum_list (map row_rt xs) = sum_list (map row_rt ys)" if "mset xs = mset ys" for xs ys
    using that by (metis mset_map sum_mset_sum_list)
  show "phase_accuracy rows ph = phase_accuracy rows' ph"
    using l [OF p] l [OF c] by (simp add: phase_accuracy_def)
  show "phase_rt rows ph = phase_rt rows' ph"
    using s [OF c] l [OF c] c by (simp add: phase_rt_def js_mean_def)
qed

subsection \<open>Properties of the summary\<close>

lemma phase_rows_filter:
  "ph \<in> S \<Longrightarrow> phase_rows (filter (\<lambda>r. row_task r = ''dccs'' \<and> row_phase r \<in> S) rows) ph = phase_rows rows ph"
  unfolding phase_rows_def filter_filter by (rule filter_cong) auto

lemma result_row_cong:
  assumes "phase_rows rows ph = phase_rows rows' ph"
  shows "result_row rows l ph = result_row rows' l ph"
  using assms by (simp add: result_row_def phase_accuracy_def phase_rt_def)

text \<open>The summary on a concrete record: five colour-test rows with four
  correct show \<open>80%\<close> (the specification's example) and the mean correct
  time \<open>1.3s\<close>; a phase with no rows shows \<open>NaN%\<close>; two of three mixed
  rows correct round to \<open>67%\<close>; the practice row is not counted.\<close>

theorem results_spec_example:
  "results_stimulus example_rows ! 11 = ''<td style=\"padding: 10px; text-align: center;\">80%</td>'' \<and>
   results_stimulus example_rows ! 12 = ''<td style=\"padding: 10px; text-align: center;\">1.3s</td>'' \<and>
   results_stimulus example_rows ! 16 = ''<td style=\"padding: 10px; text-align: center;\">NaN%</td>'' \<and>
   results_stimulus example_rows ! 21 = ''<td style=\"padding: 10px; text-align: center;\">67%</td>'' \<and>
   results_stimulus example_rows ! 22 = ''<td style=\"padding: 10px; text-align: center;\">2.1s</td>''"
  by code_simp

text \<open>C25: for a phase with at least one row, the accuracy cell is the integer
  nearest to \<open>correct / all * 100\<close> (within one half), between 0 and 100.\<close>

theorem phase_accuracy_rounded:
  assumes "phase_rows rows ph \<noteq> []"
  shows "\<exists>k. toFixed 0 (phase_accuracy rows ph) = Fixed k 0 \<and> 0 \<le> k \<and> k \<le> 100 \<and>
             \<bar>of_int k - of_nat (length (correct_rows (phase_rows rows ph))) /
                           of_nat (length (phase_rows rows ph)) * 100\<bar> \<le> (1/2 :: rat)"
proof -
  define a :: rat where "a = of_nat (length (correct_rows (phase_rows rows ph))) /
                           of_nat (length (phase_rows rows ph)) * 100"
  have "of_nat (length (correct_rows (phase_rows rows ph))) \<le> (of_nat (length (phase_rows rows ph)) :: rat)"
    using length_correct_rows_le by simp
  then have a0: "0 \<le> a" and a1: "a \<le> 100"
    using assms by (simp_all add: a_def divide_le_eq)
  have "toFixed 0 (phase_accuracy rows ph) = Fixed \<lfloor>a + 1/2\<rfloor> 0"
    using assms a0 by (simp add: phase_accuracy_Num toFixed_nonneg a_def)
  moreover have "0 \<le> \<lfloor>a + 1/2\<rfloor>" "\<lfloor>a + 1/2\<rfloor> \<le> 100"
    using a0 a1 by (simp_all add: floor_le_iff)
  ultimately show ?thesis using floor_half_close [of a] unfolding a_def [symmetric] by blast
qed

lemma phase_accuracy_rounded_witness:
  "phase_rows example_rows ''mixed'' \<noteq> [] \<and>
   (\<exists>k. toFixed 0 (phase_accuracy example_rows ''mixed'') = Fixed k 0 \<and> 0 \<le> k \<and> k \<le> 100)"
proof -
  have h: "phase_rows example_rows ''mixed'' \<noteq> []"
    by (simp add: example_rows_def phase_rows_def row_def)
  show ?thesis using h phase_accuracy_rounded [OF h] by blast
qed

text \<open>C26: the accuracy cell reads \<open>NaN\<close> exactly when the phase has no
  recorded rows, and the time cell exactly when it has no correct row.\<close>

theorem results_NaN_iff_empty:
  "(fixed_str (toFixed 0 (phase_accuracy rows ph)) = ''NaN'' \<longleftrightarrow> phase_rows rows ph = []) \<and>
   (fixed_str (toFixed 1 (phase_rt rows ph)) = ''NaN'' \<longleftrightarrow> correct_rows (phase_rows rows ph) = [])"
  by (cases "phase_rows rows ph = []")
     (simp_all add: fixed_str_NaN_iff phase_rt_eq phase_accuracy_Num phase_accuracy_Nil correct_rows_def)

text \<open>C27: only the rows of task \<open>dccs\<close> in the three test phases enter the
  summary; practice rows, instruction screens and other tasks are ignored.\<close>

theorem results_only_test_rows:
  "results_stimulus rows =
   results_stimulus (filter (\<lambda>r. row_task r = ''dccs'' \<and> row_phase r \<in> {''color_test'', ''shape_test'', ''mixed''}) rows)"
proof -
  let ?S = "{''color_test'', ''shape_test'', ''mixed''}"
  have r: "result_row (filter (\<lambda>r. row_task r = ''dccs'' \<and> row_phase r \<in> ?S) rows) l ph = result_row rows l ph"
    if "ph \<in> ?S" for l ph
    using phase_rows_filter [OF that] by (rule result_row_cong)
  have m: "''color_test'' \<in> ?S" "''shape_test'' \<in> ?S" "''mixed'' \<in> ?S" by simp_all
  show ?thesis unfolding results_stimulus_def r [OF m(1)] r [OF m(2)] r [OF m(3)] ..
qed

text \<open>The summary depends only on the multiset of recorded rows, not on
  their order.\<close>

theorem results_permutation_invariant:
  assumes "mset rows = mset rows'"
  shows "results_stimulus rows = results_stimulus rows'"
  using phase_mset [OF assms] by (simp add: results_stimulus_def result_row_def)

lemma results_permutation_invariant_witness:
  "mset (rev example_rows) = mset example_rows \<and> results_stimulus (rev example_rows) = results_stimulus example_rows"
proof -
  have h: "mset (rev example_rows) = mset example_rows" by simp
  show ?thesis using h results_permutation_invariant [OF h] by simp
qed

end
