(* ===== verification/Session.thy ===== *)
theory Session
  imports Results
begin

text \<open>
  One run of the timeline, across components.  When a trial screen loads,
  its \<open>on_load\<close> calls \<open>setupTrial\<close> (\<open>Response\<close>) on the trial the
  screen was built with (\<open>Timeline\<close>); \<open>document.querySelectorAll\<close> and
  \<open>getElementById\<close> find the choice cards and the feedback element in the
  screen's rendered lines.  When the trial's \<open>finishTrial\<close> runs, jsPsych
  records one row: the screen's \<open>data\<close> merged with the reported
  \<open>{response, correct, rt}\<close>.  The summary of \<open>createResults\<close>
  (\<open>Results\<close>) reads those rows.  A session is a list of screens with the
  state each screen's trial reached; it is completed when every trial
  screen's state is reachable from \<open>setupTrial\<close> and has finished.
\<close>

text \<open>An element is found by the opening of its line: the templates put each
  element's opening tag at the start of a line, and no other line of a trial
  stimulus starts with these tags.\<close>

definition starts_with :: "string \<Rightarrow> string \<Rightarrow> bool" where
  "starts_with p l \<longleftrightarrow> take (length p) l = p"

definition querySelectorAll_cards :: "html \<Rightarrow> nat" where
  "querySelectorAll_cards h = length (filter (starts_with ''<div class=\"dccs-choice-card\"'') h)"

definition getElementById_feedback :: "html \<Rightarrow> bool" where
  "getElementById_feedback h = list_ex (starts_with ''<div class=\"dccs-feedback\" id=\"feedback\"'') h"

text \<open>The context \<open>setupTrial\<close> runs in when a screen loads, if it calls it.\<close>

definition load_ctx :: "screen \<Rightarrow> trial_ctx option" where
  "load_ctx sc =
     (case (scr_load sc, scr_stimulus sc) of
        (SetupOnLoad t ph n dm fb, StaticHtml h) \<Rightarrow>
          Some \<lparr>the_trial = t, trial_dimension = dm, with_feedback = fb,
                num_cards = querySelectorAll_cards h, feedback_div = getElementById_feedback h\<rparr>
      | _ \<Rightarrow> None)"

text \<open>The row jsPsych records when \<open>finishTrial(f)\<close> ends a screen with data \<open>d\<close>.\<close>

definition record_row :: "trial_data \<Rightarrow> finish_data \<Rightarrow> data_row" where
  "record_row d f = \<lparr>row_task = task d, row_phase = phase d, row_correct = fd_correct f, row_rt = rt f\<rparr>"

text \<open>The trial rows a screen contributes: the first \<open>finishTrial\<close> ends the
  screen.  Rows of screens without trial data carry no \<open>task\<close> of
  \<open>'dccs'\<close> (the welcome screen records \<open>trial_type: 'welcome'\<close>, the
  instruction and results screens no data of their own) and are left out.\<close>

definition screen_rows :: "screen \<Rightarrow> trial_ui \<Rightarrow> data_row list" where
  "screen_rows sc s = (case scr_data sc of TrialData d \<Rightarrow> map (record_row d) (take 1 (finished s)) | _ \<Rightarrow> [])"

definition session_rows :: "screen list \<Rightarrow> trial_ui list \<Rightarrow> data_row list" where
  "session_rows scs uis = concat (map2 screen_rows scs uis)"

definition screen_done :: "screen \<Rightarrow> trial_ui \<Rightarrow> bool" where
  "screen_done sc s = (case load_ctx sc of Some ctx \<Rightarrow> reach ctx s \<and> finished s \<noteq> [] | None \<Rightarrow> True)"

definition session_completed :: "screen list \<Rightarrow> trial_ui list \<Rightarrow> bool" where
  "session_completed scs uis = list_all2 screen_done scs uis"

text \<open>The abstract view of a phase: its trial screens with their final
  states, and whether the response recorded first was the screen's
  \<open>correct_response\<close>.\<close>

definition phase_trials :: "string \<Rightarrow> screen list \<Rightarrow> trial_ui list \<Rightarrow> (trial_data \<times> trial_ui) list" where
  "phase_trials ph scs uis =
     concat (map2 (\<lambda>sc s. case scr_data sc of
                             TrialData d \<Rightarrow> if task d = ''dccs'' \<and> phase d = ph then [(d, s)] else []
                           | _ \<Rightarrow> []) scs uis)"

definition answered_correctly :: "trial_data \<times> trial_ui \<Rightarrow> bool" where
  "answered_correctly x = (response (hd (finished (snd x))) = correct_response (fst x))"

subsection \<open>A recorded session\<close>

text \<open>Two colour-test screens after the welcome screen, answered with card 0:
  right on the first, wrong on the second.\<close>

definition session_trial_1 :: trial where "session_trial_1 = mk_trial blueTruck blueBall orangeTruck 0"
definition session_trial_2 :: trial where "session_trial_2 = mk_trial orangeBall blueBall orangeTruck 1"

definition session_ctx :: "trial \<Rightarrow> trial_ctx" where
  "session_ctx t = \<lparr>the_trial = t, trial_dimension = ''color'', with_feedback = False,
                    num_cards = 2, feedback_div = True\<rparr>"

definition example_session_screens :: "screen list" where
  "example_session_screens =
     [createWelcome, createTestTrial session_trial_1 ''color_test'' ''color'' 0,
      createTestTrial session_trial_2 ''color_test'' ''color'' 1]"

definition example_session_states :: "trial_ui list" where
  "example_session_states =
     [setupTrial (session_ctx session_trial_1) 0 test_browser,
      the (run_events (session_ctx session_trial_1) (setupTrial (session_ctx session_trial_1) 1000 test_browser)
             [Click 0 1800]),
      the (run_events (session_ctx session_trial_2) (setupTrial (session_ctx session_trial_2) 3000 test_browser)
             [Click 0 3900])]"

subsection \<open>Lemmas\<close>

lemma trial_stimulus_dom:
  "querySelectorAll_cards (createTrialStimulus t l r c) = 2"
  "getElementById_feedback (createTrialStimulus t l r c)"
  by (simp_all add: createTrialStimulus_def querySelectorAll_cards_def getElementById_feedback_def starts_with_def)

lemma well_posed_load_ctx:
  assumes "screen_well_posed sc" "scr_data sc = TrialData d"
  obtains t fb where
    "load_ctx sc = Some \<lparr>the_trial = t, trial_dimension = data_dimension d, with_feedback = fb,
                         num_cards = 2, feedback_div = True\<rparr>"
    "correct t = correct_response d" "task d = ''dccs''"
proof (cases "scr_load sc")
  case (SetupOnLoad t ph n dm fb)
  with assms show ?thesis
    by (intro that [of t fb]) (auto simp: screen_well_posed_def load_ctx_def trial_stimulus_dom)
qed (use assms in \<open>simp_all add: screen_well_posed_def trial_info_def\<close>)

lemma screen_done_fd_ok:
  assumes "screen_well_posed sc" "screen_done sc s" "scr_data sc = TrialData d"
  obtains t fb where
    "finished s \<noteq> []" "correct t = correct_response d" "task d = ''dccs''"
    "fd_ok \<lparr>the_trial = t, trial_dimension = data_dimension d, with_feedback = fb,
            num_cards = 2, feedback_div = True\<rparr> (hd (finished s))"
proof -
  obtain t fb where ctx: "load_ctx sc = Some \<lparr>the_trial = t, trial_dimension = data_dimension d,
      with_feedback = fb, num_cards = 2, feedback_div = True\<rparr>"
    and c: "correct t = correct_response d" and tk: "task d = ''dccs''"
    using well_posed_load_ctx [OF assms(1,3)] by blast
  let ?ctx = "\<lparr>the_trial = t, trial_dimension = data_dimension d, with_feedback = fb,
      num_cards = 2, feedback_div = True\<rparr>"
  have r: "reach ?ctx s" and ne: "finished s \<noteq> []"
    using assms(2) ctx by (simp_all add: screen_done_def)
  have "list_all (fd_ok ?ctx) (finished s)"
    using reach_inv [OF r] by (simp add: ui_inv_def)
  then have "fd_ok ?ctx (hd (finished s))"
    using ne by (cases "finished s") simp_all
  then show ?thesis using ne tk c that by blast
qed

lemma screen_done_row:
  assumes "screen_well_posed sc" "screen_done sc s" "scr_data sc = TrialData d"
  shows "finished s \<noteq> [] \<and> task d = ''dccs'' \<and>
         fd_correct (hd (finished s)) = (response (hd (finished s)) = correct_response d)"
  using assms by (rule screen_done_fd_ok) (simp add: fd_ok_def)

lemma session_phase_rows:
  assumes "session_completed scs uis" "list_all screen_well_posed scs"
  shows "phase_rows (session_rows scs uis) ph =
           map (\<lambda>x. record_row (fst x) (hd (finished (snd x)))) (phase_trials ph scs uis) \<and>
         list_all (\<lambda>x. fd_correct (hd (finished (snd x))) = answered_correctly x) (phase_trials ph scs uis)"
  using assms unfolding session_completed_def
proof (induction rule: list_all2_induct)
  case Nil
  then show ?case by (simp add: session_rows_def phase_trials_def phase_rows_def)
next
  case (Cons sc scs s uis)
  then have ih: "phase_rows (session_rows scs uis) ph =
           map (\<lambda>x. record_row (fst x) (hd (finished (snd x)))) (phase_trials ph scs uis) \<and>
         list_all (\<lambda>x. fd_correct (hd (finished (snd x))) = answered_correctly x) (phase_trials ph scs uis)"
    by simp
  have split: "session_rows (sc # scs) (s # uis) = screen_rows sc s @ session_rows scs uis"
    "phase_trials ph (sc # scs) (s # uis) =
       (case scr_data sc of TrialData d \<Rightarrow> if task d = ''dccs'' \<and> phase d = ph then [(d, s)] else []
                          | _ \<Rightarrow> []) @ phase_trials ph scs uis"
    by (simp_all add: session_rows_def phase_trials_def)
  show ?case
  proof (cases "scr_data sc")
    case (TrialData d)
    have row: "finished s \<noteq> [] \<and> task d = ''dccs'' \<and>
         fd_correct (hd (finished s)) = (response (hd (finished s)) = correct_response d)"
      using screen_done_row [OF _ Cons.hyps(1) TrialData] Cons.prems by simp
    then have "take 1 (finished s) = [hd (finished s)]" by (cases "finished s") simp_all
    then show ?thesis
      using ih row TrialData
      by (simp add: split screen_rows_def phase_rows_def record_row_def answered_correctly_def)
  qed (use ih in \<open>simp_all add: split screen_rows_def phase_rows_def\<close>)
qed

lemma session_rows_abs:
  assumes "list_all screen_well_posed scs" "session_completed scs uis"
  shows "phase_rows (session_rows scs uis) ph =
           map (\<lambda>x. record_row (fst x) (hd (finished (snd x)))) (phase_trials ph scs uis) \<and>
         correct_rows (map (\<lambda>x. record_row (fst x) (hd (finished (snd x)))) (phase_trials ph scs uis)) =
           map (\<lambda>x. record_row (fst x) (hd (finished (snd x)))) (filter answered_correctly (phase_trials ph scs uis))"
proof -
  let ?ts = "phase_trials ph scs uis"
  let ?g = "\<lambda>x. record_row (fst x) (hd (finished (snd x)))"
  have p: "phase_rows (session_rows scs uis) ph = map ?g ?ts"
    and c: "list_all (\<lambda>x. fd_correct (hd (finished (snd x))) = answered_correctly x) ?ts"
    using session_phase_rows [OF assms(2,1)] by simp_all
  have "correct_rows (map ?g ?ts) = map ?g (filter answered_correctly ?ts)"
    using c by (simp add: correct_rows_def filter_map comp_def record_row_def list_all_iff cong: filter_cong)
  then show ?thesis using p by simp
qed

lemma show_feedback_game:
  "show_feedback ctx ok s = Inl (e, s') \<Longrightarrow> game (env s') = game (env s)"
  "show_feedback ctx ok s = Inr s' \<Longrightarrow> game (env s') = game (env s)"
  by (auto simp: show_feedback_def Let_def split: if_splits)

lemma click_game:
  "click ctx ci now s = Inl (e, s') \<Longrightarrow> game (env s') = game (env s)"
  "click ctx ci now s = Inr s' \<Longrightarrow> game (env s') = game (env s)"
  by (auto simp: click_def finish_now_def Let_def dest: show_feedback_game split: if_splits sum.splits)

lemma ui_step_game: "ui_step ctx s ev = Some s' \<Longrightarrow> game (env s') = game (env s)"
proof (cases ev)
  case (Click ci now)
  moreover assume "ui_step ctx s ev = Some s'"
  ultimately show ?thesis
    by (auto dest: click_game split: if_splits sum.splits)
next
  case (Fire k now cur)
  moreover assume "ui_step ctx s ev = Some s'"
  ultimately show ?thesis
    by (cases "timers s ! k") (auto simp: finish_now_def split: if_splits)
qed

lemma run_events_game: "run_events ctx s evs = Some s' \<Longrightarrow> game (env s') = game (env s)"
  by (induction evs arbitrary: s) (auto dest: ui_step_game split: option.splits)

lemma example_session_well_posed: "list_all screen_well_posed example_session_screens"
  by (simp add: example_session_screens_def welcome_results_facts test_screen_facts
      session_trial_1_def session_trial_2_def well_posed_def matches_def attr_def dccs_data)

lemma example_session_reach:
  "n \<le> m \<Longrightarrow>
   reach (session_ctx t) (the (run_events (session_ctx t) (setupTrial (session_ctx t) n test_browser) [Click 0 m]))"
proof -
  assume that: "n \<le> m"
  have "run_events (session_ctx t) (setupTrial (session_ctx t) n test_browser) [Click 0 m] =
        Some (the (run_events (session_ctx t) (setupTrial (session_ctx t) n test_browser) [Click 0 m]))"
    using that by (simp add: ui_eval session_ctx_def)
  then show ?thesis by (rule reach_run_events [OF reach.init])
qed

lemma example_session_completed: "session_completed example_session_screens example_session_states"
  using example_session_reach [of 1000 1800 session_trial_1]
    example_session_reach [of 3000 3900 session_trial_2]
  by (simp add: session_completed_def example_session_screens_def example_session_states_def
      screen_done_def load_ctx_def createWelcome_def createTestTrial_def trial_stimulus_dom
      js_upper_color session_ctx_def ui_eval)

lemmas session_eval = example_session_screens_def example_session_states_def phase_trials_def
  answered_correctly_def createWelcome_def createTestTrial_def session_trial_1_def
  session_trial_2_def session_ctx_def ui_eval

subsection \<open>Properties of a session\<close>

text \<open>C8: the summary scores the responses: over a completed session of well-posed
  screens, a phase's accuracy is the share of its trial screens whose recorded
  response is the screen's \<open>correct_response\<close>, and \<open>NaN\<close> when the phase has
  no trial screen.\<close>

theorem session_accuracy:
  assumes "list_all screen_well_posed scs" "session_completed scs uis"
  shows "phase_accuracy (session_rows scs uis) ph =
           (if phase_trials ph scs uis = [] then NaN
            else Num (of_nat (length (filter answered_correctly (phase_trials ph scs uis))) /
                      of_nat (length (phase_trials ph scs uis)) * 100))"
  using session_rows_abs [OF assms]
  by (cases "phase_trials ph scs uis = []") (simp_all add: phase_accuracy_Num phase_accuracy_Nil)

lemma session_accuracy_witness:
  "list_all screen_well_posed example_session_screens \<and>
   session_completed example_session_screens example_session_states \<and>
   phase_accuracy (session_rows example_session_screens example_session_states) ''color_test'' = Num 50"
  using example_session_well_posed example_session_completed
    session_accuracy [OF example_session_well_posed example_session_completed, of "''color_test''"]
  by (simp add: session_eval)

text \<open>C28: the summary's time for a phase is the mean, in seconds, of the
  response times recorded on its correctly answered trial screens.\<close>

theorem session_rt:
  assumes "list_all screen_well_posed scs" "session_completed scs uis"
  shows "phase_rt (session_rows scs uis) ph =
           (if filter answered_correctly (phase_trials ph scs uis) = [] then NaN
            else Num (sum_list (map (\<lambda>x. rt (hd (finished (snd x)))) (filter answered_correctly (phase_trials ph scs uis))) /
                      of_nat (length (filter answered_correctly (phase_trials ph scs uis))) / 1000))"
  using session_rows_abs [OF assms] by (simp add: phase_rt_eq comp_def record_row_def)

lemma session_rt_witness:
  "list_all screen_well_posed example_session_screens \<and>
   session_completed example_session_screens example_session_states \<and>
   phase_rt (session_rows example_session_screens example_session_states) ''color_test'' = Num (4/5)"
  using example_session_well_posed example_session_completed
    session_rt [OF example_session_well_posed example_session_completed, of "''color_test''"]
  by (simp add: session_eval)

text \<open>C29: a trial never writes the module state: after \<open>setupTrial\<close> and any
  run of clicks and timer callbacks, \<open>GameState\<close> (audio flag, phase label,
  trial counter) is what it was before the trial.\<close>

theorem trial_keeps_game_state:
  assumes "run_events ctx (setupTrial ctx now b) evs = Some s"
  shows "game (env s) = game b"
  using run_events_game [OF assms] by (simp add: setupTrial_def)

lemma trial_keeps_game_state_witness:
  "run_events (test_ctx True 2) (setupTrial (test_ctx True 2) 1000 test_browser) [Click 1 1800, Fire 0 4300 True] =
     Some (the (run_events (test_ctx True 2) (setupTrial (test_ctx True 2) 1000 test_browser)
                  [Click 1 1800, Fire 0 4300 True])) \<and>
   current_phase (game (env (the (run_events (test_ctx True 2) (setupTrial (test_ctx True 2) 1000 test_browser)
                  [Click 1 1800, Fire 0 4300 True])))) = []"
proof -
  have h: "run_events (test_ctx True 2) (setupTrial (test_ctx True 2) 1000 test_browser) [Click 1 1800, Fire 0 4300 True] =
     Some (the (run_events (test_ctx True 2) (setupTrial (test_ctx True 2) 1000 test_browser)
                  [Click 1 1800, Fire 0 4300 True]))"
    by (simp add: ui_eval)
  show ?thesis using h trial_keeps_game_state [OF h] by (simp add: test_browser_def)
qed

end
