(* ===== verification/Run.thy ===== *)
theory Run
  imports Session "HOL-Library.Sublist"
begin

text \<open>
  A run of the timeline screen by screen, with the browser state threaded
  through: the welcome screen's checkbox and \<open>on_finish\<close>, the narration
  an instruction screen's \<open>on_load\<close> starts with \<open>playAudio\<close>, and each
  trial screen's \<open>setupTrial\<close> followed by the clicks and timer callbacks
  until \<open>finishTrial\<close> ends it.  The input of a screen says what the
  participant did on it.  Only the rows of trial screens are collected: the
  other screens' rows carry no \<open>task\<close> of \<open>'dccs'\<close> and the summary
  filters them out.
\<close>

datatype screen_input =
    WelcomeInput "bool option"
  | ButtonInput
  | TrialInput ms "ui_event list"

text \<open>\<open>WelcomeInput c\<close>: the checkbox was last set to \<open>x\<close> when \<open>c = Some x\<close>,
  never touched when \<open>c = None\<close>, then \<open>Start\<close> was pressed.
  \<open>TrialInput now evs\<close>: the trial loaded at time \<open>now\<close> and saw the events
  \<open>evs\<close>, the last of which finished it.\<close>

definition run_load :: "load_hook \<Rightarrow> browser \<Rightarrow> browser" where
  "run_load ld b = (case ld of SpeakOnLoad txt \<Rightarrow> playAudio txt b | _ \<Rightarrow> b)"

definition run_screen :: "screen \<Rightarrow> screen_input \<Rightarrow> browser \<Rightarrow> (browser \<times> data_row list) option" where
  "run_screen sc inp b =
     (case load_ctx sc of
        Some ctx \<Rightarrow>
          (case inp of
             TrialInput now evs \<Rightarrow>
               (case run_events ctx (setupTrial ctx now b) evs of
                  None \<Rightarrow> None
                | Some s \<Rightarrow> if finished s = [] then None else Some (env s, screen_rows sc s))
           | _ \<Rightarrow> None)
      | None \<Rightarrow>
          (case inp of
             WelcomeInput c \<Rightarrow>
               (if scr_finish sc = WelcomeFinish then
                  Some (fst (welcome_on_finish
                          (case c of None \<Rightarrow> run_load (scr_load sc) b
                                   | Some x \<Rightarrow> audio_toggle_onchange x (run_load (scr_load sc) b))), [])
                else None)
           | ButtonInput \<Rightarrow> (if scr_finish sc = NoFinish then Some (run_load (scr_load sc) b, []) else None)
           | TrialInput _ _ \<Rightarrow> None))"

fun run_session ::
  "screen list \<Rightarrow> screen_input list \<Rightarrow> browser \<Rightarrow> data_row list \<Rightarrow> (browser \<times> data_row list) option" where
  "run_session [] [] b rows = Some (b, rows)"
| "run_session (sc # scs) (i # ins) b rows =
     (case run_screen sc i b of
        None \<Rightarrow> None
      | Some (b', rs) \<Rightarrow> run_session scs ins b' (rows @ rs))"
| "run_session _ _ b rows = None"

subsection \<open>A run\<close>

text \<open>The welcome screen with the checkbox untouched, the shape instructions,
  and one colour-test trial answered with card 0 after 800 ms.\<close>

definition example_run_screens :: "screen list" where
  "example_run_screens =
     [createWelcome, createShapeInstructions, createTestTrial session_trial_1 ''color_test'' ''color'' 0]"

definition example_run_inputs :: "screen_input list" where
  "example_run_inputs = [WelcomeInput None, ButtonInput, TrialInput 1000 [Click 0 1800]]"

text \<open>The unit tests' browser with audio enabled.\<close>

definition audio_browser :: browser where
  "audio_browser = test_browser\<lparr>game := initial_game_state\<lparr>audio_enabled := True\<rparr>\<rparr>"

subsection \<open>Lemmas\<close>

lemma playAudio_prefix: "prefix (spoken b) (spoken (playAudio t b))"
  by (simp add: playAudio_spoken)

lemma show_feedback_prefix:
  "show_feedback ctx ok s = Inl (e, s') \<Longrightarrow> prefix (spoken (env s)) (spoken (env s'))"
  "show_feedback ctx ok s = Inr s' \<Longrightarrow> prefix (spoken (env s)) (spoken (env s'))"
  by (auto simp: show_feedback_def Let_def playAudio_prefix split: if_splits)

lemma click_prefix:
  "click ctx ci now s = Inl (e, s') \<Longrightarrow> prefix (spoken (env s)) (spoken (env s'))"
  "click ctx ci now s = Inr s' \<Longrightarrow> prefix (spoken (env s)) (spoken (env s'))"
  by (auto simp: click_def finish_now_def Let_def split: if_splits sum.splits dest: show_feedback_prefix)

lemma ui_step_prefix: "ui_step ctx s ev = Some s' \<Longrightarrow> prefix (spoken (env s)) (spoken (env s'))"
proof (cases ev)
  case (Click ci now)
  moreover assume "ui_step ctx s ev = Some s'"
  ultimately show ?thesis by (auto split: if_splits sum.splits dest: click_prefix)
next
  case (Fire k now cur)
  moreover assume "ui_step ctx s ev = Some s'"
  ultimately show ?thesis
    by (cases "timers s ! k") (auto simp: finish_now_def playAudio_prefix split: if_splits)
qed

lemma run_events_prefix: "run_events ctx s evs = Some s' \<Longrightarrow> prefix (spoken (env s)) (spoken (env s'))"
proof (induction evs arbitrary: s)
  case (Cons e es)
  then obtain t where t: "ui_step ctx s e = Some t" and r: "run_events ctx t es = Some s'"
    by (auto split: option.splits)
  show ?case by (rule prefix_order.trans [OF ui_step_prefix [OF t] Cons.IH [OF r]])
qed simp

lemma show_feedback_silent:
  "\<not> audio_enabled (game (env s)) \<Longrightarrow> show_feedback ctx ok s = Inl (e, s') \<Longrightarrow> env s' = env s"
  "\<not> audio_enabled (game (env s)) \<Longrightarrow> show_feedback ctx ok s = Inr s' \<Longrightarrow> env s' = env s"
  by (auto simp: show_feedback_def playAudio_def Let_def split: if_splits)

lemma click_silent:
  "\<not> audio_enabled (game (env s)) \<Longrightarrow> click ctx ci now s = Inl (e, s') \<Longrightarrow> env s' = env s"
  "\<not> audio_enabled (game (env s)) \<Longrightarrow> click ctx ci now s = Inr s' \<Longrightarrow> env s' = env s"
  by (auto simp: click_def finish_now_def Let_def split: if_splits sum.splits
      dest: show_feedback_silent [rotated])

lemma ui_step_silent:
  assumes "\<not> audio_enabled (game (env s))" "ui_step ctx s ev = Some s'"
  shows "env s' = env s"
proof (cases ev)
  case (Click ci now)
  with assms show ?thesis
    by (auto split: if_splits sum.splits dest: click_silent [rotated])
next
  case (Fire k now cur)
  with assms show ?thesis
    by (cases "timers s ! k") (auto simp: finish_now_def playAudio_def split: if_splits)
qed

lemma run_events_silent:
  "\<not> audio_enabled (game (env s)) \<Longrightarrow> run_events ctx s evs = Some s' \<Longrightarrow> env s' = env s"
proof (induction evs arbitrary: s)
  case (Cons e es)
  then obtain t where t: "ui_step ctx s e = Some t" and r: "run_events ctx t es = Some s'"
    by (auto split: option.splits)
  have "env t = env s" by (rule ui_step_silent [OF Cons.prems(1) t])
  then show ?case using Cons.IH [of t] Cons.prems(1) r by simp
qed simp

lemma run_load_silent: "\<not> audio_enabled (game b) \<Longrightarrow> run_load ld b = b"
  by (simp add: run_load_def playAudio_def split: load_hook.splits)

lemma run_screen_silent:
  assumes "run_screen sc inp b = Some (b', rs)" "\<not> audio_enabled (game b)" "temp_audio b \<noteq> Some True"
    and "inp \<noteq> WelcomeInput (Some True)"
  shows "spoken b' = spoken b \<and> \<not> audio_enabled (game b') \<and> temp_audio b' \<noteq> Some True"
proof (cases "load_ctx sc")
  case (Some ctx)
  then obtain now evs s where "inp = TrialInput now evs"
    and r: "run_events ctx (setupTrial ctx now b) evs = Some s" and b': "b' = env s"
    using assms(1) by (auto simp: run_screen_def split: screen_input.splits option.splits if_splits)
  have "env (setupTrial ctx now b) = b" using assms(2) by (simp add: setupTrial_def playAudio_def)
  then show ?thesis
    using run_events_silent [OF _ r] assms(2,3) b' by simp
next
  case None
  then show ?thesis
    using assms
    by (auto simp: run_screen_def welcome_on_finish_eq audio_toggle_onchange_def run_load_silent
        split: screen_input.splits option.splits if_splits)
qed

lemma run_screen_done:
  assumes "run_screen sc inp b = Some (b', rs)"
  shows "\<exists>s. screen_done sc s \<and> rs = screen_rows sc s"
proof (cases "load_ctx sc")
  case (Some ctx)
  then obtain now evs s where r: "run_events ctx (setupTrial ctx now b) evs = Some s"
    and f: "finished s \<noteq> []" and rs: "rs = screen_rows sc s"
    using assms by (auto simp: run_screen_def split: screen_input.splits option.splits if_splits)
  have "reach ctx s" by (rule reach_run_events [OF reach.init r])
  then show ?thesis using Some f rs by (auto simp: screen_done_def)
next
  case None
  let ?s = "setupTrial \<lparr>the_trial = mk_trial blueBall blueBall blueBall 0, trial_dimension = [],
      with_feedback = False, num_cards = 0, feedback_div = False\<rparr> 0 b"
  have "rs = []" using None assms by (auto simp: run_screen_def split: screen_input.splits if_splits)
  moreover have "screen_rows sc ?s = []" by (simp add: screen_rows_def setupTrial_def split: screen_data.splits)
  ultimately show ?thesis using None unfolding screen_done_def by (intro exI [of _ ?s]) simp
qed

lemma run_eval_facts:
  "run_session example_run_screens example_run_inputs test_browser [] =
     Some (fst (the (run_session example_run_screens example_run_inputs test_browser [])),
           snd (the (run_session example_run_screens example_run_inputs test_browser [])))"
  "\<not> audio_enabled (game test_browser)" "temp_audio test_browser \<noteq> Some True"
  "WelcomeInput (Some True) \<notin> set example_run_inputs"
  by (simp_all add: example_run_screens_def example_run_inputs_def run_screen_def load_ctx_def
      createWelcome_def createTestTrial_def trial_stimulus_dom js_upper_color session_trial_1_def ui_eval
      welcome_on_finish_def run_load_def createShapeInstructions_def)

subsection \<open>Properties of a run\<close>

text \<open>C30: with audio off and the checkbox never checked, a whole run of any
  screens speaks nothing: no \<open>on_load\<close> narration, no trial cue, no
  feedback or reminder reaches \<open>speechSynthesis.speak\<close>.\<close>

theorem run_session_silent:
  assumes "run_session scs ins b rows = Some (b', rows')" "\<not> audio_enabled (game b)"
    and "temp_audio b \<noteq> Some True" "WelcomeInput (Some True) \<notin> set ins"
  shows "spoken b' = spoken b"
  using assms
proof (induction scs ins b rows rule: run_session.induct)
  case (2 sc scs i ins b rows)
  then obtain b1 rs where s: "run_screen sc i b = Some (b1, rs)"
    and rest: "run_session scs ins b1 (rows @ rs) = Some (b', rows')"
    by (auto split: option.splits)
  have "spoken b1 = spoken b \<and> \<not> audio_enabled (game b1) \<and> temp_audio b1 \<noteq> Some True"
    using run_screen_silent [OF s] "2.prems" by auto
  then show ?case using "2.IH" [OF s refl rest] "2.prems" by auto
qed simp_all

lemma run_session_silent_witness:
  "run_session example_run_screens example_run_inputs test_browser [] = Some (fst (the (run_session example_run_screens example_run_inputs test_browser [])), snd (the (run_session example_run_screens example_run_inputs test_browser []))) \<and>
   \<not> audio_enabled (game test_browser) \<and> temp_audio test_browser \<noteq> Some True \<and>
   WelcomeInput (Some True) \<notin> set example_run_inputs \<and>
   spoken (fst (the (run_session example_run_screens example_run_inputs test_browser []))) = spoken test_browser"
  using run_eval_facts run_session_silent [OF run_eval_facts] by simp

text \<open>A run of the screens records exactly the rows of a completed session:
  every trial screen's state is reachable from \<open>setupTrial\<close> and finished,
  and the rows are those \<open>session_rows\<close> reads off; so the summary
  properties of \<open>Session\<close> apply to every run.\<close>

theorem run_session_rows:
  assumes "run_session scs ins b rows = Some (b', rows')"
  shows "\<exists>uis. session_completed scs uis \<and> rows' = rows @ session_rows scs uis"
  using assms
proof (induction scs ins b rows rule: run_session.induct)
  case (1 b rows)
  then show ?case by (simp add: session_completed_def session_rows_def)
next
  case (2 sc scs i ins b rows)
  then obtain b1 rs where s: "run_screen sc i b = Some (b1, rs)"
    and rest: "run_session scs ins b1 (rows @ rs) = Some (b', rows')"
    by (auto split: option.splits)
  obtain s where d: "screen_done sc s" and rs: "rs = screen_rows sc s"
    using run_screen_done [OF s] by blast
  obtain uis where c: "session_completed scs uis" and r: "rows' = (rows @ rs) @ session_rows scs uis"
    using "2.IH" [OF s refl rest] by blast
  have "session_completed (sc # scs) (s # uis) \<and> rows' = rows @ session_rows (sc # scs) (s # uis)"
    using c d r rs by (simp add: session_completed_def session_rows_def)
  then show ?case by blast
qed simp_all

lemma run_session_rows_witness:
  "run_session example_run_screens example_run_inputs test_browser [] = Some (fst (the (run_session example_run_screens example_run_inputs test_browser [])), snd (the (run_session example_run_screens example_run_inputs test_browser []))) \<and>
   (\<exists>uis. session_completed example_run_screens uis \<and> snd (the (run_session example_run_screens example_run_inputs test_browser [])) = [] @ session_rows example_run_screens uis)"
  using run_eval_facts(1) run_session_rows [OF run_eval_facts(1)] by simp

text \<open>With audio enabled and speech supported, the first thing a trial
  screen says is its dimension in upper case (\<open>playAudio(dimension.toUpperCase())\<close>
  at the top of \<open>setupTrial\<close>); whatever the trial says afterwards (feedback,
  reminder) only extends what was spoken.\<close>

theorem run_trial_cue_first:
  assumes "run_screen sc (TrialInput now evs) b = Some (b', rs)" "load_ctx sc = Some ctx"
    and "audio_enabled (game b)" "speech_supported b"
  shows "prefix (spoken b @ [\<lparr>u_text = js_upper (trial_dimension ctx), u_rate = 9/10\<rparr>]) (spoken b')"
proof -
  obtain s where r: "run_events ctx (setupTrial ctx now b) evs = Some s" and b': "b' = env s"
    using assms(1,2) by (auto simp: run_screen_def split: option.splits if_splits)
  have "spoken (env (setupTrial ctx now b)) = spoken b @ [\<lparr>u_text = js_upper (trial_dimension ctx), u_rate = 9/10\<rparr>]"
    using assms(3,4) by (simp add: setupTrial_def playAudio_spoken)
  then show ?thesis using run_events_prefix [OF r] b' by simp
qed

lemma run_trial_cue_first_witness:
  "run_screen (createTestTrial session_trial_1 ''color_test'' ''color'' 0) (TrialInput 1000 [Click 0 1800]) audio_browser =
     Some (fst (the (run_screen (createTestTrial session_trial_1 ''color_test'' ''color'' 0) (TrialInput 1000 [Click 0 1800]) audio_browser)),
           snd (the (run_screen (createTestTrial session_trial_1 ''color_test'' ''color'' 0) (TrialInput 1000 [Click 0 1800]) audio_browser))) \<and>
   load_ctx (createTestTrial session_trial_1 ''color_test'' ''color'' 0) = Some (session_ctx session_trial_1) \<and>
   audio_enabled (game audio_browser) \<and> speech_supported audio_browser \<and>
   prefix [\<lparr>u_text = ''COLOR'', u_rate = 9/10\<rparr>]
     (spoken (fst (the (run_screen (createTestTrial session_trial_1 ''color_test'' ''color'' 0) (TrialInput 1000 [Click 0 1800]) audio_browser))))"
proof -
  have h1: "run_screen (createTestTrial session_trial_1 ''color_test'' ''color'' 0) (TrialInput 1000 [Click 0 1800]) audio_browser =
     Some (fst (the (run_screen (createTestTrial session_trial_1 ''color_test'' ''color'' 0) (TrialInput 1000 [Click 0 1800]) audio_browser)),
           snd (the (run_screen (createTestTrial session_trial_1 ''color_test'' ''color'' 0) (TrialInput 1000 [Click 0 1800]) audio_browser)))"
    by (simp add: run_screen_def load_ctx_def createTestTrial_def trial_stimulus_dom js_upper_color
        session_trial_1_def audio_browser_def ui_eval)
  have h2: "load_ctx (createTestTrial session_trial_1 ''color_test'' ''color'' 0) = Some (session_ctx session_trial_1)"
    by (simp add: load_ctx_def createTestTrial_def trial_stimulus_dom js_upper_color session_ctx_def)
  have h3: "audio_enabled (game audio_browser)" "speech_supported audio_browser"
    by (simp_all add: audio_browser_def test_browser_def)
  show ?thesis
    using h1 h2 h3 run_trial_cue_first [OF h1 h2 h3]
    by (simp add: session_ctx_def test_browser_def audio_browser_def js_upper_color)
qed

end
