(* ===== verification/TrialRecords.thy ===== *)
theory TrialRecords
  imports Run
begin

text \<open>
  The \<open>TrialData\<close> interface of \<open>src/src/index.ts\<close>: the fields a trial
  row carries once jsPsych has merged the screen's \<open>data\<close> with the
  result \<open>setupTrial\<close> passes to \<open>finishTrial\<close>.  TypeScript only says
  \<open>number\<close>, \<open>boolean\<close> and \<open>string\<close>; \<open>TrialData_conforms\<close> states the
  values the program can actually put there, and the lemmas show every row
  a completed run of \<open>createTimeline\<close>'s screens records conforms.
\<close>

record TrialData =
  td_response :: int
  td_correct :: bool
  td_rt :: ms
  td_phase :: string
  td_dimension :: string
  td_target :: string

text \<open>The catalogue \<open>STIMULI\<close> as the list of its eight entries.\<close>

definition STIMULI :: "stimulus list" where
  "STIMULI = [brownRabbit, whiteRabbit, brownBoat, whiteBoat, blueBall, orangeTruck, blueTruck, orangeBall]"

text \<open>The row of a trial screen with data \<open>d\<close> finished with \<open>f\<close>, read
  through the interface.\<close>

definition recorded_TrialData :: "trial_data \<Rightarrow> finish_data \<Rightarrow> TrialData" where
  "recorded_TrialData d f =
     \<lparr>td_response = response f, td_correct = fd_correct f, td_rt = rt f,
      td_phase = phase d, td_dimension = data_dimension d, td_target = data_target d\<rparr>"

definition session_TrialData :: "screen list \<Rightarrow> trial_ui list \<Rightarrow> TrialData list" where
  "session_TrialData scs uis =
     concat (map2 (\<lambda>sc s. case scr_data sc of
                             TrialData d \<Rightarrow> map (recorded_TrialData d) (take 1 (finished s))
                           | _ \<Rightarrow> []) scs uis)"

definition dccs_phases :: "string list" where
  "dccs_phases = [''color_practice'', ''color_test'', ''shape_test'', ''mixed'']"

definition TrialData_conforms :: "TrialData \<Rightarrow> bool" where
  "TrialData_conforms r \<longleftrightarrow>
     0 \<le> td_response r \<and> td_response r \<le> 1 \<and> 0 \<le> td_rt r \<and>
     td_phase r \<in> set dccs_phases \<and> td_dimension r \<in> set [''color'', ''shape''] \<and>
     td_target r \<in> set (map name STIMULI)"

text \<open>The screen-side half: a trial screen's data names a phase, a dimension
  and a catalogue target.\<close>

definition screen_data_ok :: "screen \<Rightarrow> bool" where
  "screen_data_ok sc =
     (case scr_data sc of
        TrialData d \<Rightarrow> phase d \<in> set dccs_phases \<and> data_dimension d \<in> set [''color'', ''shape''] \<and>
                       data_target d \<in> set (map name STIMULI)
      | _ \<Rightarrow> True)"

subsection \<open>A small timeline run to the end\<close>

text \<open>One trial per phase, no instruction or results screens, every draw 0.5;
  the practice trial is answered correctly and its feedback callback fired,
  the test trials are answered once each.\<close>

definition small_config :: timeline_config where
  "small_config = \<lparr>practiceTrials = 1, testTrials = 1, mixedTrials = 1,
                   showInstructions = False, showResults = False\<rparr>"

definition small_mixed_trial :: trial where
  "small_mixed_trial = \<lparr>target = blueTruck, left = blueBall, right = orangeTruck, correct = 0,
                         dimension = Some ''color''\<rparr>"

definition small_screens :: "screen list" where
  "small_screens =
     [createWelcome, createPracticeTrial (mk_trial brownRabbit brownBoat whiteRabbit 0) 0,
      createTestTrial (mk_trial blueTruck blueBall orangeTruck 0) ''color_test'' ''color'' 0,
      createTestTrial (mk_trial orangeBall blueBall orangeTruck 0) ''shape_test'' ''shape'' 0,
      createTestTrial small_mixed_trial ''mixed'' ''color'' 0]"

definition trial_run :: "trial \<Rightarrow> string \<Rightarrow> bool \<Rightarrow> ui_event list \<Rightarrow> trial_ui" where
  "trial_run t dm fb evs =
     the (run_events \<lparr>the_trial = t, trial_dimension = dm, with_feedback = fb, num_cards = 2, feedback_div = True\<rparr>
            (setupTrial \<lparr>the_trial = t, trial_dimension = dm, with_feedback = fb, num_cards = 2, feedback_div = True\<rparr>
               1000 test_browser) evs)"

definition small_states :: "trial_ui list" where
  "small_states =
     [setupTrial (session_ctx session_trial_1) 0 test_browser,
      trial_run (mk_trial brownRabbit brownBoat whiteRabbit 0) ''color'' True [Click 0 1800, Fire 0 3300 True],
      trial_run (mk_trial blueTruck blueBall orangeTruck 0) ''color'' False [Click 0 1800],
      trial_run (mk_trial orangeBall blueBall orangeTruck 0) ''shape'' False [Click 1 2500],
      trial_run small_mixed_trial ''color'' False [Click 0 1900]]"

subsection \<open>Lemmas\<close>

lemma table_targets:
  "list_all (\<lambda>t. target t \<in> set STIMULI) COLOR_PRACTICE_TRIALS"
  "list_all (\<lambda>t. target t \<in> set STIMULI) COLOR_TEST_TRIALS"
  "list_all (\<lambda>t. target t \<in> set STIMULI) SHAPE_TEST_TRIALS"
  by (simp_all add: dccs_data STIMULI_def)

lemma testStimuli_in_STIMULI: "set testStimuli \<subseteq> set STIMULI"
  by (simp add: testStimuli_def STIMULI_def)

lemma builders_data_ok:
  "target t \<in> set STIMULI \<Longrightarrow> screen_data_ok (createPracticeTrial t i)"
  "ph \<in> set dccs_phases \<Longrightarrow> dm \<in> set [''color'', ''shape''] \<Longrightarrow> target t \<in> set STIMULI \<Longrightarrow>
     screen_data_ok (createTestTrial t ph dm i)"
  by (simp_all add: screen_data_ok_def createPracticeTrial_def createTestTrial_def dccs_phases_def)

lemma phase_screens_data_ok:
  assumes "list_all (\<lambda>t. target t \<in> set STIMULI) ts"
    and "\<And>t i. target t \<in> set STIMULI \<Longrightarrow> screen_data_ok (f t i)"
  shows "list_all screen_data_ok (phase_screens f ts)"
  using assms by (auto simp: phase_screens_map list_all_iff)

lemma slice_targets:
  "list_all (\<lambda>t. target t \<in> set STIMULI) ts \<Longrightarrow> list_all (\<lambda>t. target t \<in> set STIMULI) (js_slice0 ts e)"
  using set_js_slice0 [of ts e] by (auto simp: list_all_iff)

lemma fixed_screens_data_ok: "list_all screen_data_ok (fixed_screens cfg)"
proof -
  have i: "list_all screen_data_ok createColorInstructions" "list_all screen_data_ok createColorTestInstructions"
    "screen_data_ok createShapeInstructions" "screen_data_ok createMixedInstructions" "screen_data_ok createWelcome"
    by (simp_all add: createColorInstructions_def createColorTestInstructions_def createShapeInstructions_def
        createMixedInstructions_def createWelcome_def screen_data_ok_def)
  have p: "list_all screen_data_ok (phase_screens createPracticeTrial (js_slice0 COLOR_PRACTICE_TRIALS (practiceTrials cfg)))"
    by (rule phase_screens_data_ok [OF slice_targets [OF table_targets(1)]]) (rule builders_data_ok(1))
  have c: "list_all screen_data_ok
      (phase_screens (\<lambda>t i. createTestTrial t ''color_test'' ''color'' i) (js_slice0 COLOR_TEST_TRIALS (testTrials cfg)))"
    by (rule phase_screens_data_ok [OF slice_targets [OF table_targets(2)]])
       (simp add: builders_data_ok(2) dccs_phases_def)
  have sh: "list_all screen_data_ok
      (phase_screens (\<lambda>t i. createTestTrial t ''shape_test'' ''shape'' i) (js_slice0 SHAPE_TEST_TRIALS (testTrials cfg)))"
    by (rule phase_screens_data_ok [OF slice_targets [OF table_targets(3)]])
       (simp add: builders_data_ok(2) dccs_phases_def)
  show ?thesis using i p c sh by (simp add: fixed_screens_def)
qed

lemma mixed_part_data_ok:
  assumes "valid_draws (2 * nat n) rs"
  shows "list_all screen_data_ok (mixed_part (mixed_spec n rs))"
proof -
  have "screen_data_ok (createTestTrial t ''mixed'' (the (dimension t)) i)" if tm: "t \<in> set (mixed_spec n rs)" for t i
  proof -
    obtain k where t: "t = spec_trial k (rs !! (2 * k)) (rs !! (2 * k + 1))"
      and r: "0 \<le> rs !! (2 * k)" "rs !! (2 * k) < 1"
      using mixed_spec_set [OF assms tm] by blast
    have "target t \<in> set STIMULI"
      using spec_trial_stimuli [OF r] testStimuli_in_STIMULI t by blast
    moreover have "the (dimension t) \<in> set [''color'', ''shape'']"
      using spec_trial_well_posed [OF r] t by (simp add: mixed_dimension_def)
    ultimately show ?thesis by (simp add: builders_data_ok(2) dccs_phases_def)
  qed
  then show ?thesis by (auto simp: mixed_part_map list_all_iff)
qed

lemma session_TrialData_conforms:
  assumes "session_completed scs uis" "list_all screen_well_posed scs" "list_all screen_data_ok scs"
  shows "list_all TrialData_conforms (session_TrialData scs uis)"
  using assms unfolding session_completed_def
proof (induction rule: list_all2_induct)
  case Nil
  then show ?case by (simp add: session_TrialData_def)
next
  case (Cons sc scs s uis)
  have split: "session_TrialData (sc # scs) (s # uis) =
      (case scr_data sc of TrialData d \<Rightarrow> map (recorded_TrialData d) (take 1 (finished s)) | _ \<Rightarrow> []) @
      session_TrialData scs uis"
    by (simp add: session_TrialData_def)
  have ih: "list_all TrialData_conforms (session_TrialData scs uis)" using Cons by simp
  show ?case
  proof (cases "scr_data sc")
    case (TrialData d)
    have wp: "screen_well_posed sc" using Cons.prems by simp
    obtain t fb where ne: "finished s \<noteq> []" and "correct t = correct_response d" "task d = ''dccs''"
      and ok: "fd_ok \<lparr>the_trial = t, trial_dimension = data_dimension d, with_feedback = fb,
            num_cards = 2, feedback_div = True\<rparr> (hd (finished s))"
      by (rule screen_done_fd_ok [OF wp Cons.hyps(1) TrialData])
    have "take 1 (finished s) = [hd (finished s)]" using ne by (cases "finished s") simp_all
    moreover have "screen_data_ok sc" using Cons.prems by simp
    ultimately have "TrialData_conforms (recorded_TrialData d (hd (finished s)))"
      using ok TrialData
      by (auto simp: screen_data_ok_def TrialData_conforms_def recorded_TrialData_def fd_ok_def
          split: if_splits)
    with ih TrialData \<open>take 1 (finished s) = [hd (finished s)]\<close> show ?thesis by (simp add: split)
  qed (use ih in \<open>simp_all add: split\<close>)
qed

lemma createTimeline_screens_ok:
  assumes "valid_draws (2 * nat (mixedTrials cfg)) rs" "createTimeline cfg b rs = Inr (scs, b', rs')"
  shows "list_all screen_well_posed scs \<and> list_all screen_data_ok scs"
  using createTimeline_ok [OF assms(1)] assms(2) fixed_screens_well_posed fixed_screens_data_ok
    mixed_part_facts [OF assms(1)] mixed_part_data_ok [OF assms(1)] welcome_results_facts
  by (auto simp: list_all_iff screen_data_ok_def createResults_def)

lemma small_timeline:
  "createTimeline small_config test_browser (sconst (1/2)) =
     Inr (small_screens, resetState test_browser, sdrop (2 * nat (mixedTrials small_config)) (sconst (1/2)))"
proof -
  have v: "valid_draws (2 * nat (mixedTrials small_config)) (sconst (1/2))"
    by (simp add: small_config_def)
  show ?thesis
    unfolding createTimeline_ok [OF v]
    by (simp add: small_config_def small_screens_def fixed_screens_def phase_screens_def dccs_data
        mixed_spec_def spec_trial_def Let_def mixed_dimension_def pick_index_def testStimuli_def
        base_choices_def matches_def attr_def mixed_part_def small_mixed_trial_def)
qed

lemma trial_run_done:
  assumes "case run_events \<lparr>the_trial = t, trial_dimension = dm, with_feedback = fb, num_cards = 2, feedback_div = True\<rparr>
                (setupTrial \<lparr>the_trial = t, trial_dimension = dm, with_feedback = fb, num_cards = 2, feedback_div = True\<rparr>
                   1000 test_browser) evs of None \<Rightarrow> False | Some s \<Rightarrow> finished s \<noteq> []"
  shows "reach \<lparr>the_trial = t, trial_dimension = dm, with_feedback = fb, num_cards = 2, feedback_div = True\<rparr>
           (trial_run t dm fb evs) \<and> finished (trial_run t dm fb evs) \<noteq> []"
  using assms reach_run_events [OF reach.init] unfolding trial_run_def by (auto split: option.splits)

lemma small_session_completed: "session_completed small_screens small_states"
  by (simp add: session_completed_def small_screens_def small_states_def screen_done_def load_ctx_def
      createWelcome_def createPracticeTrial_def createTestTrial_def trial_stimulus_dom js_upper_color
      trial_run_done ui_eval small_mixed_trial_def)

subsection \<open>Every recorded row conforms\<close>

text \<open>C11: type conformance: for every configuration (with the draws the mixed
  phase consumes in \<open>[0, 1)\<close>), every row a completed run of
  \<open>createTimeline\<close>'s screens records is a \<open>TrialData\<close> whose response is
  card 0 or 1, whose \<open>rt\<close> is not negative, whose phase is one of the four
  phases, whose dimension is colour or shape and whose target names a
  catalogue stimulus.\<close>

theorem createTimeline_rows_conform:
  assumes "valid_draws (2 * nat (mixedTrials cfg)) rs" "createTimeline cfg b rs = Inr (scs, b', rs')"
    and "session_completed scs uis"
  shows "list_all TrialData_conforms (session_TrialData scs uis)"
  using createTimeline_screens_ok [OF assms(1,2)] session_TrialData_conforms [OF assms(3)] by simp

lemma createTimeline_rows_conform_witness:
  "valid_draws (2 * nat (mixedTrials small_config)) (sconst (1/2)) \<and>
   createTimeline small_config test_browser (sconst (1/2)) =
     Inr (small_screens, resetState test_browser, sdrop (2 * nat (mixedTrials small_config)) (sconst (1/2))) \<and>
   session_completed small_screens small_states \<and>
   list_all TrialData_conforms (session_TrialData small_screens small_states)"
proof -
  have v: "valid_draws (2 * nat (mixedTrials small_config)) (sconst (1/2))"
    by (simp add: small_config_def)
  show ?thesis
    using v small_timeline small_session_completed
      createTimeline_rows_conform [OF v small_timeline small_session_completed]
    by simp
qed

end
