(* ===== verification/Exports.thy ===== *)
theory Exports
  imports Timeline
begin

text \<open>
  The module's exports for custom timeline building and for the tests
  (\<open>src/src/index.ts\<close>, \<open>timelineComponents\<close> and \<open>utils\<close>): objects whose
  properties are the screen builders and the internal functions.  The
  \<open>jsPsych\<close> argument the builders take is not part of the model's
  signatures (the model of a builder is its result, and of
  \<open>createResults\<close> the descriptor whose stimulus function reads the rows).
\<close>

record timeline_components =
  tc_createWelcome :: screen
  tc_createColorInstructions :: "screen list"
  tc_createPracticeTrial :: "trial \<Rightarrow> int \<Rightarrow> screen"
  tc_createColorTestInstructions :: "screen list"
  tc_createTestTrial :: "trial \<Rightarrow> string \<Rightarrow> string \<Rightarrow> int \<Rightarrow> screen"
  tc_createShapeInstructions :: screen
  tc_createMixedInstructions :: screen
  tc_createResults :: screen

definition timelineComponents :: timeline_components where
  "timelineComponents =
     \<lparr>tc_createWelcome = createWelcome,
      tc_createColorInstructions = createColorInstructions,
      tc_createPracticeTrial = createPracticeTrial,
      tc_createColorTestInstructions = createColorTestInstructions,
      tc_createTestTrial = createTestTrial,
      tc_createShapeInstructions = createShapeInstructions,
      tc_createMixedInstructions = createMixedInstructions,
      tc_createResults = createResults\<rparr>"

record utils_export =
  ut_resetState :: "browser \<Rightarrow> browser"
  ut_playAudio :: "string \<Rightarrow> browser \<Rightarrow> browser"
  ut_createTrialStimulus :: "stimulus \<Rightarrow> stimulus \<Rightarrow> stimulus \<Rightarrow> string \<Rightarrow> html"
  ut_setupTrial :: "trial_ctx \<Rightarrow> ms \<Rightarrow> browser \<Rightarrow> trial_ui"
  ut_generateMixedTrials :: "int \<Rightarrow> random_source \<Rightarrow> js_error + (trial list \<times> random_source)"

definition utils :: utils_export where
  "utils =
     \<lparr>ut_resetState = resetState,
      ut_playAudio = playAudio,
      ut_createTrialStimulus = createTrialStimulus,
      ut_setupTrial = setupTrial,
      ut_generateMixedTrials = generateMixedTrials\<rparr>"

subsection \<open>Lemmas\<close>

text \<open>Reading a property of an export object is calling the function it names.\<close>

lemma timelineComponents_sel [simp]:
  "tc_createWelcome timelineComponents = createWelcome"
  "tc_createColorInstructions timelineComponents = createColorInstructions"
  "tc_createPracticeTrial timelineComponents = createPracticeTrial"
  "tc_createColorTestInstructions timelineComponents = createColorTestInstructions"
  "tc_createTestTrial timelineComponents = createTestTrial"
  "tc_createShapeInstructions timelineComponents = createShapeInstructions"
  "tc_createMixedInstructions timelineComponents = createMixedInstructions"
  "tc_createResults timelineComponents = createResults"
  by (simp_all add: timelineComponents_def)

lemma utils_sel [simp]:
  "ut_resetState utils = resetState"
  "ut_playAudio utils = playAudio"
  "ut_createTrialStimulus utils = createTrialStimulus"
  "ut_setupTrial utils = setupTrial"
  "ut_generateMixedTrials utils = generateMixedTrials"
  by (simp_all add: utils_def)

end
