(* ===== verification/UnitTests.thy ===== *)
theory UnitTests
  imports TrialRecords Exports
begin

text \<open>
  The Jest suite of the module (\<open>src/unnamed/part_002\<close>) run against the
  model.  Each \<open>test(...)\<close> is a boolean definition: its setup translated
  into the model's operations and its \<open>expect\<close> calls into a conjunction,
  so that the definition is true exactly when the test's expectations hold
  of the model.  The suite's mocks are modelled as it sets them up:
  \<open>Math.random\<close> returns 0.5, \<open>performance.now\<close> returns 1000 unless a
  test queues other values, the window mock has \<open>speechSynthesis\<close>
  (\<open>test_browser\<close>), \<open>document.querySelectorAll\<close> returns the cards a test
  provides and \<open>getElementById\<close> the feedback element or \<open>null\<close>.  The
  jsPsych data mock, whose \<open>count()\<close> is always 5 and whose \<open>mean()\<close> is
  always 2500, is the list of rows on which every query of the summary
  gives those values; its \<open>getCurrentTrial()\<close> returns a trial.  The
  mocked \<open>setTimeout\<close> runs its callback inside the call
  (\<open>immediate_timeout\<close>), and \<open>beforeEach\<close> resets the module state
  (\<open>each_browser\<close>).
\<close>

subsection \<open>The mocked environment\<close>

definition mock_draws :: random_source where
  "mock_draws = sconst (1/2)"

definition mock_now :: ms where
  "mock_now = 1000"

definition mock_rows :: "data_row list" where
  "mock_rows = concat (map (\<lambda>ph. replicate 5 (row ph True 2500)) [''color_test'', ''shape_test'', ''mixed''])"

text \<open>\<open>toContain\<close> on a rendered template: the text occurs inside one of
  its lines (every pattern the suite looks for lies within a line).\<close>

fun str_contains :: "string \<Rightarrow> string \<Rightarrow> bool" where
  "str_contains p [] = (p = [])"
| "str_contains p (c # cs) = (take (length p) (c # cs) = p \<or> str_contains p cs)"

definition html_contains :: "html \<Rightarrow> string \<Rightarrow> bool" where
  "html_contains h p = list_ex (str_contains p) h"

definition stimulus_contains :: "screen \<Rightarrow> string \<Rightarrow> bool" where
  "stimulus_contains sc p = (case scr_stimulus sc of StaticHtml h \<Rightarrow> html_contains h p | ResultsFunction \<Rightarrow> False)"

definition timeline_of :: "timeline_config \<Rightarrow> screen list" where
  "timeline_of cfg = (case createTimeline cfg test_browser mock_draws of Inr (scs, _, _) \<Rightarrow> scs | Inl _ \<Rightarrow> [])"

definition timeline_ok :: "timeline_config \<Rightarrow> bool" where
  "timeline_ok cfg = (case createTimeline cfg test_browser mock_draws of Inr _ \<Rightarrow> True | Inl _ \<Rightarrow> False)"

text \<open>The stimuli and trials the tests build inline.\<close>

definition stim :: "string \<Rightarrow> string \<Rightarrow> string \<Rightarrow> string \<Rightarrow> stimulus" where
  "stim i n sh c = \<lparr>img = i, name = n, shape = sh, color = c\<rparr>"

definition ball_trial :: "int \<Rightarrow> trial" where
  "ball_trial c = mk_trial (stim ''test.svg'' ''test'' ''ball'' ''blue'') (stim ''left.svg'' ''left'' ''ball'' ''blue'')
                           (stim ''right.svg'' ''right'' ''truck'' ''orange'') c"

definition mock_ctx :: "nat \<Rightarrow> bool \<Rightarrow> bool \<Rightarrow> trial_ctx" where
  "mock_ctx cards fbdiv fb = \<lparr>the_trial = ball_trial 0, trial_dimension = ''color'', with_feedback = fb,
                               num_cards = cards, feedback_div = fbdiv\<rparr>"

text \<open>\<open>beforeEach\<close>: \<open>jest.clearAllMocks()\<close> (it clears the recorded calls,
  which the model does not keep), \<open>utils.resetState()\<close>, \<open>Math.random\<close>
  back to 0.5 (\<open>mock_draws\<close>) and \<open>performance.now\<close> to 1000
  (\<open>mock_now\<close>).\<close>

definition each_browser :: browser where
  "each_browser = ut_resetState utils test_browser"

text \<open>The suite's \<open>setTimeout\<close>, \<open>jest.fn((fn) => fn())\<close>: the callback runs
  inside the call, at the same mocked time.  Both handlers of \<open>setupTrial\<close>
  arm their timer as their last statement and no callback arms another, so
  running the timers a handler armed, in order, right after it returns is
  the same.  \<open>cur\<close> is whether \<open>jsPsych.getCurrentTrial()\<close> returns a
  trial.\<close>

fun run_timers :: "timer list \<Rightarrow> ms \<Rightarrow> bool \<Rightarrow> trial_ui \<Rightarrow> trial_ui" where
  "run_timers [] now cur s = s"
| "run_timers (tm # tms) now cur s = run_timers tms now cur (fire tm now cur s)"

definition immediate_timeout :: "ms \<Rightarrow> bool \<Rightarrow> trial_ui \<Rightarrow> trial_ui" where
  "immediate_timeout now cur s = run_timers (timers s) now cur (s\<lparr>timers := []\<rparr>)"

text \<open>A test's clicks, \<open>clickHandler.call(card)\<close> at the mocked times, each
  followed by the callbacks it armed.\<close>

fun mock_clicks :: "trial_ctx \<Rightarrow> bool \<Rightarrow> trial_ui \<Rightarrow> (int \<times> ms) list \<Rightarrow> trial_ui option" where
  "mock_clicks ctx cur s [] = Some s"
| "mock_clicks ctx cur s ((ci, t) # cs) =
     (case ui_step ctx s (Click ci t) of
        None \<Rightarrow> None
      | Some s' \<Rightarrow> mock_clicks ctx cur (immediate_timeout t cur s') cs)"

definition mock_trial_run :: "nat \<Rightarrow> bool \<Rightarrow> bool \<Rightarrow> bool \<Rightarrow> (int \<times> ms) list \<Rightarrow> trial_ui option" where
  "mock_trial_run cards fbdiv fb cur cs =
     (let ctx = mock_ctx cards fbdiv fb
      in mock_clicks ctx cur (immediate_timeout mock_now cur (ut_setupTrial utils ctx mock_now each_browser)) cs)"

subsection \<open>Constants and Types, createTimeline\<close>

definition test_default_values :: bool where
  "test_default_values = timeline_ok default_config"

definition test_exports_stimuli :: bool where
  "test_exports_stimuli = (0 < length (timeline_of default_config))"

definition test_default_parameters :: bool where
  "test_default_parameters = (timeline_ok default_config \<and> 0 < length (timeline_of default_config))"

definition test_custom_parameters :: bool where
  "test_custom_parameters =
     timeline_ok \<lparr>practiceTrials = 3, testTrials = 4, mixedTrials = 10, showInstructions = False, showResults = False\<rparr>"

definition test_welcome_first :: bool where
  "test_welcome_first = (timeline_of default_config \<noteq> [] \<and>
     scr_choices (hd (timeline_of default_config)) = Buttons [''Start''])"

definition test_no_instructions :: bool where
  "test_no_instructions =
     (length (filter (\<lambda>sc. case scr_choices sc of
                             Buttons cs \<Rightarrow> ''Next'' \<in> set cs \<or> ''Start Practice'' \<in> set cs
                           | NO_KEYS \<Rightarrow> False)
        (timeline_of (default_config\<lparr>showInstructions := False\<rparr>))) = 0)"

definition test_results_included :: bool where
  "test_results_included =
     (timeline_of (default_config\<lparr>showResults := True\<rparr>) \<noteq> [] \<and>
      scr_choices (last (timeline_of (default_config\<lparr>showResults := True\<rparr>))) = Buttons [''View Data''])"

definition test_results_excluded :: bool where
  "test_results_excluded =
     (scr_choices (last (timeline_of (default_config\<lparr>showResults := False\<rparr>))) \<noteq> Buttons [''View Data''])"

subsection \<open>timelineComponents\<close>

definition test_welcome_component :: bool where
  "test_welcome_component =
     (scr_choices (tc_createWelcome timelineComponents) = Buttons [''Start''] \<and> scr_data (tc_createWelcome timelineComponents) = WelcomeData ''welcome'')"

definition test_welcome_title :: bool where
  "test_welcome_title = stimulus_contains (tc_createWelcome timelineComponents) ''Dimensional Change Card Sort''"

definition test_welcome_audio_toggle :: bool where
  "test_welcome_audio_toggle =
     (stimulus_contains (tc_createWelcome timelineComponents) ''audioToggle'' \<and> stimulus_contains (tc_createWelcome timelineComponents) ''Enable audio instructions'')"

text \<open>The test writes \<open>window.tempAudioEnabled\<close>, a property the code never
  reads or writes (it uses \<open>tempaudio_enabled\<close>): the model keeps it beside
  the browser as \<open>Some True\<close>, and \<open>on_finish\<close> runs on the browser as
  \<open>beforeEach\<close> left it.  Both expectations are checked: the recorded
  \<open>audio_enabled\<close>, and that the property is gone afterwards.\<close>

definition test_welcome_sets_audio :: bool where
  "test_welcome_sets_audio =
     (let tempAudioEnabled = Some True;
          (b', audio) = welcome_on_finish (ut_resetState utils test_browser)
      in audio = True \<and> tempAudioEnabled = None)"

definition test_color_instructions_array :: bool where
  "test_color_instructions_array = (length (tc_createColorInstructions timelineComponents) = 3)"

definition test_color_instructions_text :: bool where
  "test_color_instructions_text =
     (stimulus_contains ((tc_createColorInstructions timelineComponents) ! 0) ''COLOR Game'' \<and>
      stimulus_contains ((tc_createColorInstructions timelineComponents) ! 0) ''same COLOR'')"

definition test_color_instructions_on_load :: bool where
  "test_color_instructions_on_load = list_all (\<lambda>sc. scr_load sc \<noteq> NoLoad) (tc_createColorInstructions timelineComponents)"

definition test_practice_component :: bool where
  "test_practice_component =
     (let t = mk_trial (stim ''test.svg'' ''test'' ''rabbit'' ''brown'') (stim ''left.svg'' ''left'' ''boat'' ''brown'')
                       (stim ''right.svg'' ''right'' ''rabbit'' ''white'') 0;
          sc = tc_createPracticeTrial timelineComponents t 0
      in scr_choices sc = NO_KEYS \<and> (case scr_data sc of TrialData d \<Rightarrow> phase d = ''color_practice'' | _ \<Rightarrow> False))"

definition test_practice_data :: bool where
  "test_practice_data =
     (let t = mk_trial (stim ''test.svg'' ''brown rabbit'' ''rabbit'' ''brown'') (stim ''left.svg'' ''left'' ''boat'' ''brown'')
                       (stim ''right.svg'' ''right'' ''rabbit'' ''white'') 1
      in case scr_data (tc_createPracticeTrial timelineComponents t 2) of
           TrialData d \<Rightarrow> trial_num d = 3 \<and> data_dimension d = ''color'' \<and> correct_response d = 1 \<and>
                          data_target d = ''brown rabbit''
         | _ \<Rightarrow> False)"

definition test_test_component :: bool where
  "test_test_component =
     (let sc = tc_createTestTrial timelineComponents (ball_trial 0) ''color_test'' ''color'' 0
      in scr_choices sc = NO_KEYS \<and> (case scr_data sc of TrialData d \<Rightarrow> phase d = ''color_test'' | _ \<Rightarrow> False))"

definition test_phases_dimensions :: bool where
  "test_phases_dimensions =
     (case scr_data (tc_createTestTrial timelineComponents ((ball_trial 1)\<lparr>dimension := Some ''shape''\<rparr>) ''shape_test'' ''shape'' 3) of
        TrialData d \<Rightarrow> phase d = ''shape_test'' \<and> data_dimension d = ''shape'' \<and> trial_num d = 4
      | _ \<Rightarrow> False)"

definition test_results_component :: bool where
  "test_results_component = (scr_choices (tc_createResults timelineComponents) = Buttons [''View Data''] \<and> scr_stimulus (tc_createResults timelineComponents) = ResultsFunction)"

definition test_results_display :: bool where
  "test_results_display =
     list_all (html_contains (results_stimulus mock_rows))
       [''Great job!'', ''Your Results:'', ''Color Trials'', ''Shape Trials'', ''Mixed Trials'']"

subsection \<open>utils\<close>

definition test_resetState :: bool where
  "test_resetState = True"

definition test_playAudio_disabled :: bool where
  "test_playAudio_disabled = (spoken (ut_playAudio utils ''Test message'' (ut_resetState utils test_browser)) = spoken test_browser)"

definition test_trial_stimulus_html :: bool where
  "test_trial_stimulus_html =
     list_all (html_contains (ut_createTrialStimulus utils (stim ''target.svg'' ''target'' ''ball'' ''blue'')
                (stim ''left.svg'' ''left'' ''ball'' ''blue'') (stim ''right.svg'' ''right'' ''truck'' ''orange'') ''COLOR''))
       [''dccs-trial-container'', ''COLOR'', ''target.svg'', ''left.svg'', ''right.svg'',
        ''data-choice=\"0\"'', ''data-choice=\"1\"'']"

text \<open>A click listener on each of the two cards: a click on either is an
  event of the trial.\<close>

definition test_setupTrial_listeners :: bool where
  "test_setupTrial_listeners =
     (mock_trial_run 2 True False True [(0, mock_now)] \<noteq> None \<and> mock_trial_run 2 True False True [(1, mock_now)] \<noteq> None)"

definition test_correct_feedback :: bool where
  "test_correct_feedback =
     (case mock_trial_run 1 True True True [(0, mock_now)] of
        Some s \<Rightarrow> feedback_text s = ''That'' @ [CHR 0x27] @ ''s right!'' \<and> feedback_class s = ''dccs-feedback correct''
      | None \<Rightarrow> False)"

definition test_incorrect_feedback :: bool where
  "test_incorrect_feedback =
     (case mock_trial_run 2 True True True [(1, mock_now)] of
        Some s \<Rightarrow> feedback_text s = ''This is the same color.'' \<and> feedback_class s = ''dccs-feedback incorrect'' \<and>
                  0 \<in> set (highlighted s)
      | None \<Rightarrow> False)"

definition mixed_of :: "int \<Rightarrow> trial list" where
  "mixed_of n = (case ut_generateMixedTrials utils n mock_draws of Inr (ts, _) \<Rightarrow> ts | Inl _ \<Rightarrow> [])"

definition test_mixed_count :: bool where
  "test_mixed_count = (length (mixed_of 10) = 10 \<and> list_all (\<lambda>t. dimension t \<noteq> None) (mixed_of 10))"

definition test_mixed_alternate :: bool where
  "test_mixed_alternate =
     (map dimension (mixed_of 6) = map Some [''color'', ''shape'', ''color'', ''shape'', ''color'', ''shape''])"

definition test_mixed_correct_dimension :: bool where
  "test_mixed_correct_dimension =
     (dimension (mixed_of 2 ! 0) = Some ''color'' \<and> dimension (mixed_of 2 ! 1) = Some ''shape'')"

definition test_mixed_stimuli :: bool where
  "test_mixed_stimuli =
     list_all (\<lambda>t. list_all (\<lambda>s. name s \<in> set [''blue ball'', ''orange truck'', ''blue truck'', ''orange ball''])
                            [target t, left t, right t]) (mixed_of 20)"

subsection \<open>Card Click Simulation\<close>

definition test_click_without_feedback :: bool where
  "test_click_without_feedback =
     (map_option finished (mock_trial_run 1 False False True [(0, 2000)]) =
        Some [\<lparr>response = 0, fd_correct = True, rt = 1000\<rparr>])"

definition test_multiple_clicks :: bool where
  "test_multiple_clicks =
     (map_option (length \<circ> finished) (mock_trial_run 1 False False True [(0, mock_now), (0, mock_now), (0, mock_now)]) =
        Some 1)"

subsection \<open>Type Exports\<close>

definition test_stimulus_type :: bool where
  "test_stimulus_type =
     (let s = stim ''test.svg'' ''test item'' ''ball'' ''blue''
      in img s = ''test.svg'' \<and> name s = ''test item'' \<and> shape s = ''ball'' \<and> color s = ''blue'')"

definition test_trial_type :: bool where
  "test_trial_type =
     (let t = (mk_trial (stim ''target.svg'' ''target'' ''ball'' ''blue'') (stim ''left.svg'' ''left'' ''ball'' ''blue'')
                        (stim ''right.svg'' ''right'' ''truck'' ''orange'') 0)\<lparr>dimension := Some ''color''\<rparr>
      in correct t = 0 \<and> dimension t = Some ''color'')"

definition test_trialdata_type :: bool where
  "test_trialdata_type =
     (let d = \<lparr>td_response = 1, td_correct = True, td_rt = 2500, td_phase = ''color_test'',
               td_dimension = ''color'', td_target = ''blue ball''\<rparr>
      in td_response d = 1 \<and> td_correct d \<and> td_rt d = 2500 \<and> td_phase d = ''color_test'' \<and>
         td_dimension d = ''color'' \<and> td_target d = ''blue ball'')"

text \<open>TypeScript's check of an object literal against the interface it is
  declared with: every property of the interface must be given with a value
  of its type, and a property the interface does not declare is an error
  (the excess property check).  \<open>literal_errors\<close> lists the offending
  property names; the literal type checks when there are none.\<close>

datatype ts_type = TSBool | TSString | TSNumber

datatype ts_lit = LBool bool | LStr string | LNum int

primrec lit_type :: "ts_lit \<Rightarrow> ts_type" where
  "lit_type (LBool _) = TSBool"
| "lit_type (LStr _) = TSString"
| "lit_type (LNum _) = TSNumber"

definition GameState_interface :: "(string \<times> ts_type) list" where
  "GameState_interface = [(''audio_enabled'', TSBool), (''current_phase'', TSString), (''trials_completed'', TSNumber)]"

definition literal_errors :: "(string \<times> ts_type) list \<Rightarrow> (string \<times> ts_lit) list \<Rightarrow> string list" where
  "literal_errors iface lit =
     [k. (k, v) \<leftarrow> lit, map_of iface k \<noteq> Some (lit_type v)] @ [k. (k, _) \<leftarrow> iface, map_of lit k = None]"

definition gamestate_literal :: "(string \<times> ts_lit) list" where
  "gamestate_literal = [(''audioEnabled'', LBool True), (''currentPhase'', LStr ''practice''), (''trialsCompleted'', LNum 5)]"

text \<open>The test declares \<open>const state: GameState = {...}\<close> and reads the three
  properties back: it passes when the literal type checks and the reads
  give what it wrote.\<close>

definition test_gamestate_type :: bool where
  "test_gamestate_type =
     (literal_errors GameState_interface gamestate_literal = [] \<and>
      map_of gamestate_literal ''audioEnabled'' = Some (LBool True) \<and>
      map_of gamestate_literal ''currentPhase'' = Some (LStr ''practice'') \<and>
      map_of gamestate_literal ''trialsCompleted'' = Some (LNum 5))"

subsection \<open>Edge Cases\<close>

definition test_zero_practice :: bool where
  "test_zero_practice = timeline_ok (default_config\<lparr>practiceTrials := 0\<rparr>)"

definition test_zero_test :: bool where
  "test_zero_test = timeline_ok (default_config\<lparr>testTrials := 0\<rparr>)"

definition test_zero_mixed :: bool where
  "test_zero_mixed = timeline_ok (default_config\<lparr>mixedTrials := 0\<rparr>)"

definition all_zero_config :: timeline_config where
  "all_zero_config = \<lparr>practiceTrials = 0, testTrials = 0, mixedTrials = 0, showInstructions = False, showResults = False\<rparr>"

definition test_all_zero :: bool where
  "test_all_zero = (timeline_ok all_zero_config \<and> 0 < length (timeline_of all_zero_config))"

text \<open>The test swaps in a \<open>setTimeout\<close> that only records its calls: they are
  the timers \<open>setupTrial\<close> arms.\<close>

definition test_timeout_prompt :: bool where
  "test_timeout_prompt =
     (map (\<lambda>tm. timer_due tm - mock_now) (timers (ut_setupTrial utils (mock_ctx 1 False False) mock_now each_browser)) = [5000])"

definition test_current_trial_null :: bool where
  "test_current_trial_null =
     (case mock_trial_run 1 False False False [] of
        Some s \<Rightarrow> errors s = [] | None \<Rightarrow> False)"

subsection \<open>Each test on the model\<close>

lemmas test_eval = stim_def ball_trial_def mk_trial_def mock_ctx_def mock_trial_run_def mock_now_def ui_eval
  immediate_timeout_def each_browser_def

lemma test_welcome_component_holds: "test_welcome_component" by (simp add: test_welcome_component_def createWelcome_def)
lemma test_welcome_title_holds: "test_welcome_title" by (simp add: test_welcome_title_def stimulus_contains_def html_contains_def createWelcome_def)
lemma test_welcome_audio_toggle_holds: "test_welcome_audio_toggle" by (simp add: test_welcome_audio_toggle_def stimulus_contains_def html_contains_def createWelcome_def)
lemma test_welcome_sets_audio_fails: "\<not> test_welcome_sets_audio" by (simp add: test_welcome_sets_audio_def welcome_on_finish_def resetState_def test_browser_def)
lemma test_color_instructions_array_holds: "test_color_instructions_array" by (simp add: test_color_instructions_array_def instruction_facts)
lemma test_color_instructions_text_holds: "test_color_instructions_text" by (simp add: test_color_instructions_text_def stimulus_contains_def html_contains_def createColorInstructions_def)
lemma test_color_instructions_on_load_holds: "test_color_instructions_on_load" by (simp add: test_color_instructions_on_load_def createColorInstructions_def)
lemma test_practice_component_holds: "test_practice_component" by (simp add: test_practice_component_def createPracticeTrial_def)
lemma test_practice_data_holds: "test_practice_data" by (simp add: test_practice_data_def createPracticeTrial_def test_eval)
lemma test_test_component_holds: "test_test_component" by (simp add: test_test_component_def createTestTrial_def)
lemma test_phases_dimensions_holds: "test_phases_dimensions" by (simp add: test_phases_dimensions_def createTestTrial_def)
lemma test_results_component_holds: "test_results_component" by (simp add: test_results_component_def createResults_def)
lemma test_results_display_holds: "test_results_display" by (simp add: test_results_display_def results_stimulus_def html_contains_def result_row_def)
lemma test_resetState_holds: "test_resetState" by (simp add: test_resetState_def)
lemma test_playAudio_disabled_holds: "test_playAudio_disabled" by (simp add: test_playAudio_disabled_def playAudio_spoken resetState_def)
lemma test_trial_stimulus_html_holds: "test_trial_stimulus_html" by (simp add: test_trial_stimulus_html_def html_contains_def createTrialStimulus_def stim_def)
lemma test_setupTrial_listeners_holds: "test_setupTrial_listeners" by (simp add: test_setupTrial_listeners_def test_eval)
lemma test_correct_feedback_holds: "test_correct_feedback" by (simp add: test_correct_feedback_def test_eval)
lemma test_incorrect_feedback_holds: "test_incorrect_feedback" by (simp add: test_incorrect_feedback_def test_eval)
lemma test_click_without_feedback_holds: "test_click_without_feedback" by (simp add: test_click_without_feedback_def test_eval)
lemma test_multiple_clicks_holds: "test_multiple_clicks" by (simp add: test_multiple_clicks_def test_eval)
lemma test_stimulus_type_holds: "test_stimulus_type" by (simp add: test_stimulus_type_def stim_def)
lemma test_trial_type_holds: "test_trial_type" by (simp add: test_trial_type_def)
lemma test_trialdata_type_holds: "test_trialdata_type" by (simp add: test_trialdata_type_def)

text \<open>The literal of the \<open>GameState\<close> test names its properties in camel case:
  all three are excess and all three of the interface are missing.  Its
  reads alone would succeed at run time.\<close>

lemma gamestate_literal_rejected:
  "literal_errors GameState_interface gamestate_literal =
     [''audioEnabled'', ''currentPhase'', ''trialsCompleted'', ''audio_enabled'', ''current_phase'', ''trials_completed'']"
  by (simp add: literal_errors_def GameState_interface_def gamestate_literal_def)

lemma test_gamestate_type_fails: "\<not> test_gamestate_type"
  by (simp add: test_gamestate_type_def gamestate_literal_rejected)
lemma test_timeout_prompt_holds: "test_timeout_prompt" by (simp add: test_timeout_prompt_def test_eval)
lemma test_current_trial_null_holds: "test_current_trial_null" by (simp add: test_current_trial_null_def test_eval)

lemma mock_draws_valid: "valid_draws k mock_draws"
  by (simp add: mock_draws_def)

lemma mixed_of_spec: "mixed_of n = mixed_spec n (sconst (1/2))"
  using gen_loop_start [OF mock_draws_valid] by (simp add: mixed_of_def generateMixedTrials_def mock_draws_def)

lemmas spec_eval = mixed_spec_def spec_trial_def Let_def mixed_dimension_def pick_index_def testStimuli_def
  base_choices_def matches_def attr_def dccs_data

lemma test_mixed_count_holds: "test_mixed_count" by (simp add: test_mixed_count_def mixed_of_spec spec_eval list_all_iff)
lemma test_mixed_alternate_holds: "test_mixed_alternate" by (simp add: test_mixed_alternate_def mixed_of_spec spec_eval upt_rec)
lemma test_mixed_correct_dimension_holds: "test_mixed_correct_dimension" by (simp add: test_mixed_correct_dimension_def mixed_of_spec spec_eval)
lemma test_mixed_stimuli_holds: "test_mixed_stimuli" by (simp add: test_mixed_stimuli_def mixed_of_spec spec_eval list_all_iff)

lemma timeline_of_ok:
  "timeline_of cfg = fixed_screens cfg @ mixed_part (mixed_spec (mixedTrials cfg) mock_draws) @
                     (if showResults cfg then [createResults] else [])"
  "timeline_ok cfg"
  by (simp_all add: timeline_of_def timeline_ok_def createTimeline_ok [OF mock_draws_valid])

lemma test_default_values_holds: "test_default_values" by (simp add: test_default_values_def timeline_of_ok)
lemma test_exports_stimuli_holds: "test_exports_stimuli" by (simp add: test_exports_stimuli_def timeline_of_ok fixed_screens_def)
lemma test_default_parameters_holds: "test_default_parameters" by (simp add: test_default_parameters_def timeline_of_ok fixed_screens_def)
lemma test_custom_parameters_holds: "test_custom_parameters" by (simp add: test_custom_parameters_def timeline_of_ok)
lemma test_welcome_first_holds: "test_welcome_first" by (simp add: test_welcome_first_def timeline_of_ok fixed_screens_def createWelcome_def)
lemma test_results_included_holds: "test_results_included"
  by (simp add: test_results_included_def timeline_of_ok createResults_def fixed_screens_def)
lemma test_zero_practice_holds: "test_zero_practice" by (simp add: test_zero_practice_def timeline_of_ok)
lemma test_zero_test_holds: "test_zero_test" by (simp add: test_zero_test_def timeline_of_ok)
lemma test_zero_mixed_holds: "test_zero_mixed" by (simp add: test_zero_mixed_def timeline_of_ok)
lemma test_all_zero_holds: "test_all_zero" by (simp add: test_all_zero_def timeline_of_ok fixed_screens_def)

lemma trial_screen_choices [simp]:
  "scr_choices (createTestTrial t ph dm i) = NO_KEYS" "scr_choices (createPracticeTrial t i) = NO_KEYS"
  by (simp_all add: createTestTrial_def createPracticeTrial_def)

lemma test_results_excluded_holds: "test_results_excluded"
proof -
  let ?m = "mixed_part (mixed_spec (mixedTrials (default_config\<lparr>showResults := False\<rparr>)) mock_draws)"
  have "?m \<noteq> []" by (simp add: mixed_part_def mixed_spec_def default_config_def DEFAULT_MIXED_TRIALS_def)
  then have "last (timeline_of (default_config\<lparr>showResults := False\<rparr>)) \<in> set ?m"
    by (simp add: timeline_of_ok)
  then show ?thesis by (auto simp: test_results_excluded_def mixed_part_map)
qed

lemma test_no_instructions_holds: "test_no_instructions"
  by (auto simp: test_no_instructions_def timeline_of_ok fixed_screens_def phase_screens_map mixed_part_map
      createWelcome_def createResults_def filter_empty_conv)

subsection \<open>The outcome of the suite\<close>

text \<open>The unit tests run against the model, each as its expectations at run
  time (ts-jest's type check, which rejects the \<open>GameState\<close> literal and
  with it the whole file, is \<open>gamestate_literal_rejected\<close>): every test passes
  except two.  \<open>should set audio state on finish\<close> writes
  \<open>window.tempAudioEnabled\<close> while \<open>on_finish\<close> reads
  \<open>window.tempaudio_enabled\<close>, so \<open>data.audio_enabled\<close> is \<open>false\<close>;
  \<open>should export GameState type\<close> declares a \<open>GameState\<close> literal with
  camel-case properties the interface does not have, which TypeScript
  rejects.\<close>

theorem unit_suite_outcome:
  "test_default_values \<and>
   test_exports_stimuli \<and>
   test_default_parameters \<and>
   test_custom_parameters \<and>
   test_welcome_first \<and>
   test_no_instructions \<and>
   test_results_included \<and>
   test_results_excluded \<and>
   test_welcome_component \<and>
   test_welcome_title \<and>
   test_welcome_audio_toggle \<and>
   \<not> test_welcome_sets_audio \<and>
   test_color_instructions_array \<and>
   test_color_instructions_text \<and>
   test_color_instructions_on_load \<and>
   test_practice_component \<and>
   test_practice_data \<and>
   test_test_component \<and>
   test_phases_dimensions \<and>
   test_results_component \<and>
   test_results_display \<and>
   test_resetState \<and>
   test_playAudio_disabled \<and>
   test_trial_stimulus_html \<and>
   test_setupTrial_listeners \<and>
   test_correct_feedback \<and>
   test_incorrect_feedback \<and>
   test_mixed_count \<and>
   test_mixed_alternate \<and>
   test_mixed_correct_dimension \<and>
   test_mixed_stimuli \<and>
   test_click_without_feedback \<and>
   test_multiple_clicks \<and>
   test_stimulus_type \<and>
   test_trial_type \<and>
   test_trialdata_type \<and>
   \<not> test_gamestate_type \<and>
   test_zero_practice \<and>
   test_zero_test \<and>
   test_zero_mixed \<and>
   test_all_zero \<and>
   test_timeout_prompt \<and>
   test_current_trial_null"
  by (simp only: test_default_values_holds test_exports_stimuli_holds test_default_parameters_holds test_custom_parameters_holds test_welcome_first_holds test_no_instructions_holds test_results_included_holds test_results_excluded_holds test_welcome_component_holds test_welcome_title_holds test_welcome_audio_toggle_holds test_welcome_sets_audio_fails test_color_instructions_array_holds test_color_instructions_text_holds test_color_instructions_on_load_holds test_practice_component_holds test_practice_data_holds test_test_component_holds test_phases_dimensions_holds test_results_component_holds test_results_display_holds test_resetState_holds test_playAudio_disabled_holds test_trial_stimulus_html_holds test_setupTrial_listeners_holds test_correct_feedback_holds test_incorrect_feedback_holds test_mixed_count_holds test_mixed_alternate_holds test_mixed_correct_dimension_holds test_mixed_stimuli_holds test_click_without_feedback_holds test_multiple_clicks_holds test_stimulus_type_holds test_trial_type_holds test_trialdata_type_holds test_gamestate_type_fails test_zero_practice_holds test_zero_test_holds test_zero_mixed_holds test_all_zero_holds test_timeout_prompt_holds test_current_trial_null_holds simp_thms)

subsection \<open>What the mocked timers hide\<close>

lemma show_feedback_Inr_start:
  "show_feedback ctx ok s = Inr s' \<Longrightarrow> start_time s' = start_time s \<and> finished s' = finished s \<and> timers s' = timers s"
  using show_feedback_Inr by (simp add: same_core_def)

lemma immediate_timeout_idle: "timers s = [] \<Longrightarrow> immediate_timeout now cur s = s"
  by (cases s) (simp add: immediate_timeout_def)

text \<open>Under the suite's \<open>setTimeout\<close> the 5 s reminder of a test trial runs
  inside \<open>setupTrial\<close>, right after the cue, before any click.\<close>

lemma mock_prompt_at_setup:
  "\<not> with_feedback ctx \<Longrightarrow>
     immediate_timeout now True (setupTrial ctx now b) =
       (setupTrial ctx now b)\<lparr>timers := [],
          env := playAudio ''Choose one of the pictures.'' (playAudio (js_upper (trial_dimension ctx)) b)\<rparr>"
  by (simp add: immediate_timeout_def setupTrial_def)

text \<open>C34: under the suite's \<open>setTimeout\<close>, which runs the callback at once, a
  click on the feedback path reports \<open>rt\<close> as the time from the start to the
  click: the 1500 or 2500 ms feedback delay that the browser adds to it
  (\<open>feedback_rt_includes_delay\<close>) never shows in a test.\<close>

theorem mock_timeout_hides_delay:
  assumes "with_feedback ctx" "finish_reachable ctx" "0 \<le> ci" "ci < int (num_cards ctx)" "now \<le> t"
  shows "map_option finished (mock_clicks ctx cur (immediate_timeout now cur (setupTrial ctx now b)) [(ci, t)]) =
           Some [\<lparr>response = ci, fd_correct = (ci = correct (the_trial ctx)), rt = t - now\<rparr>]"
proof -
  let ?ok = "ci = correct (the_trial ctx)"
  let ?st = "setupTrial ctx now b"
  let ?sr = "?st\<lparr>clock := t, responded := True\<rparr>"
  have s0: "timers ?st = []" "\<not> responded ?st" "clock ?st = now" "start_time ?st = now" "finished ?st = []"
    using assms(1) by (simp_all add: setupTrial_def)
  obtain s2 where s2: "(if feedback_div ctx then show_feedback ctx ?ok ?sr else Inr ?sr) = Inr s2"
    using assms(2) show_feedback_card_Inr [of ctx ?ok ?sr]
    by (cases "feedback_div ctx"; cases ?ok) (auto simp: finish_reachable_def assms(1) show_feedback_def)
  then have f: "start_time s2 = now \<and> finished s2 = [] \<and> timers s2 = []"
    using show_feedback_Inr_start [of ctx ?ok ?sr s2] s0 by (auto split: if_splits)
  have "click ctx ci t (?st\<lparr>clock := t\<rparr>) =
          Inr (s2\<lparr>timers := timers s2 @ [FinishTimer (t + (if ?ok then 1500 else 2500)) ci ?ok]\<rparr>)"
    using click_feedback [of "?st\<lparr>clock := t\<rparr>" ctx ci t] s0(2) assms(1) s2 by simp
  then show ?thesis
    unfolding immediate_timeout_idle [OF s0(1)]
    using assms(3-5) s0 f by (simp add: immediate_timeout_def finish_now_def)
qed

theorem mock_timeout_hides_delay_witness:
  "map_option finished
     (mock_clicks (mock_ctx 2 True True) True
        (immediate_timeout 1000 True (setupTrial (mock_ctx 2 True True) 1000 each_browser)) [(1, 1000)]) =
   Some [\<lparr>response = 1, fd_correct = False, rt = 0\<rparr>]"
  using mock_timeout_hides_delay [of "mock_ctx 2 True True" 1 1000 1000 True each_browser]
  by (simp add: mock_ctx_def ball_trial_def mk_trial_def finish_reachable_def card_exists_def)

end
