(* ===== verification/EventLoop.thy ===== *)
theory EventLoop
  imports Response "HOL-Library.Stream"
begin

text \<open>
  The browser's event loop while a trial of \<open>setupTrial\<close> waits for its
  response, as jsPsych runs it: the trial stays on screen until
  \<open>jsPsych.finishTrial\<close> has been called.  The participant's behaviour is an
  infinite stream of clicks, each the index of the card clicked (an index
  that names no card stands for a click elsewhere on the page, which no
  listener handles) with its time.  Before the next click is delivered the
  loop runs every \<open>setTimeout\<close> callback due by then, the earliest first
  (ties in the order they were scheduled), with
  \<open>jsPsych.getCurrentTrial()\<close> returning the running trial.  The loop is a
  \<open>partial_function (option)\<close>: \<open>None\<close> is a trial that never ends.
\<close>

type_synonym clicks = "(int \<times> ms) stream"

text \<open>The earliest pending timer, as its index in scheduling order and its due time.\<close>

fun earliest :: "nat \<Rightarrow> timer list \<Rightarrow> (nat \<times> ms) option" where
  "earliest i [] = None"
| "earliest i (tm # tms) =
     (case earliest (Suc i) tms of
        Some (j, d) \<Rightarrow> if d < timer_due tm then Some (j, d) else Some (i, timer_due tm)
      | None \<Rightarrow> Some (i, timer_due tm))"

definition due_timer :: "timer list \<Rightarrow> ms \<Rightarrow> nat option" where
  "due_timer tms t = (case earliest 0 tms of Some (k, d) \<Rightarrow> if d \<le> t then Some k else None | None \<Rightarrow> None)"

text \<open>A click at time \<open>t\<close>: the listener of the card it lands on runs, a click
  beside the cards changes nothing.\<close>

definition deliver_click :: "trial_ctx \<Rightarrow> trial_ui \<Rightarrow> int \<Rightarrow> ms \<Rightarrow> trial_ui option" where
  "deliver_click ctx s ci t =
     (if 0 \<le> ci \<and> ci < int (num_cards ctx) then ui_step ctx s (Click ci (max (clock s) t)) else Some s)"

definition host_step :: "trial_ctx \<Rightarrow> trial_ui \<Rightarrow> clicks \<Rightarrow> (trial_ui \<times> clicks) option" where
  "host_step ctx s cs =
     (case due_timer (timers s) (snd (shd cs)) of
        Some k \<Rightarrow> map_option (\<lambda>s'. (s', cs))
                    (ui_step ctx s (Fire k (max (clock s) (timer_due (timers s ! k))) True))
      | None \<Rightarrow> map_option (\<lambda>s'. (s', stl cs)) (deliver_click ctx s (fst (shd cs)) (snd (shd cs))))"

partial_function (option) await_trial :: "trial_ctx \<Rightarrow> trial_ui \<Rightarrow> clicks \<Rightarrow> (trial_ui \<times> clicks) option" where
  "await_trial ctx s cs =
     (if finished s \<noteq> [] then Some (s, cs)
      else case host_step ctx s cs of
             None \<Rightarrow> None
           | Some (s', cs') \<Rightarrow> await_trial ctx s' cs')"

text \<open>A participant who clicks the left card every second from 2000 ms on.\<close>

definition steady_clicks :: clicks where
  "steady_clicks = siterate (\<lambda>(ci, t). (ci, t + 1000)) (0, 2000)"

subsection \<open>Lemmas\<close>

lemma earliest_None [simp]: "earliest i tms = None \<longleftrightarrow> tms = []"
  by (cases tms) (auto split: option.splits prod.splits)

lemma earliest_Some:
  "earliest i tms = Some (k, d) \<Longrightarrow>
     i \<le> k \<and> k - i < length tms \<and> d = timer_due (tms ! (k - i)) \<and> (\<forall>tm \<in> set tms. d \<le> timer_due tm)"
proof (induction tms arbitrary: i k d)
  case Nil
  then show ?case by simp
next
  case (Cons tm tms)
  show ?case
  proof (cases "earliest (Suc i) tms")
    case None
    with Cons.prems show ?thesis by simp
  next
    case (Some a)
    obtain j e where a: "a = (j, e)" by (cases a)
    have ih: "Suc i \<le> j" "j - Suc i < length tms" "e = timer_due (tms ! (j - Suc i))"
      "\<forall>tm \<in> set tms. e \<le> timer_due tm"
      using Cons.IH [of "Suc i" j e] Some a by auto
    show ?thesis
    proof (cases "e < timer_due tm")
      case True
      with Cons.prems Some a have "k = j" "d = e" by auto
      moreover have "j - i = Suc (j - Suc i)" using ih(1) by arith
      ultimately show ?thesis using ih True by auto
    next
      case False
      with Cons.prems Some a have "k = i" "d = timer_due tm" by auto
      then show ?thesis using ih False by auto
    qed
  qed
qed

lemma due_timer_Some: "due_timer tms t = Some k \<Longrightarrow> k < length tms \<and> timer_due (tms ! k) \<le> t"
  using earliest_Some [of 0 tms]
  by (auto simp: due_timer_def split: option.splits prod.splits if_splits)

lemma due_timer_None: "due_timer tms t = None \<Longrightarrow> tm \<in> set tms \<Longrightarrow> t < timer_due tm"
  using earliest_Some [of 0 tms]
  by (fastforce simp: due_timer_def split: option.splits prod.splits if_splits)

lemma in_set_remove_nth: "x \<in> set xs \<Longrightarrow> x \<noteq> xs ! k \<Longrightarrow> x \<in> set (remove_nth k xs)"
proof -
  assume x: "x \<in> set xs" and nk: "x \<noteq> xs ! k"
  obtain j where j: "j < length xs" "xs ! j = x" using x by (auto simp: in_set_conv_nth)
  with nk have "j \<noteq> k" by auto
  then consider "j < k" | "k < j" by arith
  then show ?thesis
  proof cases
    case 1
    then have "x \<in> set (take k xs)" using j by (auto simp: in_set_conv_nth intro: exI [of _ j])
    then show ?thesis by (simp add: remove_nth_def)
  next
    case 2
    then have "x \<in> set (drop (Suc k) xs)"
      using j by (auto simp: in_set_conv_nth intro!: exI [of _ "j - Suc k"])
    then show ?thesis by (simp add: remove_nth_def)
  qed
qed

lemma length_remove_nth: "k < length xs \<Longrightarrow> length (remove_nth k xs) < length xs"
  by (simp add: remove_nth_def)

lemma fire_timers [simp]: "timers (fire tm now cur s) = timers s"
  by (cases tm) (simp_all add: finish_now_def)

lemma click_Inl_responded: "click ctx ci now s = Inl (e, s') \<Longrightarrow> responded s'"
  by (auto simp: click_def show_feedback_def Let_def split: if_splits sum.splits)

lemma ui_step_click_responded: "ui_step ctx s (Click ci now) = Some s' \<Longrightarrow> responded s'"
  by (auto split: if_splits sum.splits dest: click_Inl_responded click_sets_responded)

lemma host_step_timer:
  assumes "due_timer (timers s) (snd (shd cs)) = Some k"
  shows "host_step ctx s cs =
           Some (fire (timers s ! k) (max (clock s) (timer_due (timers s ! k))) True
                   (s\<lparr>clock := max (clock s) (timer_due (timers s ! k)), timers := remove_nth k (timers s)\<rparr>), cs)"
  using due_timer_Some [OF assms] by (simp add: host_step_def assms)

lemma host_step_click:
  assumes "due_timer (timers s) (snd (shd cs)) = None"
  obtains s' where "host_step ctx s cs = Some (s', stl cs)"
    and "deliver_click ctx s (fst (shd cs)) (snd (shd cs)) = Some s'"
proof -
  obtain s' where d: "deliver_click ctx s (fst (shd cs)) (snd (shd cs)) = Some s'"
    by (fastforce simp: deliver_click_def)
  then have "host_step ctx s cs = Some (s', stl cs)" using assms by (simp add: host_step_def)
  then show ?thesis using d by (rule that)
qed

lemma deliver_click_run: "deliver_click ctx s ci t = Some s' \<Longrightarrow> \<exists>evs. run_events ctx s evs = Some s'"
  by (auto simp: deliver_click_def split: if_splits intro: exI [of _ "[Click ci (max (clock s) t)]"] exI [of _ "[]"])

lemma host_step_run: "host_step ctx s cs = Some (s', cs') \<Longrightarrow> \<exists>evs. run_events ctx s evs = Some s'"
  unfolding host_step_def
  by (auto split: option.splits dest: deliver_click_run
      intro: exI [of _ "[Fire (the (due_timer (timers s) (snd (shd cs))))
                        (max (clock s) (timer_due (timers s ! the (due_timer (timers s) (snd (shd cs)))))) True]"])

lemma run_events_append:
  "run_events ctx s (xs @ ys) = Option.bind (run_events ctx s xs) (\<lambda>t. run_events ctx t ys)"
  by (induction xs arbitrary: s) (auto split: option.splits)

lemma await_finished: "finished s \<noteq> [] \<Longrightarrow> await_trial ctx s cs = Some (s, cs)"
  by (simp add: await_trial.simps)

lemma await_step:
  "finished s = [] \<Longrightarrow> host_step ctx s cs = Some (s', cs') \<Longrightarrow> await_trial ctx s cs = await_trial ctx s' cs'"
  by (subst await_trial.simps) simp

lemma await_trial_run_events:
  assumes "await_trial ctx s cs = Some r"
  shows "finished (fst r) \<noteq> [] \<and> (\<exists>evs. run_events ctx s evs = Some (fst r))"
proof (rule await_trial.raw_induct
    [where P = "\<lambda>ctx s cs r. finished (fst r) \<noteq> [] \<and> (\<exists>evs. run_events ctx s evs = Some (fst r))", OF _ assms])
  fix f ctx s cs r
  assume IH: "\<And>ctx s cs r. f ctx s cs = Some r \<Longrightarrow>
                finished (fst r) \<noteq> [] \<and> (\<exists>evs. run_events ctx s evs = Some (fst r))"
    and eq: "(if finished s \<noteq> [] then Some (s, cs)
              else case host_step ctx s cs of None \<Rightarrow> None | Some (s', cs') \<Rightarrow> f ctx s' cs') = Some r"
  show "finished (fst r) \<noteq> [] \<and> (\<exists>evs. run_events ctx s evs = Some (fst r))"
  proof (cases "finished s = []")
    case False
    with eq show ?thesis by (auto intro: exI [of _ "[]"])
  next
    case True
    with eq obtain s' cs' where h: "host_step ctx s cs = Some (s', cs')" and r: "f ctx s' cs' = Some r"
      by (auto split: option.splits)
    obtain evs where e1: "run_events ctx s evs = Some s'" using host_step_run [OF h] by blast
    obtain evs' where "finished (fst r) \<noteq> []" "run_events ctx s' evs' = Some (fst r)" using IH [OF r] by blast
    then show ?thesis using e1 by (auto simp: run_events_append intro!: exI [of _ "evs @ evs'"])
  qed
qed

lemma stl_unbounded:
  "\<forall>T. \<exists>m. T \<le> snd ((cs :: clicks) !! m) \<Longrightarrow> \<forall>T. \<exists>m. T \<le> snd (stl cs !! m)"
proof
  fix T
  assume u: "\<forall>T. \<exists>m. T \<le> snd (cs !! m)"
  obtain m where m: "max T (snd (shd cs) + 1) \<le> snd (cs !! m)" using u by blast
  then obtain m' where "m = Suc m'" by (cases m) auto
  with m show "\<exists>m. T \<le> snd (stl cs !! m)" by auto
qed

lemma deliver_click_responded:
  assumes "deliver_click ctx s ci t = Some s'" "responded s"
  shows "responded s' \<and> timers s' = timers s \<and> finished s' = finished s"
  using assms by (auto simp: deliver_click_def click_responded split: if_splits)

text \<open>Once the latch is set and a finish callback is pending, the loop ends
  as soon as the clock passes the callback's due time.\<close>

lemma await_pending:
  assumes "responded s" "FinishTimer d ci ok \<in> set (timers s)" "d \<le> snd (cs !! m)"
  shows "\<exists>s' cs'. await_trial ctx s cs = Some (s', cs') \<and> finished s' \<noteq> []"
  using wf_lex_prod [OF wf_less_than wf_less_than] assms
proof (induction "(m, length (timers s))" arbitrary: m s cs rule: wf_induct_rule)
  case less
  show ?case
  proof (cases "finished s = []")
    case False
    then show ?thesis by (auto simp: await_finished)
  next
    case fin: True
    show ?thesis
    proof (cases "due_timer (timers s) (snd (shd cs))")
      case (Some k)
      let ?now = "max (clock s) (timer_due (timers s ! k))"
      let ?s' = "fire (timers s ! k) ?now True (s\<lparr>clock := ?now, timers := remove_nth k (timers s)\<rparr>)"
      have k: "k < length (timers s)" using due_timer_Some [OF Some] by simp
      have a: "await_trial ctx s cs = await_trial ctx ?s' cs"
        by (rule await_step [OF fin host_step_timer [OF Some]])
      show ?thesis
      proof (cases "timers s ! k = FinishTimer d ci ok")
        case True
        then have "finished ?s' \<noteq> []" by (simp add: finish_now_def)
        then show ?thesis using a by (simp add: await_finished)
      next
        case False
        have "FinishTimer d ci ok \<in> set (timers ?s')"
          using in_set_remove_nth [OF less.prems(2)] False by simp
        moreover have "responded ?s'" using less.prems(1) by (simp add: fire_responded)
        moreover have "((m, length (timers ?s')), (m, length (timers s))) \<in> less_than <*lex*> less_than"
          using length_remove_nth [OF k] by simp
        ultimately show ?thesis using less.hyps less.prems(3) a by metis
      qed
    next
      case None
      have "snd (shd cs) < d" using due_timer_None [OF None less.prems(2)] by (simp add: timer_due_def)
      then obtain m' where m: "m = Suc m'" using less.prems(3) by (cases m) auto
      obtain s' where h: "host_step ctx s cs = Some (s', stl cs)"
        and dc: "deliver_click ctx s (fst (shd cs)) (snd (shd cs)) = Some s'"
        using host_step_click [OF None] by blast
      have s': "responded s'" "timers s' = timers s"
        using deliver_click_responded [OF dc less.prems(1)] by simp_all
      have "((m', length (timers s')), (m, length (timers s))) \<in> less_than <*lex*> less_than"
        using m by simp
      moreover have "d \<le> snd (stl cs !! m')" using less.prems(3) m by simp
      ultimately show ?thesis
        using less.hyps s' less.prems(2) await_step [OF fin h] by metis
    qed
  qed
qed

lemma host_step_reach: "reach ctx s \<Longrightarrow> host_step ctx s cs = Some (s', cs') \<Longrightarrow> reach ctx s'"
  using host_step_run reach_run_events by blast

lemma await_responded:
  assumes "reach ctx s" "finish_reachable ctx" "responded s" "\<forall>T. \<exists>m. T \<le> snd (cs !! m)"
  shows "\<exists>s' cs'. await_trial ctx s cs = Some (s', cs') \<and> finished s' \<noteq> []"
proof (cases "finished s = []")
  case True
  obtain tm where tm: "tm \<in> set (timers s)" "is_finish tm"
    using reach_progress [OF assms(1,2)] assms(3) True by (auto simp: progress_ok_def list_ex_iff)
  obtain d ci ok where "tm = FinishTimer d ci ok"
    using tm(2) by (cases tm) (simp_all add: is_finish_def)
  with tm(1) have f: "FinishTimer d ci ok \<in> set (timers s)" by simp
  obtain m where "d \<le> snd (cs !! m)" using assms(4) by blast
  with assms(3) f show ?thesis by (rule await_pending)
qed (auto simp: await_finished)

text \<open>Before the response: timers due before the next click run first, then
  the click is delivered; the first click on a card sets the latch.\<close>

lemma await_click:
  assumes "reach ctx s" "finish_reachable ctx"
    and "0 \<le> fst (cs !! n)" "fst (cs !! n) < int (num_cards ctx)"
    and "\<forall>T. \<exists>m. T \<le> snd (cs !! m)"
  shows "\<exists>s' cs'. await_trial ctx s cs = Some (s', cs') \<and> finished s' \<noteq> []"
  using wf_lex_prod [OF wf_less_than wf_less_than] assms
proof (induction "(n, length (timers s))" arbitrary: n s cs rule: wf_induct_rule)
  case less
  consider "finished s \<noteq> []" | "finished s = []" "responded s" | "finished s = []" "\<not> responded s"
    by blast
  then show ?case
  proof cases
    case 1
    then show ?thesis by (auto simp: await_finished)
  next
    case 2
    then show ?thesis using await_responded less.prems(1,2,5) by blast
  next
    case 3
    show ?thesis
    proof (cases "due_timer (timers s) (snd (shd cs))")
      case (Some k)
      let ?now = "max (clock s) (timer_due (timers s ! k))"
      let ?s' = "fire (timers s ! k) ?now True (s\<lparr>clock := ?now, timers := remove_nth k (timers s)\<rparr>)"
      have h: "host_step ctx s cs = Some (?s', cs)" by (rule host_step_timer [OF Some])
      have "reach ctx ?s'" by (rule host_step_reach [OF less.prems(1) h])
      moreover have "((n, length (timers ?s')), (n, length (timers s))) \<in> less_than <*lex*> less_than"
        using length_remove_nth [of k "timers s"] due_timer_Some [OF Some] by simp
      ultimately show ?thesis using less.hyps less.prems(2-5) await_step [OF 3(1) h] by metis
    next
      case None
      obtain s' where h: "host_step ctx s cs = Some (s', stl cs)"
        and dc: "deliver_click ctx s (fst (shd cs)) (snd (shd cs)) = Some s'"
        using host_step_click [OF None] by blast
      have r: "reach ctx s'" by (rule host_step_reach [OF less.prems(1) h])
      have u: "\<forall>T. \<exists>m. T \<le> snd (stl cs !! m)" by (rule stl_unbounded [OF less.prems(5)])
      show ?thesis
      proof (cases n)
        case 0
        then have "ui_step ctx s (Click (fst (shd cs)) (max (clock s) (snd (shd cs)))) = Some s'"
          using dc less.prems(3,4) by (simp add: deliver_click_def del: ui_step.simps)
        then have "responded s'" by (rule ui_step_click_responded)
        then show ?thesis using await_responded [OF r less.prems(2) _ u] await_step [OF 3(1) h] by simp
      next
        case (Suc n')
        have "((n', length (timers s')), (n, length (timers s))) \<in> less_than <*lex*> less_than"
          using Suc by simp
        then show ?thesis
          using less.hyps r less.prems(2-4) u Suc await_step [OF 3(1) h] by (metis snth.simps(2))
      qed
    qed
  qed
qed

lemma steady_clicks_nth: "steady_clicks !! m = (0, 2000 + 1000 * of_nat m)"
proof -
  have "((\<lambda>(ci, t). (ci, t + 1000)) ^^ m) (0 :: int, 2000 :: ms) = (0, 2000 + 1000 * of_nat m)"
    by (induction m) (simp_all add: algebra_simps)
  then show ?thesis by (simp add: steady_clicks_def snth_siterate)
qed

lemma steady_clicks_unbounded: "\<forall>T. \<exists>m. T \<le> snd (steady_clicks !! m)"
proof
  fix T :: ms
  have "T \<le> of_int \<lceil>T\<rceil>" by (rule le_of_int_ceiling)
  also have "\<dots> \<le> of_nat (nat \<lceil>T\<rceil>)" by simp
  also have "\<dots> \<le> 2000 + 1000 * (of_nat (nat \<lceil>T\<rceil>) :: ms)" by simp
  finally show "\<exists>m. T \<le> snd (steady_clicks !! m)" by (auto simp: steady_clicks_nth)
qed

subsection \<open>Termination of the wait\<close>

text \<open>C10: termination of the wait for a response: from any state reachable
  from \<open>setupTrial\<close> in which the trial can end, if the participant clicks a
  card at some point and time does not stand still, the browser's event loop
  ends the trial: it returns a reachable state in which \<open>jsPsych.finishTrial\<close>
  has been called.\<close>

theorem await_trial_terminates:
  assumes "reach ctx s" "finish_reachable ctx"
    and "0 \<le> fst (cs !! n)" "fst (cs !! n) < int (num_cards ctx)"
    and "\<forall>T. \<exists>m. T \<le> snd (cs !! m)"
  shows "\<exists>s' cs'. await_trial ctx s cs = Some (s', cs') \<and> reach ctx s' \<and> finished s' \<noteq> []"
proof -
  obtain s' cs' where a: "await_trial ctx s cs = Some (s', cs')" "finished s' \<noteq> []"
    using await_click [OF assms] by blast
  obtain evs where "run_events ctx s evs = Some s'" using await_trial_run_events [OF a(1)] by auto
  then have "reach ctx s'" by (rule reach_run_events [OF assms(1)])
  with a show ?thesis by blast
qed

lemma await_trial_terminates_witness:
  "reach (test_ctx True 2) (setupTrial (test_ctx True 2) 1000 test_browser) \<and>
   finish_reachable (test_ctx True 2) \<and>
   0 \<le> fst (steady_clicks !! 0) \<and> fst (steady_clicks !! 0) < int (num_cards (test_ctx True 2)) \<and>
   (\<forall>T. \<exists>m. T \<le> snd (steady_clicks !! m)) \<and>
   (\<exists>s' cs'. await_trial (test_ctx True 2) (setupTrial (test_ctx True 2) 1000 test_browser) steady_clicks =
               Some (s', cs') \<and> reach (test_ctx True 2) s' \<and> finished s' \<noteq> [])"
proof -
  have h1: "reach (test_ctx True 2) (setupTrial (test_ctx True 2) 1000 test_browser)" by (rule reach.init)
  have h2: "finish_reachable (test_ctx True 2)"
    by (simp add: finish_reachable_def card_exists_def test_ctx_def test_trial_def mk_trial_def)
  have h3: "0 \<le> fst (steady_clicks !! 0)" "fst (steady_clicks !! 0) < int (num_cards (test_ctx True 2))"
    using steady_clicks_nth [of 0] by (simp_all add: test_ctx_def)
  show ?thesis
    using h1 h2 h3 steady_clicks_unbounded await_trial_terminates [OF h1 h2 h3 steady_clicks_unbounded] by blast
qed

text \<open>C17: the hang: when the trial cannot end (the feedback path with a
  \<open>#feedback\<close> element and a \<open>trial.correct\<close> that names no card), the wait
  never ends, whatever the participant does.\<close>

theorem await_trial_hangs:
  assumes "reach ctx s" "\<not> finish_reachable ctx"
  shows "await_trial ctx s cs = None"
proof (rule ccontr)
  assume "await_trial ctx s cs \<noteq> None"
  then obtain r where r: "await_trial ctx s cs = Some r" by blast
  obtain evs where f: "finished (fst r) \<noteq> []" and e: "run_events ctx s evs = Some (fst r)"
    using await_trial_run_events [OF r] by blast
  have "reach ctx (fst r)" by (rule reach_run_events [OF assms(1) e])
  with f assms(2) show False by (simp add: reach_unfinished)
qed

lemma await_trial_hangs_witness:
  "reach ((test_ctx True 2)\<lparr>the_trial := test_trial\<lparr>correct := 2\<rparr>\<rparr>)
     (setupTrial ((test_ctx True 2)\<lparr>the_trial := test_trial\<lparr>correct := 2\<rparr>\<rparr>) 1000 test_browser) \<and>
   \<not> finish_reachable ((test_ctx True 2)\<lparr>the_trial := test_trial\<lparr>correct := 2\<rparr>\<rparr>) \<and>
   await_trial ((test_ctx True 2)\<lparr>the_trial := test_trial\<lparr>correct := 2\<rparr>\<rparr>)
     (setupTrial ((test_ctx True 2)\<lparr>the_trial := test_trial\<lparr>correct := 2\<rparr>\<rparr>) 1000 test_browser) steady_clicks = None"
proof -
  let ?ctx = "(test_ctx True 2)\<lparr>the_trial := test_trial\<lparr>correct := 2\<rparr>\<rparr>"
  have h1: "reach ?ctx (setupTrial ?ctx 1000 test_browser)" by (rule reach.init)
  have h2: "\<not> finish_reachable ?ctx" by (simp add: finish_reachable_def card_exists_def test_ctx_def)
  show ?thesis using h1 h2 await_trial_hangs [OF h1 h2] by blast
qed

text \<open>The feedback path through the loop: the steady participant's first
  click, 1000 ms after the trial starts, is correct; the click at 3000 ms
  finds the latch set; the finish callback, due at 3500 ms, runs before the
  click at 4000 ms and records \<open>rt = 2500\<close>, the 1500 ms feedback delay
  included.\<close>

lemma await_trial_feedback_example:
  "map_option (finished \<circ> fst)
     (await_trial (test_ctx True 2) (setupTrial (test_ctx True 2) 1000 test_browser) steady_clicks) =
   Some [\<lparr>response = 0, fd_correct = True, rt = 2500\<rparr>]"
proof -
  let ?ctx = "test_ctx True 2"
  let ?f = "\<lambda>(ci :: int, t :: ms). (ci, t + 1000)"
  define s0 where "s0 = setupTrial ?ctx 1000 test_browser"
  have c: "steady_clicks = (0, 2000) ## (0, 3000) ## siterate ?f (0, 4000)"
    unfolding steady_clicks_def by (subst siterate.code, subst siterate.code) simp
  define s1 where "s1 = the (ui_step ?ctx s0 (Click 0 2000))"
  define s2 where "s2 = s1\<lparr>clock := 3000\<rparr>"
  define s3 where "s3 = fire (FinishTimer 3500 0 True) 3500 True (s2\<lparr>clock := 3500, timers := []\<rparr>)"
  have e1: "host_step ?ctx s0 steady_clicks = Some (s1, (0, 3000) ## siterate ?f (0, 4000))"
    unfolding c s0_def s1_def
    by (simp add: host_step_def due_timer_def deliver_click_def ui_eval)
  have e2: "host_step ?ctx s1 ((0, 3000) ## siterate ?f (0, 4000)) = Some (s2, siterate ?f (0, 4000))"
    unfolding s0_def s1_def s2_def
    by (simp add: host_step_def due_timer_def deliver_click_def ui_eval)
  have e3: "host_step ?ctx s2 (siterate ?f (0, 4000)) = Some (s3, siterate ?f (0, 4000))"
    unfolding s0_def s1_def s2_def s3_def
    by (simp add: host_step_def due_timer_def ui_eval)
  have f: "finished s0 = []" "finished s1 = []" "finished s2 = []"
    "finished s3 = [\<lparr>response = 0, fd_correct = True, rt = 2500\<rparr>]"
    unfolding s0_def s1_def s2_def s3_def by (simp_all add: ui_eval)
  show ?thesis
    using await_step [OF f(1) e1] await_step [OF f(2) e2] await_step [OF f(3) e3] await_finished [of s3] f(4)
    by (simp add: s0_def)
qed

end
