(* ===== verification/JestSetup.thy ===== *)
theory JestSetup
  imports GameState "HOL-Library.Monad_Syntax"
begin

text \<open>
  The Jest setup scripts (\<open>src/unnamed/part_001\<close>, and \<open>src/unnamed/part_000\<close>,
  which also wraps the \<open>Date\<close> constructor) run against a small model of the
  JavaScript object store they mutate: objects with own properties, a
  prototype link and, for functions, the code they run; a property read
  follows the prototype chain (with the number of allocated objects as
  fuel, enough for the acyclic chains \<open>Object.setPrototypeOf\<close> admits);
  \<open>global\<close> is the object at address 0.  A statement is a store
  transformer returning \<open>None\<close> where the script throws a \<open>TypeError\<close>.
  The shim's \<open>toUTCString\<close> is \<open>this.toISOString().replace(/\.\d{3}Z$/, 'Z')\<close>:
  the regular expression replace is modelled by a scan for the leftmost
  match of the end-anchored pattern.
\<close>

type_synonym addr = nat

text \<open>The code of a function object.\<close>

datatype jsfun = NativeDate | NativeFn string | UtteranceShim | ToUTCStringShim | SafeDateFn

datatype jsval = JUndef | JNum rat | JStr string | JRef addr

record jsobj =
  own :: "string \<rightharpoonup> jsval"
  proto :: "addr option"
  code :: "jsfun option"

text \<open>The store, with the script's top-level \<open>const\<close> bindings.\<close>

record store =
  heap :: "addr \<rightharpoonup> jsobj"
  next_addr :: addr
  lexical :: "string \<rightharpoonup> jsval"

definition global_addr :: addr where
  "global_addr = 0"

fun truthy :: "jsval \<Rightarrow> bool" where
  "truthy JUndef = False"
| "truthy (JNum n) = (n \<noteq> 0)"
| "truthy (JStr s) = (s \<noteq> [])"
| "truthy (JRef a) = True"

subsection \<open>Property access\<close>

fun get_fuel :: "nat \<Rightarrow> (addr \<rightharpoonup> jsobj) \<Rightarrow> addr \<Rightarrow> string \<Rightarrow> jsval option" where
  "get_fuel 0 h a k = None"
| "get_fuel (Suc n) h a k =
     (case h a of
        None \<Rightarrow> None
      | Some ob \<Rightarrow>
          (case own ob k of
             Some v \<Rightarrow> Some v
           | None \<Rightarrow> (case proto ob of None \<Rightarrow> Some JUndef | Some p \<Rightarrow> get_fuel n h p k)))"

definition get :: "store \<Rightarrow> addr \<Rightarrow> string \<Rightarrow> jsval option" where
  "get st a k = get_fuel (next_addr st) (heap st) a k"

text \<open>\<open>v.k\<close>: reading a property of \<open>undefined\<close> throws; the primitives the
  scripts meet have none of the properties read.\<close>

definition get_val :: "store \<Rightarrow> jsval \<Rightarrow> string \<Rightarrow> jsval option" where
  "get_val st v k = (case v of JRef a \<Rightarrow> get st a k | JUndef \<Rightarrow> None | _ \<Rightarrow> Some JUndef)"

text \<open>\<open>o.k = v\<close> on an ordinary object: an own data property is created or
  overwritten.\<close>

definition set_prop :: "addr \<Rightarrow> string \<Rightarrow> jsval \<Rightarrow> store \<Rightarrow> store option" where
  "set_prop a k v st =
     (case heap st a of
        None \<Rightarrow> None
      | Some ob \<Rightarrow> Some (st\<lparr>heap := (heap st)(a \<mapsto> ob\<lparr>own := (own ob)(k \<mapsto> v)\<rparr>)\<rparr>))"

definition set_val :: "jsval \<Rightarrow> string \<Rightarrow> jsval \<Rightarrow> store \<Rightarrow> store option" where
  "set_val x k v st = (case x of JRef a \<Rightarrow> set_prop a k v st | _ \<Rightarrow> None)"

definition alloc :: "jsobj \<Rightarrow> store \<Rightarrow> addr \<times> store" where
  "alloc ob st = (next_addr st, st\<lparr>heap := (heap st)(next_addr st \<mapsto> ob), next_addr := Suc (next_addr st)\<rparr>)"

text \<open>A function expression or declaration: the function object with its
  own fresh \<open>prototype\<close> object.\<close>

definition new_function :: "jsfun \<Rightarrow> store \<Rightarrow> addr \<times> store" where
  "new_function f st =
     (let (p, st1) = alloc \<lparr>own = Map.empty, proto = None, code = None\<rparr> st
      in alloc \<lparr>own = [''prototype'' \<mapsto> JRef p], proto = None, code = Some f\<rparr> st1)"

text \<open>Does the prototype chain from \<open>a\<close> (inclusive) reach \<open>b\<close>?\<close>

fun chain_has :: "nat \<Rightarrow> (addr \<rightharpoonup> jsobj) \<Rightarrow> addr \<Rightarrow> addr \<Rightarrow> bool" where
  "chain_has 0 h a b = True"
| "chain_has (Suc n) h a b =
     (a = b \<or> (case h a of None \<Rightarrow> False | Some ob \<Rightarrow> (case proto ob of None \<Rightarrow> False | Some p \<Rightarrow> chain_has n h p b)))"

text \<open>\<open>Object.setPrototypeOf(o, v)\<close> for an object \<open>v\<close>; a \<open>v\<close> that is not an
  object (\<open>null\<close> is not used by the scripts) or whose chain contains \<open>o\<close>
  makes it throw.\<close>

definition set_proto :: "addr \<Rightarrow> jsval \<Rightarrow> store \<Rightarrow> store option" where
  "set_proto a v st =
     (case (v, heap st a) of
        (JRef p, Some ob) \<Rightarrow>
          if p \<in> dom (heap st) \<and> \<not> chain_has (next_addr st) (heap st) p a
          then Some (st\<lparr>heap := (heap st)(a \<mapsto> ob\<lparr>proto := Some p\<rparr>)\<rparr>) else None
      | _ \<Rightarrow> None)"

subsection \<open>Calling and constructing\<close>

text \<open>\<open>new F(args)\<close>: the native \<open>Date\<close> makes an object whose prototype is
  \<open>F.prototype\<close> (its time value is not modelled); the utterance shim fills
  the new object's fields; \<open>SafeDate\<close> allocates its \<open>this\<close> object and
  returns \<open>new OriginalDate(...args)\<close> instead, the same with or without
  arguments.\<close>

definition new_date_object :: "addr \<Rightarrow> store \<Rightarrow> (jsval \<times> store) option" where
  "new_date_object f st =
     do { pv \<leftarrow> get st f ''prototype'';
          let pr = (case pv of JRef p \<Rightarrow> Some p | _ \<Rightarrow> None);
          let (d, st1) = alloc \<lparr>own = Map.empty, proto = pr, code = None\<rparr> st;
          Some (JRef d, st1) }"

definition construct :: "jsval \<Rightarrow> jsval list \<Rightarrow> store \<Rightarrow> (jsval \<times> store) option" where
  "construct fv args st =
     (case fv of
        JRef f \<Rightarrow>
          (case heap st f of
             Some fo \<Rightarrow>
               (case code fo of
                  Some NativeDate \<Rightarrow> new_date_object f st
                | Some UtteranceShim \<Rightarrow>
                    do { pv \<leftarrow> get st f ''prototype'';
                         let pr = (case pv of JRef p \<Rightarrow> Some p | _ \<Rightarrow> None);
                         let t = (case args of [] \<Rightarrow> JUndef | x # _ \<Rightarrow> x);
                         let (u, st1) = alloc \<lparr>own = [''text'' \<mapsto> t, ''rate'' \<mapsto> JNum 1, ''pitch'' \<mapsto> JNum 1,
                                                     ''volume'' \<mapsto> JNum 1], proto = pr, code = None\<rparr> st;
                         Some (JRef u, st1) }
                | Some SafeDateFn \<Rightarrow>
                    do { pv \<leftarrow> get st f ''prototype'';
                         let pr = (case pv of JRef p \<Rightarrow> Some p | _ \<Rightarrow> None);
                         let (this, st1) = alloc \<lparr>own = Map.empty, proto = pr, code = None\<rparr> st;
                         od \<leftarrow> lexical st1 ''OriginalDate'';
                         case od of
                           JRef oa \<Rightarrow> (case heap st1 oa of
                                        Some oo \<Rightarrow> if code oo = Some NativeDate then new_date_object oa st1 else None
                                      | None \<Rightarrow> None)
                         | _ \<Rightarrow> None }
                | _ \<Rightarrow> None)
           | None \<Rightarrow> None)
      | _ \<Rightarrow> None)"

text \<open>\<open>F(args)\<close> without \<open>new\<close>: the native \<open>Date\<close> returns the current time as
  a string \<open>now\<close>; \<open>SafeDate\<close> returns \<open>new OriginalDate()\<close>.\<close>

definition call_fun :: "string \<Rightarrow> jsval \<Rightarrow> store \<Rightarrow> (jsval \<times> store) option" where
  "call_fun now fv st =
     (case fv of
        JRef f \<Rightarrow>
          (case map_option code (heap st f) of
             Some (Some NativeDate) \<Rightarrow> Some (JStr now, st)
           | Some (Some SafeDateFn) \<Rightarrow>
               (case lexical st ''OriginalDate'' of
                  Some (JRef oa) \<Rightarrow>
                    (case map_option code (heap st oa) of
                       Some (Some NativeDate) \<Rightarrow> new_date_object oa st
                     | _ \<Rightarrow> None)
                | _ \<Rightarrow> None)
           | _ \<Rightarrow> None)
      | _ \<Rightarrow> None)"

subsection \<open>The shim of \<open>toUTCString\<close>\<close>

definition is_digit :: "char \<Rightarrow> bool" where
  "is_digit c \<longleftrightarrow> c \<in> set ''0123456789''"

text \<open>Does \<open>\.\d{3}Z$\<close> match the whole of \<open>u\<close>, the rest of the string from
  the position tried?\<close>

definition millis_suffix :: "string \<Rightarrow> bool" where
  "millis_suffix u \<longleftrightarrow>
     length u = 5 \<and> u ! 0 = CHR ''.'' \<and> is_digit (u ! 1) \<and> is_digit (u ! 2) \<and> is_digit (u ! 3) \<and>
     u ! 4 = CHR ''Z''"

text \<open>\<open>s.replace(/\.\d{3}Z$/, 'Z')\<close>: the leftmost position where the pattern
  matches is replaced, the match running to the end of the string.\<close>

fun replace_millis :: "string \<Rightarrow> string" where
  "replace_millis [] = []"
| "replace_millis (c # cs) = (if millis_suffix (c # cs) then ''Z'' else c # replace_millis cs)"

text \<open>The shim's method body, on a date whose \<open>toISOString()\<close> is \<open>iso_str\<close>.\<close>

definition toUTCString_shim :: "string \<Rightarrow> string" where
  "toUTCString_shim iso_str = replace_millis iso_str"

subsection \<open>The setup scripts\<close>

text \<open>\<open>global.SpeechSynthesisUtterance = function(text) {...}\<close>.\<close>

definition utterance_shim_stmt :: "store \<Rightarrow> store option" where
  "utterance_shim_stmt st =
     (let (f, st1) = new_function UtteranceShim st
      in set_prop global_addr ''SpeechSynthesisUtterance'' (JRef f) st1)"

text \<open>\<open>if (!P.toUTCString) { P.toUTCString = function() {...}; }\<close> for the
  prototype object \<open>P\<close>.\<close>

definition toUTCString_polyfill :: "jsval \<Rightarrow> store \<Rightarrow> store option" where
  "toUTCString_polyfill pv st =
     do { v \<leftarrow> get_val st pv ''toUTCString'';
          if truthy v then Some st
          else (let (f, st1) = new_function ToUTCStringShim st in set_val pv ''toUTCString'' (JRef f) st1) }"

text \<open>\<open>src/unnamed/part_001\<close>: the utterance shim, then the polyfill on
  \<open>global.Date.prototype\<close>.\<close>

definition jest_setup_001 :: "store \<Rightarrow> store option" where
  "jest_setup_001 st =
     do { st1 \<leftarrow> utterance_shim_stmt st;
          d \<leftarrow> get st1 global_addr ''Date'';
          pv \<leftarrow> get_val st1 d ''prototype'';
          toUTCString_polyfill pv st1 }"

text \<open>\<open>src/unnamed/part_000\<close>: \<open>function SafeDate\<close> is hoisted (created
  before the first statement runs); \<open>OriginalDate\<close> is a \<open>const\<close> of the
  script that \<open>SafeDate\<close>'s body reads.\<close>

definition jest_setup_000 :: "store \<Rightarrow> store option" where
  "jest_setup_000 st =
     (let (sd, st0) = new_function SafeDateFn st
      in do { st1 \<leftarrow> utterance_shim_stmt st0;
              od \<leftarrow> get st1 global_addr ''Date'';
              let st2 = st1\<lparr>lexical := (lexical st1)(''OriginalDate'' \<mapsto> od)\<rparr>;
              st3 \<leftarrow> set_proto sd od st2;
              p \<leftarrow> get_val st3 od ''prototype'';
              st4 \<leftarrow> set_prop sd ''prototype'' p st3;
              sp \<leftarrow> get st4 sd ''prototype'';
              st5 \<leftarrow> toUTCString_polyfill sp st4;
              set_prop global_addr ''Date'' (JRef sd) st5 })"

text \<open>\<open>playAudio\<close>'s utterance (\<open>src/src/index.ts\<close>):
  \<open>const utterance = new SpeechSynthesisUtterance(text); utterance.rate = 0.9;\<close>\<close>

definition make_utterance :: "string \<Rightarrow> store \<Rightarrow> (jsval \<times> store) option" where
  "make_utterance text st =
     do { c \<leftarrow> get st global_addr ''SpeechSynthesisUtterance'';
          (u, st1) \<leftarrow> construct c [JStr text] st;
          st2 \<leftarrow> set_val u ''rate'' (JNum (9/10)) st1;
          Some (u, st2) }"

text \<open>An own property and the code of an object, as facts about a store.\<close>

definition own_at :: "store \<Rightarrow> addr \<Rightarrow> string \<Rightarrow> jsval \<Rightarrow> bool" where
  "own_at st a k v \<longleftrightarrow> map_option (\<lambda>ob. own ob k) (heap st a) = Some (Some v)"

definition code_at :: "store \<Rightarrow> addr \<Rightarrow> jsfun \<Rightarrow> bool" where
  "code_at st a c \<longleftrightarrow> map_option code (heap st a) = Some (Some c)"

text \<open>No object lives at or above the next free address.\<close>

definition fresh :: "store \<Rightarrow> bool" where
  "fresh st \<longleftrightarrow> (\<forall>a. next_addr st \<le> a \<longrightarrow> heap st a = None)"

text \<open>The utterance an object describes, as \<open>playAudio\<close>'s model records it.\<close>

definition utterance_of :: "store \<Rightarrow> jsval \<Rightarrow> utterance option" where
  "utterance_of st v =
     (case v of
        JRef u \<Rightarrow>
          (case map_option (\<lambda>ob. (own ob ''text'', own ob ''rate'')) (heap st u) of
             Some (Some (JStr t), Some (JNum r)) \<Rightarrow> Some \<lparr>u_text = t, u_rate = r\<rparr>
           | _ \<Rightarrow> None)
      | _ \<Rightarrow> None)"

text \<open>The part of jsdom's global environment the scripts touch: \<open>Date\<close> with
  its \<open>prototype\<close> (holding \<open>toISOString\<close>, and \<open>toUTCString\<close> when
  \<open>utc\<close> holds) and the static \<open>now\<close>.\<close>

definition jsdom_store :: "bool \<Rightarrow> store" where
  "jsdom_store utc =
     \<lparr>heap = [0 \<mapsto> \<lparr>own = [''Date'' \<mapsto> JRef 1], proto = None, code = None\<rparr>,
             1 \<mapsto> \<lparr>own = [''prototype'' \<mapsto> JRef 2, ''now'' \<mapsto> JRef 3], proto = None, code = Some NativeDate\<rparr>,
             2 \<mapsto> \<lparr>own = (if utc then [''toUTCString'' \<mapsto> JRef 4, ''toISOString'' \<mapsto> JRef 5]
                          else [''toISOString'' \<mapsto> JRef 5]), proto = None, code = None\<rparr>,
             3 \<mapsto> \<lparr>own = Map.empty, proto = None, code = Some (NativeFn ''now'')\<rparr>,
             4 \<mapsto> \<lparr>own = Map.empty, proto = None, code = Some (NativeFn ''toUTCString'')\<rparr>,
             5 \<mapsto> \<lparr>own = Map.empty, proto = None, code = Some (NativeFn ''toISOString'')\<rparr>],
      next_addr = 6, lexical = Map.empty\<rparr>"

subsection \<open>Lemmas on the store\<close>

lemma get_fuel_mono: "get_fuel n h a k = Some v \<Longrightarrow> n \<le> m \<Longrightarrow> get_fuel m h a k = Some v"
proof (induction n arbitrary: a m)
  case (Suc n)
  then obtain m' where m: "m = Suc m'" "n \<le> m'" by (cases m) auto
  with Suc show ?case by (auto split: option.splits)
qed simp

lemma get_fuel_extend: "get_fuel n h a k = Some v \<Longrightarrow> h \<subseteq>\<^sub>m h' \<Longrightarrow> get_fuel n h' a k = Some v"
proof (induction n arbitrary: a)
  case (Suc n)
  then obtain ob where ob: "h a = Some ob" by (auto split: option.splits)
  with Suc.prems(2) have "h' a = Some ob" by (auto simp: map_le_def dom_def)
  with Suc ob show ?case by (auto split: option.splits)
qed simp

lemma get_fuel_set_other:
  assumes "h b = Some ob" "k \<noteq> k'"
  shows "get_fuel n (h(b \<mapsto> ob\<lparr>own := (own ob)(k' \<mapsto> v')\<rparr>)) a k = get_fuel n h a k"
proof (induction n arbitrary: a)
  case (Suc n)
  show ?case
  proof (cases "a = b")
    case True
    with assms Suc.IH show ?thesis by (simp split: option.splits)
  next
    case False
    with Suc.IH show ?thesis by (simp split: option.splits)
  qed
qed simp

lemma get_fuel_own: "h a = Some ob \<Longrightarrow> own ob k = Some v \<Longrightarrow> get_fuel (Suc n) h a k = Some v"
  by simp

lemma alloc_eq:
  "alloc ob st = (a, st') \<longleftrightarrow>
     a = next_addr st \<and> st' = st\<lparr>heap := (heap st)(next_addr st \<mapsto> ob), next_addr := Suc (next_addr st)\<rparr>"
  by (auto simp: alloc_def)

lemma fresh_alloc: "fresh st \<Longrightarrow> alloc ob st = (a, st') \<Longrightarrow> fresh st' \<and> heap st \<subseteq>\<^sub>m heap st'"
  by (auto simp: alloc_eq fresh_def map_le_def dom_def)

text \<open>The utterance shim is installed: \<open>global.SpeechSynthesisUtterance\<close> is
  the shim's function object \<open>f\<close>, whose \<open>prototype\<close> is \<open>p\<close>.\<close>

definition utterance_ready :: "store \<Rightarrow> addr \<Rightarrow> addr \<Rightarrow> bool" where
  "utterance_ready st f p \<longleftrightarrow>
     own_at st global_addr ''SpeechSynthesisUtterance'' (JRef f) \<and> code_at st f UtteranceShim \<and>
     own_at st f ''prototype'' (JRef p) \<and> f < next_addr st"

text \<open>The store grows from \<open>st\<close> to \<open>st'\<close>: every object of \<open>st\<close> is still
  there with its prototype link and its own properties outside \<open>ks\<close>.\<close>

definition grows :: "store \<Rightarrow> store \<Rightarrow> string set \<Rightarrow> bool" where
  "grows st st' ks \<longleftrightarrow>
     next_addr st \<le> next_addr st' \<and>
     (\<forall>a ob. heap st a = Some ob \<longrightarrow>
        (\<exists>ob'. heap st' a = Some ob' \<and> proto ob' = proto ob \<and> (\<forall>k. k \<notin> ks \<longrightarrow> own ob' k = own ob k)))"

subsection \<open>What the statements keep\<close>

text \<open>A fact about an object the statement does not touch, below the first
  address it allocates.\<close>

definition kept :: "store \<Rightarrow> store \<Rightarrow> addr \<Rightarrow> string \<Rightarrow> bool" where
  "kept st st' a k \<longleftrightarrow>
     a < next_addr st \<and> next_addr st \<le> next_addr st' \<and>
     (\<forall>v. own_at st a k v \<longrightarrow> own_at st' a k v) \<and> (\<forall>c. code_at st a c \<longrightarrow> code_at st' a c)"

lemma alloc_kept: "alloc ob st = (b, st') \<Longrightarrow> a < next_addr st \<Longrightarrow> kept st st' a k"
  by (auto simp: alloc_eq kept_def own_at_def code_at_def)

lemma set_prop_kept:
  "set_prop b k' v' st = Some st' \<Longrightarrow> a < next_addr st \<Longrightarrow> a \<noteq> b \<or> k \<noteq> k' \<Longrightarrow> kept st st' a k"
  by (auto simp: set_prop_def kept_def own_at_def code_at_def split: option.splits)

lemma set_prop_own: "set_prop b k v st = Some st' \<Longrightarrow> own_at st' b k v \<and> next_addr st' = next_addr st"
  by (auto simp: set_prop_def own_at_def split: option.splits)

lemma set_proto_kept: "set_proto b pv st = Some st' \<Longrightarrow> a < next_addr st \<Longrightarrow> kept st st' a k"
  by (auto simp: set_proto_def kept_def own_at_def code_at_def split: option.splits jsval.splits if_splits)

lemma kept_trans:
  "kept st1 st2 a k \<Longrightarrow> kept st2 st3 a k \<Longrightarrow> kept st1 st3 a k"
  by (auto simp: kept_def)

lemma kept_refl: "a < next_addr st \<Longrightarrow> kept st st a k"
  by (simp add: kept_def)

lemma new_function_eq:
  assumes "new_function f st = (a, st')"
  shows "a = Suc (next_addr st) \<and> next_addr st' = Suc (Suc (next_addr st)) \<and>
         own_at st' a ''prototype'' (JRef (next_addr st)) \<and> code_at st' a f \<and>
         lexical st' = lexical st \<and> (\<forall>b k. b < next_addr st \<longrightarrow> kept st st' b k)"
  using assms by (auto simp: new_function_def alloc_def own_at_def code_at_def kept_def Let_def)

lemma polyfill_kept:
  assumes "toUTCString_polyfill pv st = Some st'" "a < next_addr st" "k \<noteq> ''toUTCString''"
  shows "kept st st' a k"
proof -
  obtain v where v: "get_val st pv ''toUTCString'' = Some v"
    and r: "(if truthy v then Some st
             else (let (f, st1) = new_function ToUTCStringShim st in set_val pv ''toUTCString'' (JRef f) st1)) = Some st'"
    using assms(1) unfolding toUTCString_polyfill_def bind_eq_Some_conv by blast
  show ?thesis
  proof (cases "truthy v")
    case True
    with r assms(2) show ?thesis by (simp add: kept_refl)
  next
    case False
    obtain f st1 where nf: "new_function ToUTCStringShim st = (f, st1)" by fastforce
    with r False have sv: "set_val pv ''toUTCString'' (JRef f) st1 = Some st'" by simp
    have k1: "kept st st1 a k" using new_function_eq [OF nf] assms(2) by blast
    then have "a < next_addr st1" by (auto simp: kept_def)
    with sv assms(3) have "kept st1 st' a k"
      by (auto simp: set_val_def intro: set_prop_kept split: jsval.splits)
    with k1 show ?thesis by (rule kept_trans)
  qed
qed

lemma kept_lexical: "a < next_addr st \<Longrightarrow> kept st (st\<lparr>lexical := l\<rparr>) a k"
  by (simp add: kept_def own_at_def code_at_def)

lemma utterance_ready_kept:
  assumes "utterance_ready st f p" "kept st st' global_addr ''SpeechSynthesisUtterance''"
    "kept st st' f ''prototype''"
  shows "utterance_ready st' f p"
  using assms by (auto simp: utterance_ready_def kept_def)

lemma utterance_shim_stmt_ready:
  assumes "utterance_shim_stmt st = Some st'"
  shows "utterance_ready st' (Suc (next_addr st)) (next_addr st) \<and> next_addr st' = Suc (Suc (next_addr st)) \<and>
         lexical st' = lexical st \<and>
         (\<forall>b k. b < next_addr st \<and> (b \<noteq> global_addr \<or> k \<noteq> ''SpeechSynthesisUtterance'') \<longrightarrow> kept st st' b k)"
proof -
  obtain f st1 where nf: "new_function UtteranceShim st = (f, st1)" by fastforce
  with assms have sp: "set_prop global_addr ''SpeechSynthesisUtterance'' (JRef f) st1 = Some st'"
    by (simp add: utterance_shim_stmt_def)
  note n = new_function_eq [OF nf]
  have o: "own_at st' global_addr ''SpeechSynthesisUtterance'' (JRef f)" "next_addr st' = next_addr st1"
    using set_prop_own [OF sp] by simp_all
  have "kept st1 st' f ''prototype''" using set_prop_kept [OF sp, of f] n by simp
  then have "utterance_ready st' f (next_addr st)"
    using n o by (auto simp: utterance_ready_def kept_def)
  moreover have "\<forall>b k. b < next_addr st \<and> (b \<noteq> global_addr \<or> k \<noteq> ''SpeechSynthesisUtterance'') \<longrightarrow> kept st st' b k"
  proof (intro allI impI)
    fix b k
    assume b: "b < next_addr st \<and> (b \<noteq> global_addr \<or> k \<noteq> ''SpeechSynthesisUtterance'')"
    then have "kept st st1 b k" using n by blast
    moreover have "kept st1 st' b k" using set_prop_kept [OF sp, of b k] b n by simp
    ultimately show "kept st st' b k" by (rule kept_trans)
  qed
  moreover have "lexical st' = lexical st"
    using sp n by (auto simp: set_prop_def split: option.splits)
  ultimately show ?thesis using n o by simp
qed

lemma jest_setup_001_ready:
  assumes "jest_setup_001 st = Some st'"
  shows "\<exists>f p. utterance_ready st' f p"
proof -
  obtain st1 d pv where u: "utterance_shim_stmt st = Some st1" and pf: "toUTCString_polyfill pv st1 = Some st'"
    using assms unfolding jest_setup_001_def bind_eq_Some_conv by blast
  note r = utterance_shim_stmt_ready [OF u]
  let ?f = "Suc (next_addr st)"
  have "kept st1 st' global_addr ''SpeechSynthesisUtterance''" "kept st1 st' ?f ''prototype''"
    using polyfill_kept [OF pf] r by (simp_all add: global_addr_def)
  with r show ?thesis using utterance_ready_kept by blast
qed

lemma jest_setup_000_steps:
  assumes "jest_setup_000 st = Some st'"
  obtains sd st0 st1 od st3 p st4 sp st5 where
    "new_function SafeDateFn st = (sd, st0)" "utterance_shim_stmt st0 = Some st1"
    "get st1 global_addr ''Date'' = Some od"
    "set_proto sd od (st1\<lparr>lexical := (lexical st1)(''OriginalDate'' \<mapsto> od)\<rparr>) = Some st3"
    "get_val st3 od ''prototype'' = Some p" "set_prop sd ''prototype'' p st3 = Some st4"
    "get st4 sd ''prototype'' = Some sp" "toUTCString_polyfill sp st4 = Some st5"
    "set_prop global_addr ''Date'' (JRef sd) st5 = Some st'"
proof -
  obtain sd st0 where nf: "new_function SafeDateFn st = (sd, st0)" by fastforce
  with assms show ?thesis
    by (auto simp: jest_setup_000_def bind_eq_Some_conv Let_def intro: that)
qed

lemma jest_setup_000_ready:
  assumes "jest_setup_000 st = Some st'"
  shows "\<exists>f p. utterance_ready st' f p"
proof -
  obtain sd st0 st1 od st3 p st4 sp st5 where
    nf: "new_function SafeDateFn st = (sd, st0)" and u: "utterance_shim_stmt st0 = Some st1"
    and s3: "set_proto sd od (st1\<lparr>lexical := (lexical st1)(''OriginalDate'' \<mapsto> od)\<rparr>) = Some st3"
    and s4: "set_prop sd ''prototype'' p st3 = Some st4" and s5: "toUTCString_polyfill sp st4 = Some st5"
    and s6: "set_prop global_addr ''Date'' (JRef sd) st5 = Some st'"
    using assms by (rule jest_setup_000_steps)
  note n = new_function_eq [OF nf]
  note r = utterance_shim_stmt_ready [OF u]
  let ?f = "Suc (next_addr st0)"
  let ?l = "st1\<lparr>lexical := (lexical st1)(''OriginalDate'' \<mapsto> od)\<rparr>"
  have fsd: "?f \<noteq> sd" using n by simp
  have lt: "global_addr < next_addr st1" "?f < next_addr st1" using r by (simp_all add: global_addr_def)
  have k1: "kept st1 st3 global_addr ''SpeechSynthesisUtterance''" "kept st1 st3 ?f ''prototype''"
    using kept_trans [OF kept_lexical set_proto_kept [OF s3]] lt by simp_all
  then have lt3: "global_addr < next_addr st3" "?f < next_addr st3" by (auto simp: kept_def)
  have k2: "kept st3 st4 global_addr ''SpeechSynthesisUtterance''" "kept st3 st4 ?f ''prototype''"
    using set_prop_kept [OF s4] lt3 fsd by simp_all
  then have lt4: "global_addr < next_addr st4" "?f < next_addr st4" by (auto simp: kept_def)
  have k3: "kept st4 st5 global_addr ''SpeechSynthesisUtterance''" "kept st4 st5 ?f ''prototype''"
    using polyfill_kept [OF s5] lt4 by simp_all
  then have lt5: "global_addr < next_addr st5" "?f < next_addr st5" by (auto simp: kept_def)
  have k4: "kept st5 st' global_addr ''SpeechSynthesisUtterance''" "kept st5 st' ?f ''prototype''"
    using set_prop_kept [OF s6] lt5 by simp_all
  have "utterance_ready st' ?f (next_addr st0)"
    using r k1 k2 k3 k4 by (meson kept_trans utterance_ready_kept)
  then show ?thesis by blast
qed

lemma get_own_at: "own_at st a k v \<Longrightarrow> 0 < next_addr st \<Longrightarrow> get st a k = Some v"
  by (cases "next_addr st") (auto simp: get_def own_at_def)

lemma make_utterance_ready:
  assumes "utterance_ready st f p"
  shows "\<exists>st''. make_utterance text st = Some (JRef (next_addr st), st'') \<and>
           own_at st'' (next_addr st) ''text'' (JStr text) \<and> own_at st'' (next_addr st) ''rate'' (JNum (9/10)) \<and>
           own_at st'' (next_addr st) ''pitch'' (JNum 1) \<and> own_at st'' (next_addr st) ''volume'' (JNum 1) \<and>
           utterance_of st'' (JRef (next_addr st)) = Some \<lparr>u_text = text, u_rate = 9/10\<rparr>"
proof -
  have pos: "0 < next_addr st" using assms by (simp add: utterance_ready_def)
  have g1: "get st global_addr ''SpeechSynthesisUtterance'' = Some (JRef f)"
    and g2: "get st f ''prototype'' = Some (JRef p)"
    using assms get_own_at [OF _ pos] by (simp_all add: utterance_ready_def)
  obtain fo where fo: "heap st f = Some fo" "code fo = Some UtteranceShim"
    using assms by (auto simp: utterance_ready_def code_at_def)
  show ?thesis
    using g1 g2 fo
    by (simp add: make_utterance_def construct_def alloc_def set_val_def set_prop_def own_at_def utterance_of_def)
qed


subsection \<open>Reads that the statements keep\<close>

lemma grows_get_fuel:
  "get_fuel n (heap st) a k = Some v \<Longrightarrow> grows st st' ks \<Longrightarrow> k \<notin> ks \<Longrightarrow> get_fuel n (heap st') a k = Some v"
proof (induction n arbitrary: a)
  case (Suc n)
  then obtain ob where ob: "heap st a = Some ob" by (auto split: option.splits)
  obtain ob' where "heap st' a = Some ob'" "proto ob' = proto ob" "own ob' k = own ob k"
    using Suc.prems(2,3) ob unfolding grows_def by blast
  with Suc ob show ?case by (auto split: option.splits)
qed simp

lemma grows_get:
  assumes "get st a k = Some v" "grows st st' ks" "k \<notin> ks"
  shows "get st' a k = Some v"
proof -
  have "get_fuel (next_addr st) (heap st') a k = Some v"
    using grows_get_fuel assms unfolding get_def by blast
  moreover have "next_addr st \<le> next_addr st'" using assms(2) by (simp add: grows_def)
  ultimately show ?thesis unfolding get_def by (rule get_fuel_mono)
qed

lemma grows_get_val:
  assumes "get_val st x k = Some v" "grows st st' ks" "k \<notin> ks"
  shows "get_val st' x k = Some v"
  using assms(1) grows_get [OF _ assms(2,3)] by (cases x) (simp_all add: get_val_def)

lemma grows_refl: "grows st st {}"
  by (auto simp: grows_def)

lemma grows_trans:
  assumes "grows st1 st2 ks" "grows st2 st3 ks'"
  shows "grows st1 st3 (ks \<union> ks')"
  unfolding grows_def
proof (intro conjI allI impI)
  show "next_addr st1 \<le> next_addr st3" using assms by (auto simp: grows_def)
next
  fix a ob
  assume "heap st1 a = Some ob"
  then obtain ob2 where o2: "heap st2 a = Some ob2" "proto ob2 = proto ob" "\<forall>k. k \<notin> ks \<longrightarrow> own ob2 k = own ob k"
    using assms(1) unfolding grows_def by blast
  then obtain ob3 where "heap st3 a = Some ob3" "proto ob3 = proto ob2" "\<forall>k. k \<notin> ks' \<longrightarrow> own ob3 k = own ob2 k"
    using assms(2) unfolding grows_def by blast
  with o2 show "\<exists>ob'. heap st3 a = Some ob' \<and> proto ob' = proto ob \<and> (\<forall>k. k \<notin> ks \<union> ks' \<longrightarrow> own ob' k = own ob k)"
    by auto
qed

lemma grows_mono: "grows st st' ks \<Longrightarrow> ks \<subseteq> ks' \<Longrightarrow> grows st st' ks'"
  unfolding grows_def by (meson subsetD)

lemma grows_alloc:
  assumes "fresh st" "alloc ob st = (b, st')"
  shows "grows st st' {}"
  unfolding grows_def
proof (intro conjI allI impI)
  show "next_addr st \<le> next_addr st'" using assms(2) by (simp add: alloc_eq)
next
  fix a ob'
  assume h: "heap st a = Some ob'"
  then have "a \<noteq> next_addr st" using assms(1) by (auto simp: fresh_def)
  with h assms(2) show "\<exists>ob''. heap st' a = Some ob'' \<and> proto ob'' = proto ob' \<and> (\<forall>k. k \<notin> {} \<longrightarrow> own ob'' k = own ob' k)"
    by (simp add: alloc_eq)
qed

lemma grows_new_function: "fresh st \<Longrightarrow> new_function f st = (b, st') \<Longrightarrow> grows st st' {} \<and> fresh st'"
proof -
  assume fr: "fresh st" and nf: "new_function f st = (b, st')"
  obtain p st1 where a1: "alloc \<lparr>own = Map.empty, proto = None, code = None\<rparr> st = (p, st1)" by fastforce
  with nf have a2: "alloc \<lparr>own = [''prototype'' \<mapsto> JRef p], proto = None, code = Some f\<rparr> st1 = (b, st')"
    by (simp add: new_function_def)
  have "grows st st1 {}" "fresh st1" using grows_alloc [OF fr a1] fresh_alloc [OF fr a1] by simp_all
  moreover have "grows st1 st' {}" "fresh st'" using grows_alloc [OF _ a2] fresh_alloc [OF _ a2] calculation(2) by simp_all
  ultimately show ?thesis using grows_trans [of st st1 "{}" st' "{}"] by simp
qed

lemma grows_set_prop:
  assumes "set_prop b k v st = Some st'"
  shows "grows st st' {k} \<and> (fresh st \<longrightarrow> fresh st')"
proof -
  obtain ob where ob: "heap st b = Some ob"
    and st': "st' = st\<lparr>heap := (heap st)(b \<mapsto> ob\<lparr>own := (own ob)(k \<mapsto> v)\<rparr>)\<rparr>"
    using assms by (auto simp: set_prop_def split: option.splits)
  have "grows st st' {k}"
    unfolding grows_def
  proof (intro conjI allI impI)
    fix a oa
    assume "heap st a = Some oa"
    then show "\<exists>ob'. heap st' a = Some ob' \<and> proto ob' = proto oa \<and> (\<forall>k'. k' \<notin> {k} \<longrightarrow> own ob' k' = own oa k')"
      using ob st' by (cases "a = b") simp_all
  qed (simp add: st')
  moreover have "fresh st \<longrightarrow> fresh st'"
    using ob st' by (auto simp: fresh_def)
  ultimately show ?thesis by blast
qed

text \<open>A statement that changes an object created after \<open>st\<close> keeps the reads of \<open>st\<close>.\<close>

lemma grows_change_new:
  assumes "grows st st1 ks" "heap st b = None" "heap st2 = (heap st1)(b \<mapsto> ob)" "next_addr st2 = next_addr st1"
  shows "grows st st2 ks"
  unfolding grows_def
proof (intro conjI allI impI)
  show "next_addr st \<le> next_addr st2" using assms(1,4) by (simp add: grows_def)
next
  fix a oa
  assume h: "heap st a = Some oa"
  with assms(2) have "a \<noteq> b" by auto
  with h assms(1,3) show "\<exists>ob'. heap st2 a = Some ob' \<and> proto ob' = proto oa \<and> (\<forall>k. k \<notin> ks \<longrightarrow> own ob' k = own oa k)"
    by (simp add: grows_def)
qed

lemma grows_set_prop_new:
  assumes "grows st st1 ks" "heap st b = None" "set_prop b k v st1 = Some st2"
  shows "grows st st2 ks"
proof -
  obtain ob where "heap st2 = (heap st1)(b \<mapsto> ob\<lparr>own := (own ob)(k \<mapsto> v)\<rparr>)" "next_addr st2 = next_addr st1"
    using assms(3) by (auto simp: set_prop_def split: option.splits)
  with assms(1,2) show ?thesis by (rule grows_change_new)
qed

lemma grows_set_proto_new:
  assumes "grows st st1 ks" "heap st b = None" "set_proto b pv st1 = Some st2"
  shows "grows st st2 ks"
proof -
  obtain ob p where "heap st2 = (heap st1)(b \<mapsto> ob\<lparr>proto := Some p\<rparr>)" "next_addr st2 = next_addr st1"
    using assms(3) by (auto simp: set_proto_def split: option.splits jsval.splits if_splits)
  with assms(1,2) show ?thesis by (rule grows_change_new)
qed

lemma fresh_set_proto:
  assumes "set_proto b pv st = Some st'" "fresh st"
  shows "fresh st'"
proof -
  obtain ob p where ob: "heap st b = Some ob" and h: "heap st' = (heap st)(b \<mapsto> ob\<lparr>proto := Some p\<rparr>)"
    and n: "next_addr st' = next_addr st"
    using assms(1) by (auto simp: set_proto_def split: option.splits jsval.splits if_splits)
  have b: "b < next_addr st" using ob assms(2) by (metis fresh_def not_le option.distinct(1))
  show ?thesis
    unfolding fresh_def
  proof (intro allI impI)
    fix a
    assume "next_addr st' \<le> a"
    then have "next_addr st \<le> a" "a \<noteq> b" using n b by auto
    then show "heap st' a = None" using assms(2) h by (simp add: fresh_def)
  qed
qed

lemma get_in_heap: "get st a k = Some v \<Longrightarrow> heap st a \<noteq> None"
  by (cases "next_addr st") (auto simp: get_def split: option.splits)

lemma fresh_in_heap: "fresh st \<Longrightarrow> heap st a \<noteq> None \<Longrightarrow> a < next_addr st"
  by (metis fresh_def not_le)

lemma utterance_shim_stmt_grows:
  assumes "utterance_shim_stmt st = Some st'" "fresh st"
  shows "grows st st' {''SpeechSynthesisUtterance''} \<and> fresh st'"
proof -
  obtain f st1 where nf: "new_function UtteranceShim st = (f, st1)" by fastforce
  with assms(1) have sp: "set_prop global_addr ''SpeechSynthesisUtterance'' (JRef f) st1 = Some st'"
    by (simp add: utterance_shim_stmt_def)
  note g1 = grows_new_function [OF assms(2) nf]
  note g2 = grows_set_prop [OF sp]
  show ?thesis using g1 g2 grows_trans [of st st1 "{}" st' "{''SpeechSynthesisUtterance''}"] by simp
qed

text \<open>The polyfill statement on an object \<open>p\<close> whose \<open>toUTCString\<close> reads \<open>v\<close>.\<close>

lemma polyfill_result:
  assumes "toUTCString_polyfill (JRef p) st = Some st'" "fresh st" "get st p ''toUTCString'' = Some v"
  shows "grows st st' {''toUTCString''} \<and> fresh st' \<and>
         (\<exists>v'. get st' p ''toUTCString'' = Some v' \<and> (truthy v \<longrightarrow> v' = v) \<and>
               (\<not> truthy v \<longrightarrow> (\<exists>g. v' = JRef g \<and> code_at st' g ToUTCStringShim)))"
proof (cases "truthy v")
  case True
  then have "st' = st" using assms(1,3) by (simp add: toUTCString_polyfill_def get_val_def)
  then show ?thesis using assms(2,3) True grows_mono [OF grows_refl] by blast
next
  case False
  obtain g st1 where nf: "new_function ToUTCStringShim st = (g, st1)" by fastforce
  with assms(1,3) False have sp: "set_prop p ''toUTCString'' (JRef g) st1 = Some st'"
    by (simp add: toUTCString_polyfill_def get_val_def set_val_def)
  note n = new_function_eq [OF nf]
  note g1 = grows_new_function [OF assms(2) nf]
  note g2 = grows_set_prop [OF sp]
  have p: "p < next_addr st" using fresh_in_heap [OF assms(2) get_in_heap [OF assms(3)]] .
  have "kept st1 st' g ''prototype''" using set_prop_kept [OF sp, of g] n p by simp
  then have c: "code_at st' g ToUTCStringShim" using n by (auto simp: kept_def)
  have "own_at st' p ''toUTCString'' (JRef g)" "next_addr st' = next_addr st1" using set_prop_own [OF sp] by simp_all
  then have "get st' p ''toUTCString'' = Some (JRef g)" using n by (simp add: get_own_at)
  then show ?thesis
    using c False g1 g2 grows_trans [of st st1 "{}" st' "{''toUTCString''}"] by auto
qed

lemma set_prop_code: "set_prop b k v st = Some st' \<Longrightarrow> code_at st a c \<Longrightarrow> code_at st' a c"
  by (cases "a = b") (auto simp: set_prop_def code_at_def split: option.splits)

lemma fresh_lexical: "fresh st \<Longrightarrow> fresh (st\<lparr>lexical := l\<rparr>)"
  unfolding fresh_def by simp

lemma grows_lexical: "grows st st1 ks \<Longrightarrow> grows st (st1\<lparr>lexical := l\<rparr>) ks"
  unfolding grows_def by simp

lemma jest_setup_001_utc:
  assumes "jest_setup_001 st = Some st'" "fresh st"
    and "get st global_addr ''Date'' = Some d" "get_val st d ''prototype'' = Some (JRef p)"
    and "get st p ''toUTCString'' = Some v"
  shows "\<exists>v'. get st' p ''toUTCString'' = Some v' \<and> (truthy v \<longrightarrow> v' = v) \<and>
           (\<not> truthy v \<longrightarrow> (\<exists>g. v' = JRef g \<and> code_at st' g ToUTCStringShim))"
proof -
  obtain st1 d' pv where u: "utterance_shim_stmt st = Some st1" and gd: "get st1 global_addr ''Date'' = Some d'"
    and gp: "get_val st1 d' ''prototype'' = Some pv" and pf: "toUTCString_polyfill pv st1 = Some st'"
    using assms(1) unfolding jest_setup_001_def bind_eq_Some_conv by blast
  note g = utterance_shim_stmt_grows [OF u assms(2)]
  have "d' = d" using grows_get [OF assms(3) conjunct1 [OF g]] gd by simp
  then have "pv = JRef p" using grows_get_val [OF assms(4) conjunct1 [OF g]] gp by simp
  moreover have "get st1 p ''toUTCString'' = Some v" using grows_get [OF assms(5) conjunct1 [OF g]] by simp
  ultimately show ?thesis using polyfill_result pf g by blast
qed

lemma jest_setup_000_utc:
  assumes "jest_setup_000 st = Some st'" "fresh st"
    and "get st global_addr ''Date'' = Some d" "get_val st d ''prototype'' = Some (JRef p)"
    and "get st p ''toUTCString'' = Some v"
  shows "\<exists>v'. get st' p ''toUTCString'' = Some v' \<and> (truthy v \<longrightarrow> v' = v) \<and>
           (\<not> truthy v \<longrightarrow> (\<exists>g. v' = JRef g \<and> code_at st' g ToUTCStringShim))"
proof -
  obtain sd st0 st1 od st3 p' st4 sp st5 where
    nf: "new_function SafeDateFn st = (sd, st0)" and u: "utterance_shim_stmt st0 = Some st1"
    and gd: "get st1 global_addr ''Date'' = Some od"
    and s3: "set_proto sd od (st1\<lparr>lexical := (lexical st1)(''OriginalDate'' \<mapsto> od)\<rparr>) = Some st3"
    and gp: "get_val st3 od ''prototype'' = Some p'" and s4: "set_prop sd ''prototype'' p' st3 = Some st4"
    and gs: "get st4 sd ''prototype'' = Some sp" and s5: "toUTCString_polyfill sp st4 = Some st5"
    and s6: "set_prop global_addr ''Date'' (JRef sd) st5 = Some st'"
    using assms(1) by (rule jest_setup_000_steps)
  let ?ks = "{''SpeechSynthesisUtterance''}"
  let ?l = "st1\<lparr>lexical := (lexical st1)(''OriginalDate'' \<mapsto> od)\<rparr>"
  note n = new_function_eq [OF nf]
  note g0 = grows_new_function [OF assms(2) nf]
  note g1 = utterance_shim_stmt_grows [OF u conjunct2 [OF g0]]
  have "next_addr st \<le> sd" using n by simp
  then have sd: "heap st sd = None" using assms(2) unfolding fresh_def by blast
  have gst1: "grows st st1 ?ks" using grows_trans [of st st0 "{}" st1 ?ks] g0 g1 by simp
  have gl: "grows st ?l ?ks" using gst1 by (rule grows_lexical)
  have gst3: "grows st st3 ?ks" by (rule grows_set_proto_new [OF gl sd s3])
  have gst4: "grows st st4 ?ks" by (rule grows_set_prop_new [OF gst3 sd s4])
  have fl: "fresh ?l" using conjunct2 [OF g1] by (rule fresh_lexical)
  have fr4: "fresh st4" using grows_set_prop [OF s4] fresh_set_proto [OF s3 fl] by blast
  have "od = d" using grows_get [OF assms(3) gst1] gd by simp
  then have "p' = JRef p" using grows_get_val [OF assms(4) gst3] gp by simp
  moreover have "0 < next_addr st4" using gs by (cases "next_addr st4") (simp_all add: get_def)
  ultimately have "get st4 sd ''prototype'' = Some (JRef p)"
    using set_prop_own [OF s4] get_own_at [of st4 sd "''prototype''" p'] by simp
  with gs have "sp = JRef p" by simp
  with s5 have s5': "toUTCString_polyfill (JRef p) st4 = Some st5" by simp
  have "get st4 p ''toUTCString'' = Some v" using grows_get [OF assms(5) gst4] by simp
  from polyfill_result [OF s5' fr4 this] obtain v' where v': "get st5 p ''toUTCString'' = Some v'"
    "truthy v \<longrightarrow> v' = v" "\<not> truthy v \<longrightarrow> (\<exists>g. v' = JRef g \<and> code_at st5 g ToUTCStringShim)"
    by blast
  have "get st' p ''toUTCString'' = Some v'"
    using grows_get [OF v'(1) conjunct1 [OF grows_set_prop [OF s6]]] by simp
  moreover have "code_at st5 g c \<Longrightarrow> code_at st' g c" for g c
    by (rule set_prop_code [OF s6])
  ultimately show ?thesis using v' by blast
qed

lemma replace_millis_closed:
  "replace_millis s =
     (if 5 \<le> length s \<and> millis_suffix (drop (length s - 5) s) then take (length s - 5) s @ ''Z'' else s)"
proof (induction s)
  case (Cons c cs)
  show ?case
  proof (cases "millis_suffix (c # cs)")
    case True
    then have "length cs = 4" by (simp add: millis_suffix_def)
    with True show ?thesis by simp
  next
    case False
    have "Suc (length cs) - 5 = Suc (length cs - 5) \<or> length cs < 4 \<or> length cs = 4" by arith
    then show ?thesis
    proof (elim disjE)
      assume l: "length cs < 4"
      then have "\<not> millis_suffix cs" by (simp add: millis_suffix_def)
      with l False Cons.IH show ?thesis by simp
    next
      assume l: "length cs = 4"
      then have "\<not> millis_suffix cs" by (simp add: millis_suffix_def)
      with l False Cons.IH show ?thesis by simp
    next
      assume l: "Suc (length cs) - 5 = Suc (length cs - 5)"
      with False Cons.IH show ?thesis by (auto simp: millis_suffix_def)
    qed
  qed
qed simp

lemma lexical_set_prop: "set_prop b k v st = Some st' \<Longrightarrow> lexical st' = lexical st"
  by (auto simp: set_prop_def split: option.splits)

lemma lexical_set_proto: "set_proto b pv st = Some st' \<Longrightarrow> lexical st' = lexical st"
  unfolding set_proto_def by (auto split: option.splits jsval.splits if_splits)

lemma polyfill_cases:
  assumes "toUTCString_polyfill pv st = Some st'"
  obtains "st' = st"
    | g st1 where "new_function ToUTCStringShim st = (g, st1)" "set_val pv ''toUTCString'' (JRef g) st1 = Some st'"
  using assms unfolding toUTCString_polyfill_def bind_eq_Some_conv
  by (auto split: if_splits prod.splits)

lemma polyfill_lexical: "toUTCString_polyfill pv st = Some st' \<Longrightarrow> lexical st' = lexical st"
proof (erule polyfill_cases)
  fix g st1
  assume nf: "new_function ToUTCStringShim st = (g, st1)" and sv: "set_val pv ''toUTCString'' (JRef g) st1 = Some st'"
  then show "lexical st' = lexical st"
    using new_function_eq [OF nf] lexical_set_prop by (auto simp: set_val_def split: jsval.splits)
qed simp

lemma polyfill_grows:
  assumes "toUTCString_polyfill pv st = Some st'" "fresh st"
  shows "grows st st' {''toUTCString''} \<and> fresh st'"
  using assms(1)
proof (cases rule: polyfill_cases)
  case 1
  then show ?thesis using assms(2) grows_mono [OF grows_refl] by blast
next
  case (2 g st1)
  note g1 = grows_new_function [OF assms(2) 2(1)]
  obtain a where "pv = JRef a" "set_prop a ''toUTCString'' (JRef g) st1 = Some st'"
    using 2(2) by (auto simp: set_val_def split: jsval.splits)
  then have "grows st1 st' {''toUTCString''} \<and> (fresh st1 \<longrightarrow> fresh st')" by (simp add: grows_set_prop)
  then show ?thesis using g1 grows_trans [of st st1 "{}" st' "{''toUTCString''}"] by simp
qed

lemma set_proto_code: "set_proto b pv st = Some st' \<Longrightarrow> code_at st a c \<Longrightarrow> code_at st' a c"
  unfolding set_proto_def code_at_def by (cases "a = b") (auto split: option.splits jsval.splits if_splits)

lemma new_date_object_proto:
  assumes "get st f ''prototype'' = Some (JRef p)"
  shows "\<exists>x st''. new_date_object f st = Some (JRef x, st'') \<and> map_option proto (heap st'' x) = Some (Some p)"
  using assms by (simp add: new_date_object_def alloc_def)

text \<open>After \<open>part_000\<close>, \<open>global.Date\<close> is \<open>SafeDate\<close>, whose \<open>prototype\<close> is the
  original one and whose body reaches the original constructor.\<close>

lemma jest_setup_000_date:
  assumes "jest_setup_000 st = Some st'" "fresh st"
    and "get st global_addr ''Date'' = Some (JRef od)" "code_at st od NativeDate"
    and "get st od ''prototype'' = Some (JRef p)"
  shows "\<exists>sd. get st' global_addr ''Date'' = Some (JRef sd) \<and> code_at st' sd SafeDateFn \<and>
           get st' sd ''prototype'' = Some (JRef p) \<and> lexical st' ''OriginalDate'' = Some (JRef od) \<and>
           code_at st' od NativeDate \<and> get st' od ''prototype'' = Some (JRef p) \<and> fresh st'"
proof -
  obtain sd st0 st1 od' st3 p' st4 sp st5 where
    nf: "new_function SafeDateFn st = (sd, st0)" and u: "utterance_shim_stmt st0 = Some st1"
    and gd: "get st1 global_addr ''Date'' = Some od'"
    and s3: "set_proto sd od' (st1\<lparr>lexical := (lexical st1)(''OriginalDate'' \<mapsto> od')\<rparr>) = Some st3"
    and gp: "get_val st3 od' ''prototype'' = Some p'" and s4: "set_prop sd ''prototype'' p' st3 = Some st4"
    and s5: "toUTCString_polyfill sp st4 = Some st5"
    and s6: "set_prop global_addr ''Date'' (JRef sd) st5 = Some st'"
    using assms(1) by (rule jest_setup_000_steps)
  let ?ks = "{''SpeechSynthesisUtterance''}"
  let ?l = "st1\<lparr>lexical := (lexical st1)(''OriginalDate'' \<mapsto> od')\<rparr>"
  note n = new_function_eq [OF nf]
  note g0 = grows_new_function [OF assms(2) nf]
  note g1 = utterance_shim_stmt_grows [OF u conjunct2 [OF g0]]
  note r1 = utterance_shim_stmt_ready [OF u]
  have "next_addr st \<le> sd" using n by simp
  then have sd: "heap st sd = None" using assms(2) unfolding fresh_def by blast
  have gst1: "grows st st1 ?ks" using grows_trans [of st st0 "{}" st1 ?ks] g0 g1 by simp
  have gst3: "grows st st3 ?ks" by (rule grows_set_proto_new [OF grows_lexical [OF gst1] sd s3])
  have fl: "fresh ?l" using conjunct2 [OF g1] by (rule fresh_lexical)
  have fr4: "fresh st4" using grows_set_prop [OF s4] fresh_set_proto [OF s3 fl] by blast
  have od: "od' = JRef od" using grows_get [OF assms(3) gst1] gd by simp
  then have pp: "p' = JRef p" using grows_get [OF assms(5) gst3] gp by (simp add: get_val_def)
  have od_lt: "od < next_addr st" using assms(2,4) fresh_in_heap by (auto simp: code_at_def)
  have c0: "code_at st0 sd SafeDateFn" "code_at st0 od NativeDate"
    using n assms(4) od_lt by (auto simp: kept_def)
  have "od < next_addr st0" "global_addr < next_addr st0" using n od_lt by (simp_all add: global_addr_def)
  then have c1: "code_at st1 sd SafeDateFn" "code_at st1 od NativeDate"
    using r1 c0 n by (auto simp: kept_def)
  have c3: "code_at st3 sd SafeDateFn" "code_at st3 od NativeDate"
    using c1 set_proto_code [OF s3] by (simp_all add: code_at_def)
  have c4: "code_at st4 sd SafeDateFn" "code_at st4 od NativeDate"
    using c3 set_prop_code [OF s4] by simp_all
  have o4: "own_at st4 sd ''prototype'' (JRef p)" using set_prop_own [OF s4] pp by simp
  have lt4: "sd < next_addr st4" "od < next_addr st4" using c4 fr4 fresh_in_heap by (auto simp: code_at_def)
  have k5: "kept st4 st5 sd ''prototype''" "kept st4 st5 od ''prototype''" using polyfill_kept [OF s5] lt4 by simp_all
  have c5: "code_at st5 sd SafeDateFn" "code_at st5 od NativeDate" "own_at st5 sd ''prototype'' (JRef p)"
    using k5 c4 o4 by (auto simp: kept_def)
  have lt5: "sd < next_addr st5" using k5 by (simp add: kept_def)
  have "sd \<noteq> global_addr" using n by (simp add: global_addr_def)
  then have "kept st5 st' sd ''prototype''" using set_prop_kept [OF s6 lt5] by simp
  then have o': "own_at st' sd ''prototype'' (JRef p)" using c5(3) by (simp add: kept_def)
  have o2: "own_at st' global_addr ''Date'' (JRef sd)" using set_prop_own [OF s6] by simp
  have c': "code_at st' sd SafeDateFn" "code_at st' od NativeDate"
    using c5 set_prop_code [OF s6] by simp_all
  have l': "lexical st' ''OriginalDate'' = Some (JRef od)"
    using lexical_set_prop [OF s6] polyfill_lexical [OF s5] lexical_set_prop [OF s4] lexical_set_proto [OF s3] od
    by simp
  have pos: "0 < next_addr st'" using lt5 set_prop_own [OF s6] by simp
  have fr': "fresh st'" using polyfill_grows [OF s5 fr4] grows_set_prop [OF s6] by blast
  have gst4: "grows st st4 ?ks" by (rule grows_set_prop_new [OF gst3 sd s4])
  have "grows st st' ((?ks \<union> {''toUTCString''}) \<union> {''Date''})"
    using grows_trans [OF grows_trans [OF gst4 conjunct1 [OF polyfill_grows [OF s5 fr4]]]
                          conjunct1 [OF grows_set_prop [OF s6]]] .
  then have "get st' od ''prototype'' = Some (JRef p)" using grows_get [OF assms(5)] by simp
  then show ?thesis
    using get_own_at [OF o' pos] get_own_at [OF o2 pos] c' l' fr' by blast
qed

text \<open>\<open>new SafeDate(...args)\<close> and \<open>SafeDate(...args)\<close> both return
  \<open>new OriginalDate(...)\<close>.\<close>

lemma safedate_object:
  assumes "code_at st sd SafeDateFn" "get st sd ''prototype'' = Some (JRef p)"
    and "lexical st ''OriginalDate'' = Some (JRef od)" "code_at st od NativeDate"
    and "get st od ''prototype'' = Some (JRef p)" "fresh st"
  shows "(\<exists>x st''. construct (JRef sd) args st = Some (JRef x, st'') \<and> map_option proto (heap st'' x) = Some (Some p)) \<and>
         (\<exists>x st''. call_fun now (JRef sd) st = Some (JRef x, st'') \<and> map_option proto (heap st'' x) = Some (Some p))"
proof -
  obtain fo where fo: "heap st sd = Some fo" "code fo = Some SafeDateFn" using assms(1) by (auto simp: code_at_def)
  obtain oo where oo: "heap st od = Some oo" "code oo = Some NativeDate" using assms(4) by (auto simp: code_at_def)
  obtain this st1 where al: "alloc \<lparr>own = Map.empty, proto = Some p, code = None\<rparr> st = (this, st1)" by fastforce
  have "od \<noteq> next_addr st" using oo assms(6) by (auto simp: fresh_def)
  then have oo1: "heap st1 od = Some oo" "lexical st1 = lexical st" using al oo by (auto simp: alloc_eq)
  have "get st1 od ''prototype'' = Some (JRef p)" using grows_get [OF assms(5) grows_alloc [OF assms(6) al]] by simp
  then have n1: "\<exists>x st''. new_date_object od st1 = Some (JRef x, st'') \<and> map_option proto (heap st'' x) = Some (Some p)"
    by (rule new_date_object_proto)
  have "construct (JRef sd) args st = new_date_object od st1"
    using fo oo1 assms(2,3) al oo by (simp add: construct_def)
  moreover have "call_fun now (JRef sd) st = new_date_object od st"
    using fo oo assms(3) by (simp add: call_fun_def)
  ultimately show ?thesis using n1 new_date_object_proto [OF assms(5)] by simp
qed

subsection \<open>Properties of the setup\<close>

text \<open>C31: under either setup script, the utterance \<open>playAudio\<close> builds
  (\<open>new SpeechSynthesisUtterance(text)\<close>, then \<open>rate = 0.9\<close>) is an object
  with the text, rate 0.9 and the shim's pitch and volume 1, and it is the
  utterance the model of \<open>playAudio\<close> records.\<close>

theorem setup_utterance_refines:
  assumes "jest_setup_001 st = Some st' \<or> jest_setup_000 st = Some st'"
  shows "\<exists>u st''. make_utterance text st' = Some (JRef u, st'') \<and>
           own_at st'' u ''text'' (JStr text) \<and> own_at st'' u ''rate'' (JNum (9/10)) \<and>
           own_at st'' u ''pitch'' (JNum 1) \<and> own_at st'' u ''volume'' (JNum 1) \<and>
           utterance_of st'' (JRef u) = Some \<lparr>u_text = text, u_rate = 9/10\<rparr>"
proof -
  obtain f p where "utterance_ready st' f p"
    using assms jest_setup_001_ready jest_setup_000_ready by blast
  then show ?thesis using make_utterance_ready by blast
qed

lemma jsdom_store_fresh: "fresh (jsdom_store utc)"
  by (simp add: jsdom_store_def fresh_def)

lemma jsdom_store_reads:
  "get (jsdom_store utc) global_addr ''Date'' = Some (JRef 1)"
  "get_val (jsdom_store utc) (JRef 1) ''prototype'' = Some (JRef 2)"
  "get (jsdom_store utc) 1 ''prototype'' = Some (JRef 2)"
  "code_at (jsdom_store utc) 1 NativeDate"
  by (cases utc; code_simp)+

lemma jsdom_store_no_utc: "get (jsdom_store False) 2 ''toUTCString'' = Some JUndef"
  by code_simp

lemma jsdom_setup_runs:
  "\<not> Option.is_none (jest_setup_001 (jsdom_store True))"
  "\<not> Option.is_none (jest_setup_001 (jsdom_store False))"
  "\<not> Option.is_none (jest_setup_000 (jsdom_store True))"
  by code_simp+

lemma jsdom_setups:
  "\<exists>st'. jest_setup_001 (jsdom_store True) = Some st'"
  "\<exists>st'. jest_setup_001 (jsdom_store False) = Some st'"
  "\<exists>st'. jest_setup_000 (jsdom_store True) = Some st'"
  using jsdom_setup_runs by (auto simp: Option.is_none_def)

text \<open>C32: the \<open>toUTCString\<close> polyfill only fills a gap: under either setup
  script, \<open>Date.prototype.toUTCString\<close> keeps a method it already had, and a
  missing one becomes the shim.\<close>

theorem setup_polyfill_fills_gap:
  assumes "fresh st" "jest_setup_001 st = Some st' \<or> jest_setup_000 st = Some st'"
    and "get st global_addr ''Date'' = Some d" "get_val st d ''prototype'' = Some (JRef p)"
    and "get st p ''toUTCString'' = Some v"
  shows "\<exists>v'. get st' p ''toUTCString'' = Some v' \<and> (truthy v \<longrightarrow> v' = v) \<and>
           (\<not> truthy v \<longrightarrow> (\<exists>g. v' = JRef g \<and> code_at st' g ToUTCStringShim))"
  using assms(2)
proof
  assume "jest_setup_001 st = Some st'"
  then show ?thesis by (rule jest_setup_001_utc [OF _ assms(1,3-5)])
next
  assume "jest_setup_000 st = Some st'"
  then show ?thesis by (rule jest_setup_000_utc [OF _ assms(1,3-5)])
qed

lemma setup_polyfill_fills_gap_witness:
  "\<exists>st'. fresh (jsdom_store False) \<and> jest_setup_001 (jsdom_store False) = Some st' \<and>
     get (jsdom_store False) global_addr ''Date'' = Some (JRef 1) \<and>
     get_val (jsdom_store False) (JRef 1) ''prototype'' = Some (JRef 2) \<and>
     get (jsdom_store False) 2 ''toUTCString'' = Some JUndef \<and>
     (\<exists>v'. get st' 2 ''toUTCString'' = Some v' \<and> (truthy JUndef \<longrightarrow> v' = JUndef) \<and>
           (\<not> truthy JUndef \<longrightarrow> (\<exists>g. v' = JRef g \<and> code_at st' g ToUTCStringShim)))"
proof -
  obtain st' where h: "jest_setup_001 (jsdom_store False) = Some st'" using jsdom_setups(2) by blast
  note f = jsdom_store_fresh [of False] jsdom_store_reads [of False]
  have "\<exists>v'. get st' 2 ''toUTCString'' = Some v' \<and> (truthy JUndef \<longrightarrow> v' = JUndef) \<and>
           (\<not> truthy JUndef \<longrightarrow> (\<exists>g. v' = JRef g \<and> code_at st' g ToUTCStringShim))"
    by (rule setup_polyfill_fills_gap [OF f(1) disjI1 [OF h] f(2) f(3) jsdom_store_no_utc])
  then show ?thesis using f(1-3) h jsdom_store_no_utc by (intro exI [of _ st']) simp
qed

text \<open>The shim's \<open>replace(/\.\d{3}Z$/, 'Z')\<close> drops exactly a final
  \<open>.ddd\<close> before the \<open>Z\<close> and returns any other string unchanged: on
  \<open>toISOString()\<close>'s \<open>YYYY-MM-DDTHH:mm:ss.sssZ\<close> it gives the ISO form with
  seconds, not the \<open>Www, DD Mmm YYYY HH:mm:ss GMT\<close> of \<open>toUTCString\<close>.\<close>

theorem toUTCString_shim_strips_millis:
  "toUTCString_shim s =
     (if 5 \<le> length s \<and> millis_suffix (drop (length s - 5) s) then take (length s - 5) s @ ''Z'' else s)"
  by (simp add: toUTCString_shim_def replace_millis_closed)

text \<open>C33: after \<open>part_000\<close>, \<open>global.Date\<close> is \<open>SafeDate\<close>: \<open>new Date(...)\<close>
  builds an object on the original \<open>Date.prototype\<close>, the polyfill's
  object; calling \<open>Date()\<close> without \<open>new\<close>, which returned the time as a string
  before, now returns such an object too.\<close>

theorem safedate_replaces_date:
  assumes "fresh st" "jest_setup_000 st = Some st'"
    and "get st global_addr ''Date'' = Some (JRef od)" "code_at st od NativeDate"
    and "get st od ''prototype'' = Some (JRef p)"
  shows "call_fun now (JRef od) st = Some (JStr now, st) \<and>
         (\<exists>sd. get st' global_addr ''Date'' = Some (JRef sd) \<and>
            (\<exists>x st''. construct (JRef sd) args st' = Some (JRef x, st'') \<and> map_option proto (heap st'' x) = Some (Some p)) \<and>
            (\<exists>x st''. call_fun now (JRef sd) st' = Some (JRef x, st'') \<and> map_option proto (heap st'' x) = Some (Some p)))"
proof -
  obtain oo where "heap st od = Some oo" "code oo = Some NativeDate" using assms(4) by (auto simp: code_at_def)
  then have "call_fun now (JRef od) st = Some (JStr now, st)" by (simp add: call_fun_def)
  moreover obtain sd where "get st' global_addr ''Date'' = Some (JRef sd)" "code_at st' sd SafeDateFn"
    "get st' sd ''prototype'' = Some (JRef p)" "lexical st' ''OriginalDate'' = Some (JRef od)"
    "code_at st' od NativeDate" "get st' od ''prototype'' = Some (JRef p)" "fresh st'"
    using jest_setup_000_date [OF assms(2,1,3-5)] by blast
  ultimately show ?thesis using safedate_object by blast
qed

lemma safedate_replaces_date_witness:
  "\<exists>st'. fresh (jsdom_store True) \<and> jest_setup_000 (jsdom_store True) = Some st' \<and>
     get (jsdom_store True) global_addr ''Date'' = Some (JRef 1) \<and> code_at (jsdom_store True) 1 NativeDate \<and>
     get (jsdom_store True) 1 ''prototype'' = Some (JRef 2) \<and>
     call_fun ''Mon Nov 09 2026'' (JRef 1) (jsdom_store True) = Some (JStr ''Mon Nov 09 2026'', jsdom_store True) \<and>
     (\<exists>sd. get st' global_addr ''Date'' = Some (JRef sd) \<and>
        (\<exists>x st''. call_fun ''Mon Nov 09 2026'' (JRef sd) st' = Some (JRef x, st'') \<and>
                  map_option proto (heap st'' x) = Some (Some 2)))"
proof -
  obtain st' where h: "jest_setup_000 (jsdom_store True) = Some st'" using jsdom_setups(3) by blast
  note f = jsdom_store_fresh [of True] jsdom_store_reads [of True]
  have r: "call_fun ''Mon Nov 09 2026'' (JRef 1) (jsdom_store True) = Some (JStr ''Mon Nov 09 2026'', jsdom_store True) \<and>
         (\<exists>sd. get st' global_addr ''Date'' = Some (JRef sd) \<and>
            (\<exists>x st''. construct (JRef sd) [] st' = Some (JRef x, st'') \<and> map_option proto (heap st'' x) = Some (Some 2)) \<and>
            (\<exists>x st''. call_fun ''Mon Nov 09 2026'' (JRef sd) st' = Some (JRef x, st'') \<and>
                      map_option proto (heap st'' x) = Some (Some 2)))"
    by (rule safedate_replaces_date [OF f(1) h f(2) f(5) f(4)])
  then show ?thesis using f(1,2,4,5) h by (intro exI [of _ st']) blast
qed

lemma setup_utterance_refines_witness:
  "\<exists>st'. jest_setup_001 (jsdom_store True) = Some st' \<and>
     (\<exists>u st''. make_utterance ''COLOR'' st' = Some (JRef u, st'') \<and>
        own_at st'' u ''text'' (JStr ''COLOR'') \<and> own_at st'' u ''rate'' (JNum (9/10)) \<and>
        own_at st'' u ''pitch'' (JNum 1) \<and> own_at st'' u ''volume'' (JNum 1) \<and>
        utterance_of st'' (JRef u) = Some \<lparr>u_text = ''COLOR'', u_rate = 9/10\<rparr>)"
proof -
  obtain st' where h: "jest_setup_001 (jsdom_store True) = Some st'" using jsdom_setups(1) by blast
  show ?thesis using h setup_utterance_refines [OF disjI1 [OF h]] by blast
qed

end
