(* ===== verification/SuiteGlobals.thy ===== *)
theory SuiteGlobals
  imports JestSetup
begin

text \<open>
  The global mocks at the top of the unit suite (\<open>src/unnamed/part_002\<close>),
  which run after the setup script that \<open>setupFilesAfterEnv\<close> names, on the
  object store of \<open>JestSetup\<close>.  \<open>Object.defineProperty(global, k, {value})\<close>
  on the configurable global property is the write of \<open>set_prop\<close>; a
  \<open>jest.fn(...)\<close> is a function object (\<open>NativeFn ''jest.fn''\<close>).
\<close>

text \<open>\<open>Object.defineProperty(global, 'Date', {value: {now: jest.fn(() => 1000000)}})\<close>.\<close>

definition suite_date_mock :: "store \<Rightarrow> store option" where
  "suite_date_mock st =
     (let (f, st1) = new_function (NativeFn ''jest.fn'') st;
          (d, st2) = alloc \<lparr>own = [''now'' \<mapsto> JRef f], proto = None, code = None\<rparr> st1
      in set_prop global_addr ''Date'' (JRef d) st2)"

text \<open>After the suite's mock, \<open>global.Date\<close> is a plain object: \<open>new Date()\<close>
  and \<open>Date()\<close> throw (it is not a function), and \<open>Date.prototype\<close> is
  \<open>undefined\<close>, whatever the setup script installed before.\<close>

lemma suite_date_mock_store:
  assumes "suite_date_mock st = Some st'"
  shows "heap st' (Suc (Suc (next_addr st))) = Some \<lparr>own = [''now'' \<mapsto> JRef (Suc (next_addr st))], proto = None, code = None\<rparr>"
    and "next_addr st' = Suc (Suc (Suc (next_addr st)))"
    and "\<exists>ob. heap st' global_addr = Some ob \<and> own ob ''Date'' = Some (JRef (Suc (Suc (next_addr st))))"
proof -
  let ?n = "next_addr st"
  let ?m = "\<lparr>own = [''now'' \<mapsto> JRef (Suc ?n)], proto = None, code = None\<rparr>"
  define st2 where "st2 = st\<lparr>heap := (heap st)(?n \<mapsto> \<lparr>own = Map.empty, proto = None, code = None\<rparr>,
                     Suc ?n \<mapsto> \<lparr>own = [''prototype'' \<mapsto> JRef ?n], proto = None, code = Some (NativeFn ''jest.fn'')\<rparr>,
                     Suc (Suc ?n) \<mapsto> ?m), next_addr := Suc (Suc (Suc ?n))\<rparr>"
  have s: "set_prop global_addr ''Date'' (JRef (Suc (Suc ?n))) st2 = Some st'"
    using assms by (simp add: suite_date_mock_def new_function_def alloc_def st2_def)
  then obtain ob where ob: "heap st2 global_addr = Some ob"
    and st': "st' = st2\<lparr>heap := (heap st2)(global_addr \<mapsto> ob\<lparr>own := (own ob)(''Date'' \<mapsto> JRef (Suc (Suc ?n)))\<rparr>)\<rparr>"
    by (auto simp: set_prop_def split: option.splits)
  have "global_addr \<noteq> Suc (Suc ?n)" by (simp add: global_addr_def)
  then show "heap st' (Suc (Suc ?n)) = Some ?m" by (simp add: st' st2_def)
  show "next_addr st' = Suc (Suc (Suc ?n))" by (simp add: st' st2_def)
  show "\<exists>ob. heap st' global_addr = Some ob \<and> own ob ''Date'' = Some (JRef (Suc (Suc ?n)))" by (simp add: st')
qed

lemma suite_date_mock_not_constructor:
  assumes "suite_date_mock st = Some st'"
  shows "\<exists>d. get st' global_addr ''Date'' = Some (JRef d) \<and> construct (JRef d) args st' = None \<and>
             call_fun now (JRef d) st' = None \<and> get st' d ''prototype'' = Some JUndef"
proof -
  note m = suite_date_mock_store [OF assms]
  obtain ob where "heap st' global_addr = Some ob" "own ob ''Date'' = Some (JRef (Suc (Suc (next_addr st))))"
    using m(3) by blast
  then show ?thesis using m(1,2)
    by (auto simp: get_def construct_def call_fun_def)
qed

lemma suite_date_mock_after_setup:
  "\<exists>st1 st2 d. jest_setup_000 (jsdom_store True) = Some st1 \<and> suite_date_mock st1 = Some st2 \<and>
     get st2 global_addr ''Date'' = Some (JRef d) \<and> construct (JRef d) [] st2 = None \<and>
     get st2 d ''prototype'' = Some JUndef"
proof -
  have "\<not> Option.is_none (jest_setup_000 (jsdom_store True) \<bind> suite_date_mock)" by code_simp
  then obtain st1 st2 where "jest_setup_000 (jsdom_store True) = Some st1" "suite_date_mock st1 = Some st2"
    by (auto simp: Option.is_none_def bind_eq_Some_conv)
  then show ?thesis using suite_date_mock_not_constructor by blast
qed

end
