(* ===== verification/JestConfig.thy ===== *)
theory JestConfig
  imports Prelude
begin

text \<open>
  \<open>src/jest.config.js\<close>: the exported configuration object as an
  association list of option names and JSON-like values, in the order the
  file writes them (a backslash of a regular expression is
  \<open>CHR 0x5C\<close>).  Jest validates the top-level keys against its list of
  options (\<open>jest_options\<close>, from Jest's configuration reference), warns
  about an unknown key and ignores it; \<open>effective_config\<close> is what remains.
\<close>

datatype cfg_val = CStr string | CBool bool | CList "cfg_val list" | CObj "(string \<times> cfg_val) list"

definition jest_config :: "(string \<times> cfg_val) list" where
  "jest_config =
     [(''preset'', CStr ''ts-jest/presets/default-esm''),
      (''extensionsToTreatAsEsm'', CList [CStr ''.ts'']),
      (''testEnvironment'', CStr ''jsdom''),
      (''moduleNameMapping'', CObj [(''^('' @ [CHR 0x5C] @ ''.{1,2}/.*)'' @ [CHR 0x5C] @ ''.js$'', CStr ''$1'')]),
      (''transform'', CObj [(''^.+'' @ [CHR 0x5C] @ ''.ts$'', CList [CStr ''ts-jest'', CObj [(''useESM'', CBool True)]])]),
      (''testMatch'', CList [CStr ''**/*.spec.ts'', CStr ''**/*.test.ts'']),
      (''collectCoverageFrom'', CList [CStr ''src/**/*.ts'', CStr ''!src/**/*.d.ts'']),
      (''setupFilesAfterEnv'', CList [CStr ''<rootDir>/jest.setup.js''])]"

text \<open>The top-level options Jest accepts.\<close>

definition jest_options :: "string list" where
  "jest_options =
     [''automock'', ''bail'', ''cacheDirectory'', ''clearMocks'', ''collectCoverage'', ''collectCoverageFrom'',
      ''coverageDirectory'', ''coveragePathIgnorePatterns'', ''coverageProvider'', ''coverageReporters'',
      ''coverageThreshold'', ''dependencyExtractor'', ''displayName'', ''errorOnDeprecated'',
      ''extensionsToTreatAsEsm'', ''fakeTimers'', ''forceCoverageMatch'', ''globals'', ''globalSetup'',
      ''globalTeardown'', ''haste'', ''injectGlobals'', ''maxConcurrency'', ''maxWorkers'', ''moduleDirectories'',
      ''moduleFileExtensions'', ''moduleNameMapper'', ''modulePathIgnorePatterns'', ''modulePaths'', ''notify'',
      ''notifyMode'', ''openHandlesTimeout'', ''preset'', ''prettierPath'', ''projects'', ''randomize'',
      ''reporters'', ''resetMocks'', ''resetModules'', ''resolver'', ''restoreMocks'', ''rootDir'', ''roots'',
      ''runner'', ''sandboxInjectedGlobals'', ''setupFiles'', ''setupFilesAfterEnv'', ''showSeed'',
      ''slowTestThreshold'', ''snapshotFormat'', ''snapshotResolver'', ''snapshotSerializers'',
      ''testEnvironment'', ''testEnvironmentOptions'', ''testFailureExitCode'', ''testMatch'',
      ''testPathIgnorePatterns'', ''testRegex'', ''testResultsProcessor'', ''testRunner'', ''testSequencer'',
      ''testTimeout'', ''transform'', ''transformIgnorePatterns'', ''unmockedModulePathPatterns'', ''verbose'',
      ''watchPathIgnorePatterns'', ''watchPlugins'', ''watchman'', ''workerIdleMemoryLimit'', ''workerThreads'']"

definition unknown_options :: "(string \<times> cfg_val) list \<Rightarrow> string list" where
  "unknown_options cfg = [k. (k, _) \<leftarrow> cfg, k \<notin> set jest_options]"

definition effective_config :: "(string \<times> cfg_val) list \<Rightarrow> (string \<times> cfg_val) list" where
  "effective_config cfg = filter (\<lambda>(k, _). k \<in> set jest_options) cfg"

subsection \<open>The configuration in effect\<close>

text \<open>The configuration as written has one key Jest does not know,
  \<open>moduleNameMapping\<close>, so the effective configuration has no
  \<open>moduleNameMapper\<close> and the \<open>.js\<close> suffix mapping is never applied; the
  other seven options (jsdom, the ts-jest ESM preset and transform, the
  test patterns, coverage and the setup file) are in effect.\<close>

theorem jest_config_mapper_ignored:
  "unknown_options jest_config = [''moduleNameMapping''] \<and>
   map_of (effective_config jest_config) ''moduleNameMapper'' = None \<and>
   map fst (effective_config jest_config) =
     [''preset'', ''extensionsToTreatAsEsm'', ''testEnvironment'', ''transform'', ''testMatch'',
      ''collectCoverageFrom'', ''setupFilesAfterEnv''] \<and>
   map_of (effective_config jest_config) ''testEnvironment'' = Some (CStr ''jsdom'') \<and>
   map_of (effective_config jest_config) ''setupFilesAfterEnv'' = Some (CList [CStr ''<rootDir>/jest.setup.js''])"
  by (simp add: unknown_options_def effective_config_def jest_config_def jest_options_def)

end
