(* ===== verification/Spec2Isabelle.thy ===== *)
theory Spec2Isabelle
  imports UnitTests EventLoop SuiteGlobals JestConfig
begin

text \<open>
  \<^bold>\<open>A verification library for the Dimensional Change Card Sort task
  (\<^verbatim>\<open>src/src/index.ts\<close>).\<close>

  \<^bold>\<open>The program.\<close> One TypeScript module builds a jsPsych timeline for the
  DCCS task.  Its parts: the stimulus catalogue \<^verbatim>\<open>STIMULI\<close> and three fixed
  trial tables; the mixed-trial generator \<^verbatim>\<open>generateMixedTrials\<close>, which
  alternates the dimension by parity, draws the target with
  \<^verbatim>\<open>Math.random\<close> and randomly swaps the two choices; the response evaluator
  \<^verbatim>\<open>setupTrial\<close>, which wires click handlers with a once-only latch, reports
  \<^verbatim>\<open>{response, correct, rt}\<close> through \<^verbatim>\<open>jsPsych.finishTrial\<close>, delays
  completion after feedback and arms a reminder timer; the module state
  \<^verbatim>\<open>GameState\<close> with \<^verbatim>\<open>resetState\<close>, \<^verbatim>\<open>playAudio\<close> and the welcome
  screen's \<^verbatim>\<open>on_finish\<close>; the screen builders and \<^verbatim>\<open>createTimeline\<close>; the
  results summary of \<^verbatim>\<open>createResults\<close>.  \<^verbatim>\<open>createTimeline\<close> calls the
  generator, the trial screens call \<^verbatim>\<open>setupTrial\<close> when loaded, and the
  summary reads the rows that \<^verbatim>\<open>finishTrial\<close> recorded.

  \<^bold>\<open>Theories.\<close>
  \<^item> \<open>Prelude\<close>: the JavaScript helpers the model needs: array access that
    yields \<open>undefined\<close> (\<open>js_index\<close>), \<open>slice(0, end)\<close> (\<open>js_slice0\<close>),
    \<open>toUpperCase\<close> (\<open>js_upper\<close>), the random source as a stream of draws
    and the predicate \<open>valid_draws\<close> that a prefix lies in \<open>[0, 1)\<close>.
    \<open>js_slice\<close> is the general ECMAScript \<open>slice\<close> algorithm, and
    \<open>js_slice0_equiv\<close> shows the specialised \<open>js_slice0\<close> equal to it.
  \<^item> \<open>Stimuli\<close>: the \<open>Stimulus\<close> and \<open>Trial\<close> interfaces as records, the
    eight catalogue entries, the three tables, and the trial invariant
    \<open>well_posed\<close> (exactly one choice matches the target on the dimension
    and \<open>correct\<close> indexes it); \<open>trial_tables_well_posed\<close> shows every
    row of the tables well posed.
  \<^item> \<open>Generator\<close>: \<open>generateMixedTrials\<close> as the \<open>for\<close> loop
    \<open>gen_loop\<close> (a \<open>function\<close> with the measure \<open>numTrials - i\<close>) over the
    iteration body \<open>mixed_trial\<close>, which returns \<open>Inl (TypeError _)\<close>
    where the source reads a property of \<open>undefined\<close>.  \<open>mixed_spec\<close> is
    the reference, a \<open>map\<close> over the indices; the loop refines it
    (\<open>generateMixedTrials_refines\<close>).  The spec's testable properties
    are \<open>generateMixedTrials_well_posed\<close>, \<open>_length\<close>,
    \<open>_dimension_parity\<close> and \<open>_stimuli\<close>; \<open>_example\<close> is the spec's
    example with every draw 0.5 and \<open>_type_error\<close> the error path.
  \<^item> \<open>GameState\<close>: the module state \<open>GameState\<close> as a record inside a
    \<open>browser\<close> record that also holds \<open>window.tempaudio_enabled\<close>, speech
    support and the utterances spoken; \<open>resetState\<close>, \<open>playAudio\<close>, the
    checkbox's \<open>onchange\<close> and the welcome screen's \<open>on_finish\<close> are
    state transformers.  The lemmas show the checkbox round trip, the audio
    gate, and that an untouched checkbox leaves audio off.
  \<^item> \<open>Response\<close>: \<open>setupTrial\<close> as a state machine.  Its closure state
    (the \<open>responded\<close> latch, \<open>startTime\<close>, the feedback element, the
    highlighted card, the pending \<open>setTimeout\<close> callbacks, the results
    passed to \<open>finishTrial\<close>, the utterances) is the record \<open>trial_ui\<close>;
    \<open>ui_step\<close> takes one event (a click on card \<open>i\<close> or the firing of
    pending timer \<open>j\<close>) and \<open>reach\<close> is the inductive reachability
    relation from \<open>setupTrial\<close>.  The invariant \<open>ui_inv\<close> (rule induction,
    \<open>reach_inv\<close>) gives: at most one result per trial, each result's
    \<open>correct\<close> is \<open>response = trial.correct\<close>, the latch never resets,
    the reminder only speaks while unanswered.  Branch lemmas give the
    1500/2500 ms feedback delays, that the reported \<open>rt\<close> then includes the
    delay, and that a trial whose \<open>correct\<close> names no card throws in the
    click handler and never finishes.  Conversely, the progress invariant
    \<open>progress_ok\<close> (an accepted response has finished or has its finish
    callback pending) gives liveness, \<open>trial_can_finish\<close>: whenever the
    expected card exists, some clicks and timer firings end the trial.
    \<open>run_events\<close> replays event lists.
  \<^item> \<open>Timeline\<close>: screen descriptors as a record (plugin, stimulus lines,
    choices, data, load and finish hooks named by their effect), every
    screen builder, \<open>createTimeline\<close> with its \<open>slice\<close> of the fixed
    tables, the generator call and the optional screens.  The lemmas show
    welcome first and results last exactly when enabled, the screen count,
    no instruction screens when disabled, the trial numbers \<open>index + 1\<close>
    per phase, every trial screen's \<open>correct_response\<close> well posed on its
    dimension, and the negative-\<open>practiceTrials\<close> case of \<open>slice\<close>.
  \<^item> \<open>Results\<close>: the stimulus function of \<open>createResults\<close> on the
    recorded rows: per-phase filters, accuracy \<open>correct / all * 100\<close> and
    the mean correct time in seconds as JavaScript numbers (rationals with
    \<open>NaN\<close> and \<open>Infinity\<close>), \<open>toFixed\<close> and its decimal string, the
    rendered table.  The lemmas show the specification's example, rounding
    to the nearest integer within \<open>[0, 100]\<close>, when a cell reads
    \<open>NaN\<close>, that only the test-phase rows count, and independence of the
    row order.
  \<^item> \<open>Session\<close>: the run that connects them.  A trial screen's
    \<open>on_load\<close> runs \<open>setupTrial\<close> in the context \<open>load_ctx\<close> builds from
    the screen (its trial, dimension and feedback flag, and the cards and
    feedback element that \<open>querySelectorAll\<close> and \<open>getElementById\<close>
    find in its HTML); the first \<open>finishTrial\<close> records \<open>record_row\<close>, the
    screen's \<open>data\<close> merged with the result; \<open>session_rows\<close> is what the
    summary reads.  Over any completed session of well-posed screens
    (every trial state reachable and finished) the summary's accuracy and
    time are those of the abstract view \<open>phase_trials\<close>: the share of a
    phase's screens answered with their \<open>correct_response\<close>, and the mean
    time of those.  A trial run leaves \<open>GameState\<close> untouched, so the
    phase label and trial counter keep their reset values.
  \<^item> \<open>Run\<close>: the screens run in order with the browser threaded through
    (\<open>run_screen\<close>, \<open>run_session\<close>): an instruction screen's narration on
    load, the welcome checkbox and \<open>on_finish\<close>, a trial's \<open>setupTrial\<close>
    and events until it finishes.  Every run records the rows of a completed
    session, so the summary theorems of \<open>Session\<close> apply to it; with audio
    off and the checkbox never checked a whole run speaks nothing; with
    audio on a trial's first utterance is its upper-case dimension cue and
    speech is only ever appended.
  \<^item> \<open>TrialRecords\<close>: the \<open>TrialData\<close> interface as a record and the rows a
    run records read through it; \<open>createTimeline_rows_conform\<close> shows every
    row of a completed run of \<open>createTimeline\<close>'s screens conforms to the
    values the interface admits in this program (response 0 or 1, \<open>rt\<close>
    not negative, one of the four phases, colour or shape, a catalogue
    target), with a small timeline run to the end as witness.
  \<^item> \<open>EventLoop\<close>: the browser's event loop while a trial waits for
    \<open>finishTrial\<close>: the participant is an infinite stream of timed clicks,
    and before each click every \<open>setTimeout\<close> callback due by then runs,
    earliest first (\<open>host_step\<close>).  \<open>await_trial\<close> is a
    \<open>partial_function (option)\<close>, \<open>None\<close> a trial that never ends.
    \<open>await_trial_terminates\<close>: when the expected card exists and the click
    times grow without bound the loop returns, with the trial finished, the
    same as a finite run of \<open>ui_step\<close> events.  \<open>await_trial_hangs\<close>: when
    \<open>correct\<close> names no card and feedback is on, a wrong click hangs it.
  \<^item> \<open>Exports\<close>: the exported objects \<open>timelineComponents\<close> and \<open>utils\<close>
    as records of the builders and internal functions.
  \<^item> \<open>UnitTests\<close>: the Jest suite \<^verbatim>\<open>src/unnamed/part_002\<close> against the
    model: its mocks as definitions, each test as a boolean definition of
    its expectations (calling through \<open>timelineComponents\<close> and \<open>utils\<close>
    as the tests do), decided by \<open>simp\<close>; \<open>unit_suite_outcome\<close> records
    that at run time all pass except the one that sets \<open>window.tempAudioEnabled\<close> and
    the \<open>GameState\<close> type test, whose literal TypeScript's excess property
    check rejects (\<open>literal_errors\<close>); under ts-jest, whose type check
    \<^verbatim>\<open>jest.config.js\<close> leaves on, that error fails the whole file.
    The suite's \<open>setTimeout\<close> mock runs a callback inside the call
    (\<open>immediate_timeout\<close>); \<open>mock_timeout_hides_delay\<close> shows that under
    it a feedback click reports \<open>rt\<close> without the feedback delay, so no test
    can see what \<open>feedback_rt_includes_delay\<close> shows of the browser.
  \<^item> \<open>JestSetup\<close>: the setup scripts \<^verbatim>\<open>src/unnamed/part_001\<close> and
    \<^verbatim>\<open>part_000\<close> on a model of the JavaScript object store: the record
    \<open>store\<close> (heap of objects with own properties, prototype link and
    function code; the lexical bindings of the script), property reads along
    the prototype chain (\<open>get_fuel\<close>, fuel the number of allocated objects,
    enough for the acyclic chains \<open>set_proto\<close>, the model of
    \<open>Object.setPrototypeOf\<close> with its cycle check, admits), \<open>construct\<close>
    and \<open>call_fun\<close> for \<open>new f(...)\<close> and \<open>f(...)\<close>.  Each statement is a
    store transformer that is \<open>None\<close> where the script throws.  The relation
    \<open>grows\<close> (objects kept, with their prototype and their own properties
    outside the written ones) carries the lemmas.  \<open>setup_utterance_refines\<close>:
    under either script, the utterance \<open>playAudio\<close> builds is the object
    whose abstraction \<open>GameState\<close> records; \<open>setup_polyfill_fills_gap\<close>: a
    \<open>toUTCString\<close> already present is kept, a missing one becomes the shim,
    which strips the milliseconds of the ISO string
    (\<open>toUTCString_shim_strips_millis\<close>); \<open>safedate_replaces_date\<close>: after
    \<^verbatim>\<open>part_000\<close> a plain call \<open>Date()\<close> returns a \<open>Date\<close> object, not the
    string the native function returns.  \<open>jsdom_store\<close> is a concrete
    starting store on which both scripts run (\<open>code_simp\<close>).
  \<^item> \<open>SuiteGlobals\<close>: the unit suite's global \<open>Date\<close> mock on the same
    store: it runs after the setup script and leaves \<open>global.Date\<close> a plain
    object, so \<open>new Date()\<close> throws and the setup's \<open>SafeDate\<close> and
    polyfill no longer apply (\<open>suite_date_mock_not_constructor\<close>).
  \<^item> \<open>JestConfig\<close>: \<^verbatim>\<open>src/jest.config.js\<close> as an association list of
    JSON-like values, with Jest's validation of the top-level keys;
    \<open>jest_config_mapper_ignored\<close> shows that the one unknown key is
    \<open>moduleNameMapping\<close>, so no module name mapping is in effect.

  \<^bold>\<open>Choices.\<close> JavaScript numbers used as draws, times and
  percentages are exact rationals; floating-point rounding is not modelled.
  \<open>Math.random\<close> is a stream of draws consumed in call order, two per
  generated trial; the properties assume the prefix they consume lies in
  \<open>[0, 1)\<close>, which is \<open>Math.random\<close>'s contract, and one claim shows
  what the code does otherwise.  The generator's loop terminates by its
  measure and \<open>ui_step\<close> is a single step; event sequences of the
  \<open>Response\<close> and \<open>Run\<close> theories are finite lists.  The only loop that
  may run forever, the wait for a response, is the
  \<open>partial_function (option)\<close> \<open>await_trial\<close>, and that it returns is
  proved as such under the hypothesis that click times are unbounded
  (without it, infinitely many clicks may come before a pending timer is
  due).  The prototype-chain read of \<open>JestSetup\<close> takes as fuel the
  number of allocated objects, the longest chain of an acyclic heap.  Template literals are modelled as
  their lines with leading indentation removed, and the two DOM queries of
  \<open>setupTrial\<close> find an element by the opening tag at the start of its
  line, which is how the templates lay them out.  The jsPsych behaviour the
  module relies on (a screen's \<open>data\<close> merged into the row
  \<open>finishTrial\<close> records, \<open>filter\<close>, \<open>count\<close>, \<open>mean\<close>, screens run in
  order) is modelled from its documentation in \<open>Results\<close>,
  \<open>Session\<close> and \<open>Run\<close>.

  \<^bold>\<open>Not modelled.\<close> The jsPsych framework itself beyond the behaviour
  listed above, DOM rendering and layout of the HTML, and the speech
  synthesis engine: the module only calls them.  Of the Jest
  configuration, what Jest does with the options kept (the ts-jest preset
  and transform, the test globs, coverage collection) belongs to Jest and
  ts-jest, not to this repository.  Of the unit tests, the assertions on
  which DOM selector and which mock calls were made are not modelled (the
  model keeps no log of calls), nor the suite's global mocks of
  \<open>document\<close> and \<open>Math\<close> beyond the values the tests read (the default
  \<open>document\<close> mock is overridden by every test that reads the DOM).
  The full list of utterances a run speaks with audio on is
  only modelled per screen (the cue of each trial and speech only being
  appended).
\<close>

end
